theory Spec2Isabelle
  imports Complex_Main "HOL-Library.Multiset"
begin

section \<open>Python values\<close>

text \<open>
  Every value the pipeline handles comes out of \<^verbatim>\<open>resp.json()\<close>, so the Python values
  of the model are the JSON values: \<^verbatim>\<open>None\<close>, \<^verbatim>\<open>bool\<close>, \<^verbatim>\<open>int\<close> (unbounded),
  \<^verbatim>\<open>float\<close>, \<^verbatim>\<open>str\<close>, \<^verbatim>\<open>list\<close> and \<^verbatim>\<open>dict\<close> with string keys. A float is
  NaN, an infinity (the decoder accepts \<^verbatim>\<open>NaN\<close>, \<^verbatim>\<open>Infinity\<close> and \<^verbatim>\<open>-Infinity\<close>), or a
  finite number, which is idealised as the real number it denotes; a string is taken
  to be text that SQLite can store; a dict is the list of its items in insertion order.
\<close>

datatype pyfloat = Finite real | PosInf | NegInf | NaN

datatype json =
    JNull
  | JBool bool
  | JInt int
  | JFloat pyfloat
  | JStr string
  | JList "json list"
  | JObj "(string \<times> json) list"

text \<open>The exceptions that the source can raise, or let through from its libraries.\<close>

datatype error =
    SystemExit string      \<comment> \<open>raised by \<^verbatim>\<open>get_json\<close>; carries the URL\<close>
  | ValueError             \<comment> \<open>raised by \<^verbatim>\<open>extract_all_launches\<close>\<close>
  | AttributeError         \<comment> \<open>\<^verbatim>\<open>.get\<close> on a value that is not a dict\<close>
  | TypeError              \<comment> \<open>an unhashable value used as a set element or dict key\<close>
  | ProgrammingError       \<comment> \<open>sqlite3: a parameter of an unsupported type\<close>
  | OverflowError          \<comment> \<open>sqlite3: an int outside the 64-bit range\<close>
  | OperationalError       \<comment> \<open>sqlite3: no such table, storage full, storage fault\<close>
  | OSError                \<comment> \<open>file system fault\<close>

text \<open>Truth value testing, as in \<^verbatim>\<open>if rid:\<close> and \<^verbatim>\<open>1 if x else 0\<close>.\<close>

fun truthy :: "json \<Rightarrow> bool" where
  "truthy JNull = False"
| "truthy (JBool b) = b"
| "truthy (JInt n) = (n \<noteq> 0)"
| "truthy (JFloat x) = (x \<noteq> Finite 0)"
| "truthy (JStr s) = (s \<noteq> [])"
| "truthy (JList xs) = (xs \<noteq> [])"
| "truthy (JObj kvs) = (kvs \<noteq> [])"

text \<open>
  \<^verbatim>\<open>d.get(k)\<close>: the value under \<^verbatim>\<open>k\<close>, \<^verbatim>\<open>None\<close> when the key is missing, and an
  AttributeError when \<^verbatim>\<open>d\<close> has no \<^verbatim>\<open>get\<close> method (anything but a dict).
\<close>

fun py_get :: "json \<Rightarrow> string \<Rightarrow> error + json" where
  "py_get (JObj kvs) k = Inr (case map_of kvs k of None \<Rightarrow> JNull | Some v \<Rightarrow> v)"
| "py_get _ k = Inl AttributeError"

text \<open>
  The hashable values: what a set can hold and a dict can have as a key. Lists and
  dicts are unhashable, and using one raises TypeError.
\<close>

datatype atom =
    ANone
  | ABool bool
  | AInt int
  | AFloat pyfloat
  | AStr string

fun hashable :: "json \<Rightarrow> error + atom" where
  "hashable JNull = Inr ANone"
| "hashable (JBool b) = Inr (ABool b)"
| "hashable (JInt n) = Inr (AInt n)"
| "hashable (JFloat x) = Inr (AFloat x)"
| "hashable (JStr s) = Inr (AStr s)"
| "hashable (JList xs) = Inl TypeError"
| "hashable (JObj kvs) = Inl TypeError"

fun atom_num :: "atom \<Rightarrow> real option" where
  "atom_num (ABool b) = Some (if b then 1 else 0)"
| "atom_num (AInt n) = Some (of_int n)"
| "atom_num (AFloat (Finite x)) = Some x"
| "atom_num _ = None"

text \<open>
  How a set or a dict compares two hashable values: numbers by value across bool, int
  and float; everything else, the infinities and NaN included, when they are the same.
  (NaN differs from itself under \<^verbatim>\<open>==\<close>, but the JSON decoder hands out one NaN object,
  and a container looks at identity first.)
\<close>

definition py_eq :: "atom \<Rightarrow> atom \<Rightarrow> bool" where
  "py_eq a b =
     (case (atom_num a, atom_num b) of
        (Some x, Some y) \<Rightarrow> x = y
      | (None, None) \<Rightarrow> a = b
      | _ \<Rightarrow> False)"

text \<open>
  A Python set, as the list of its elements in the order they were first added.
  \<^verbatim>\<open>s.add(x)\<close> keeps the element already there when an equal one is present.
\<close>

definition set_add :: "atom list \<Rightarrow> json \<Rightarrow> error + atom list" where
  "set_add s v =
     (case hashable v of
        Inl e \<Rightarrow> Inl e
      | Inr a \<Rightarrow> Inr (if \<exists>b \<in> set s. py_eq b a then s else s @ [a]))"

section \<open>Identifier extraction (api.py)\<close>

text \<open>
  \<^verbatim>\<open>extract_unique_ids\<close>: the loop over the launches, with the two sets as the loop state.
\<close>

fun extract_loop :: "json list \<Rightarrow> atom list \<Rightarrow> atom list \<Rightarrow> error + (atom list \<times> atom list)" where
  "extract_loop [] rocket_ids launchpad_ids = Inr (rocket_ids, launchpad_ids)"
| "extract_loop (launch # rest) rocket_ids launchpad_ids =
     (case py_get launch ''rocket'' of
        Inl e \<Rightarrow> Inl e
      | Inr rid \<Rightarrow>
     (case py_get launch ''launchpad'' of
        Inl e \<Rightarrow> Inl e
      | Inr pid \<Rightarrow>
     (case (if truthy rid then set_add rocket_ids rid else Inr rocket_ids) of
        Inl e \<Rightarrow> Inl e
      | Inr rocket_ids' \<Rightarrow>
     (case (if truthy pid then set_add launchpad_ids pid else Inr launchpad_ids) of
        Inl e \<Rightarrow> Inl e
      | Inr launchpad_ids' \<Rightarrow> extract_loop rest rocket_ids' launchpad_ids'))))"

definition extract_unique_ids :: "json list \<Rightarrow> error + (atom list \<times> atom list)" where
  "extract_unique_ids launches = extract_loop launches [] []"

text \<open>
  A reference field of a fact is well-typed when it is an identifier (a string) or
  null; a missing key reads as null.
\<close>

definition ref_ok :: "json \<Rightarrow> string \<Rightarrow> bool" where
  "ref_ok launch field =
     (case py_get launch field of
        Inr JNull \<Rightarrow> True
      | Inr (JStr s) \<Rightarrow> True
      | _ \<Rightarrow> False)"

definition refs_ok :: "json list \<Rightarrow> bool" where
  "refs_ok launches =
     (\<forall>l \<in> set launches. ref_ok l ''rocket'' \<and> ref_ok l ''launchpad'')"

text \<open>The identifiers that occur, present and non-empty, under a field of some fact.\<close>

definition occurring :: "json list \<Rightarrow> string \<Rightarrow> atom set" where
  "occurring launches field =
     {AStr s |s. s \<noteq> [] \<and> (\<exists>l \<in> set launches. py_get l field = Inr (JStr s))}"

section \<open>SQLite values and tables (db.py)\<close>

text \<open>
  The storage classes a bound parameter can have. The sqlite3 module adapts
  \<^verbatim>\<open>None\<close>, \<^verbatim>\<open>int\<close> (and \<^verbatim>\<open>bool\<close>, a subclass of it), \<^verbatim>\<open>float\<close> and \<^verbatim>\<open>str\<close>;
  a list or a dict raises ProgrammingError, and an int outside the signed 64-bit range
  raises OverflowError. SQLite has no NaN: a NaN float is bound as NULL.
\<close>

datatype sqlval = SNull | SInt int | SReal pyfloat | SText string

definition MAX_ROWID :: int where
  "MAX_ROWID = 2 ^ 63 - 1"

definition bind_int :: "int \<Rightarrow> error + sqlval" where
  "bind_int n = (if - (2 ^ 63) \<le> n \<and> n \<le> MAX_ROWID then Inr (SInt n) else Inl OverflowError)"

fun sql_bind :: "json \<Rightarrow> error + sqlval" where
  "sql_bind JNull = Inr SNull"
| "sql_bind (JBool b) = Inr (SInt (if b then 1 else 0))"
| "sql_bind (JInt n) = bind_int n"
| "sql_bind (JFloat x) = Inr (if x = NaN then SNull else SReal x)"
| "sql_bind (JStr s) = Inr (SText s)"
| "sql_bind (JList xs) = Inl ProgrammingError"
| "sql_bind (JObj kvs) = Inl ProgrammingError"

fun bind_opt_int :: "int option \<Rightarrow> error + sqlval" where
  "bind_opt_int None = Inr SNull"
| "bind_opt_int (Some n) = bind_int n"

fun json_of_atom :: "atom \<Rightarrow> json" where
  "json_of_atom ANone = JNull"
| "json_of_atom (ABool b) = JBool b"
| "json_of_atom (AInt n) = JInt n"
| "json_of_atom (AFloat x) = JFloat x"
| "json_of_atom (AStr s) = JStr s"

text \<open>
  The conversions between numbers and text that are fixed by SQLite and Python and not
  by this program: how SQLite renders a REAL as TEXT, which texts SQLite reads as a
  number, to which double SQLite rounds an integer, and how Python prints a float.
  Everything below holds for any choice.
\<close>

record conversions =
  text_of_real :: "pyfloat \<Rightarrow> string"
  real_of_text :: "string \<Rightarrow> pyfloat option"
  double_of_int :: "int \<Rightarrow> pyfloat"
  repr_float :: "pyfloat \<Rightarrow> string"

function dec_nat :: "nat \<Rightarrow> string" where
  "dec_nat n =
     (if n < 10 then [''0123456789'' ! n]
      else dec_nat (n div 10) @ [''0123456789'' ! (n mod 10)])"
  by pat_completeness auto
termination
  by (relation "measure (\<lambda>n. n)") auto

declare dec_nat.simps [simp del]

definition dec_int :: "int \<Rightarrow> string" where
  "dec_int i = (if i < 0 then CHR ''-'' # dec_nat (nat (- i)) else dec_nat (nat i))"

text \<open>
  Column affinity, from the column types that \<^verbatim>\<open>create_schema\<close> declares. A TEXT column
  stores a number as its text, so it holds NULL or TEXT only. A REAL column turns an
  integer, and a text that reads as a number, into a REAL. The INTEGER columns only
  ever receive \<^verbatim>\<open>None\<close> or an \<^verbatim>\<open>int\<close> from this program.
\<close>

fun text_affinity :: "conversions \<Rightarrow> sqlval \<Rightarrow> string option" where
  "text_affinity cv SNull = None"
| "text_affinity cv (SInt n) = Some (dec_int n)"
| "text_affinity cv (SReal x) = Some (text_of_real cv x)"
| "text_affinity cv (SText s) = Some s"

fun real_affinity :: "conversions \<Rightarrow> sqlval \<Rightarrow> sqlval" where
  "real_affinity cv SNull = SNull"
| "real_affinity cv (SInt n) = SReal (double_of_int cv n)"
| "real_affinity cv (SReal x) = SReal x"
| "real_affinity cv (SText s) = (case real_of_text cv s of None \<Rightarrow> SText s | Some x \<Rightarrow> SReal x)"

fun integer_affinity :: "sqlval \<Rightarrow> int option" where
  "integer_affinity (SInt n) = Some n"
| "integer_affinity _ = None"

text \<open>
  A row: the surrogate key \<^verbatim>\<open>id INTEGER PRIMARY KEY AUTOINCREMENT\<close>, the natural key
  \<^verbatim>\<open>spacex_id TEXT UNIQUE\<close>, and the other columns. A table: its rows in the order of
  insertion, and the largest key AUTOINCREMENT has handed out (its entry in
  \<^verbatim>\<open>sqlite_sequence\<close>).
\<close>

record 'p row =
  row_id :: int
  row_spacex_id :: "string option"
  cols :: 'p

record 'p table =
  rows :: "'p row list"
  autoinc :: int

definition max_rowid :: "'p row list \<Rightarrow> int" where
  "max_rowid rs = foldr max (map row_id rs) 0"

definition natural_keys :: "'p table \<Rightarrow> string option set" where
  "natural_keys t = row_spacex_id ` set (rows t)"

text \<open>
  \<^verbatim>\<open>INSERT OR IGNORE\<close> of one row. AUTOINCREMENT picks the key first, one more than
  the largest key ever used, and fails when the keys are used up; the counter keeps
  the new key even when the row is then dropped. The row is dropped when its natural
  key is not NULL and already in the table (UNIQUE does not compare NULLs).
\<close>

definition insert_or_ignore :: "'p table \<Rightarrow> string option \<Rightarrow> 'p \<Rightarrow> error + 'p table" where
  "insert_or_ignore t k p =
     (let last = max (autoinc t) (max_rowid (rows t)) in
      if MAX_ROWID \<le> last then Inl OperationalError
      else if k \<noteq> None \<and> k \<in> natural_keys t then Inr (t\<lparr>autoinc := last + 1\<rparr>)
      else Inr \<lparr>rows = rows t @ [\<lparr>row_id = last + 1, row_spacex_id = k, cols = p\<rparr>],
                autoinc = last + 1\<rparr>)"

text \<open>
  \<^verbatim>\<open>cur.execute("INSERT OR IGNORE ...", params)\<close>: the statement is compiled (no such
  table), then the parameters are bound (the second argument is the outcome of binding
  them), then the row is inserted.
\<close>

definition execute_insert ::
  "'p table option \<Rightarrow> error + (string option \<times> 'p) \<Rightarrow> error + 'p table option" where
  "execute_insert t bound =
     (case t of
        None \<Rightarrow> Inl OperationalError
      | Some tb \<Rightarrow>
     (case bound of
        Inl e \<Rightarrow> Inl e
      | Inr (k, p) \<Rightarrow>
     (case insert_or_ignore tb k p of
        Inl e \<Rightarrow> Inl e
      | Inr tb' \<Rightarrow> Inr (Some tb'))))"

text \<open>
  The shape of the three loading loops: for each record, evaluate the parameter tuple
  in Python (\<open>prm\<close>), then execute the insertion with the tuple bound (\<open>cel\<close>).
\<close>

fun insert_each ::
  "('x \<Rightarrow> error + 'q) \<Rightarrow> ('q \<Rightarrow> error + (string option \<times> 'p)) \<Rightarrow>
     'p table option \<Rightarrow> 'x list \<Rightarrow> error + 'p table option" where
  "insert_each prm cel t [] = Inr t"
| "insert_each prm cel t (x # xs) =
     (case prm x of
        Inl e \<Rightarrow> Inl e
      | Inr q \<Rightarrow>
     (case execute_insert t (cel q) of
        Inl e \<Rightarrow> Inl e
      | Inr t' \<Rightarrow> insert_each prm cel t' xs))"

subsection \<open>The schema\<close>

record rocket_cols =
  r_name :: "string option"
  r_type :: "string option"
  r_active :: "int option"

record launchpad_cols =
  p_name :: "string option"
  p_region :: "string option"
  p_latitude :: sqlval
  p_longitude :: sqlval

record launch_cols =
  l_name :: "string option"
  l_date_utc :: "string option"
  l_success :: "int option"
  l_rocket_id :: "int option"
  l_launchpad_id :: "int option"
  l_details :: "string option"

text \<open>The database file: each table is there or not yet created.\<close>

record database =
  rockets :: "rocket_cols table option"
  launchpads :: "launchpad_cols table option"
  launches :: "launch_cols table option"

text \<open>\<^verbatim>\<open>CREATE TABLE IF NOT EXISTS\<close>.\<close>

definition create_table :: "'p table option \<Rightarrow> 'p table option" where
  "create_table t = (case t of None \<Rightarrow> Some \<lparr>rows = [], autoinc = 0\<rparr> | Some tb \<Rightarrow> Some tb)"

text \<open>
  \<^verbatim>\<open>SELECT id, spacex_id FROM t\<close> read into \<^verbatim>\<open>{row[1]: row[0] for row in ...}\<close>: a dict
  whose keys are the natural keys, so strings and, when a row has a NULL natural key,
  \<^verbatim>\<open>None\<close>. A later row overwrites an earlier one under the same key.
\<close>

definition id_map :: "'p table \<Rightarrow> (string option \<rightharpoonup> int)" where
  "id_map t = map_of (rev (map (\<lambda>r. (row_spacex_id r, row_id r)) (rows t)))"

text \<open>
  \<^verbatim>\<open>m.get(v)\<close> on such a dict: TypeError when \<^verbatim>\<open>v\<close> is unhashable; a number is
  hashable and equals no key.
\<close>

definition dict_get :: "(string option \<rightharpoonup> int) \<Rightarrow> json \<Rightarrow> error + int option" where
  "dict_get m v =
     (case hashable v of
        Inl e \<Rightarrow> Inl e
      | Inr ANone \<Rightarrow> Inr (m None)
      | Inr (AStr s) \<Rightarrow> Inr (m (Some s))
      | Inr _ \<Rightarrow> Inr None)"

subsection \<open>load_dimension_tables\<close>

text \<open>The parameter tuple of the rockets loop, and the row it binds to.\<close>

definition rocket_params :: "atom \<times> json \<Rightarrow> error + (json \<times> json \<times> json \<times> int)" where
  "rocket_params item =
     (case item of (spacex_id, r) \<Rightarrow>
     (case py_get r ''name'' of
        Inl e \<Rightarrow> Inl e
      | Inr name \<Rightarrow>
     (case py_get r ''type'' of
        Inl e \<Rightarrow> Inl e
      | Inr type \<Rightarrow>
     (case py_get r ''active'' of
        Inl e \<Rightarrow> Inl e
      | Inr active \<Rightarrow>
          Inr (json_of_atom spacex_id, name, type, if truthy active then 1 else 0)))))"

definition rocket_cells ::
  "conversions \<Rightarrow> json \<times> json \<times> json \<times> int \<Rightarrow> error + (string option \<times> rocket_cols)" where
  "rocket_cells cv q =
     (case q of (spacex_id, name, type, active) \<Rightarrow>
     (case sql_bind spacex_id of
        Inl e \<Rightarrow> Inl e
      | Inr b1 \<Rightarrow>
     (case sql_bind name of
        Inl e \<Rightarrow> Inl e
      | Inr b2 \<Rightarrow>
     (case sql_bind type of
        Inl e \<Rightarrow> Inl e
      | Inr b3 \<Rightarrow>
     (case bind_int active of
        Inl e \<Rightarrow> Inl e
      | Inr b4 \<Rightarrow>
          Inr (text_affinity cv b1,
               \<lparr>r_name = text_affinity cv b2, r_type = text_affinity cv b3,
                r_active = integer_affinity b4\<rparr>))))))"

definition launchpad_params ::
  "atom \<times> json \<Rightarrow> error + (json \<times> json \<times> json \<times> json \<times> json)" where
  "launchpad_params item =
     (case item of (spacex_id, p) \<Rightarrow>
     (case py_get p ''latitude'' of
        Inl e \<Rightarrow> Inl e
      | Inr latitude \<Rightarrow>
     (case py_get p ''longitude'' of
        Inl e \<Rightarrow> Inl e
      | Inr longitude \<Rightarrow>
     (case py_get p ''name'' of
        Inl e \<Rightarrow> Inl e
      | Inr name \<Rightarrow>
     (case py_get p ''region'' of
        Inl e \<Rightarrow> Inl e
      | Inr region \<Rightarrow>
          Inr (json_of_atom spacex_id, name, region, latitude, longitude))))))"

definition launchpad_cells ::
  "conversions \<Rightarrow> json \<times> json \<times> json \<times> json \<times> json \<Rightarrow>
     error + (string option \<times> launchpad_cols)" where
  "launchpad_cells cv q =
     (case q of (spacex_id, name, region, latitude, longitude) \<Rightarrow>
     (case sql_bind spacex_id of
        Inl e \<Rightarrow> Inl e
      | Inr b1 \<Rightarrow>
     (case sql_bind name of
        Inl e \<Rightarrow> Inl e
      | Inr b2 \<Rightarrow>
     (case sql_bind region of
        Inl e \<Rightarrow> Inl e
      | Inr b3 \<Rightarrow>
     (case sql_bind latitude of
        Inl e \<Rightarrow> Inl e
      | Inr b4 \<Rightarrow>
     (case sql_bind longitude of
        Inl e \<Rightarrow> Inl e
      | Inr b5 \<Rightarrow>
          Inr (text_affinity cv b1,
               \<lparr>p_name = text_affinity cv b2, p_region = text_affinity cv b3,
                p_latitude = real_affinity cv b4, p_longitude = real_affinity cv b5\<rparr>)))))))"

text \<open>
  The function: the two loops, the commit, and the two read-backs. It returns the new
  database with the two dicts. When it raises, the error comes with the database as
  committed so far: an exception in a loop leaves its transaction open, to be lost at
  \<^verbatim>\<open>conn.close()\<close>, while a read-back that finds no table raises after the commit.
\<close>

definition load_dimension_tables ::
  "conversions \<Rightarrow> database \<Rightarrow> (atom \<times> json) list \<Rightarrow> (atom \<times> json) list \<Rightarrow>
     (error \<times> database) + (database \<times> (string option \<rightharpoonup> int) \<times> (string option \<rightharpoonup> int))" where
  "load_dimension_tables cv d rockets_map launchpads_map =
     (case insert_each rocket_params (rocket_cells cv) (rockets d) rockets_map of
        Inl e \<Rightarrow> Inl (e, d)
      | Inr rt \<Rightarrow>
     (case insert_each launchpad_params (launchpad_cells cv) (launchpads d) launchpads_map of
        Inl e \<Rightarrow> Inl (e, d)
      | Inr pt \<Rightarrow>
          let d' = d\<lparr>rockets := rt, launchpads := pt\<rparr> in
     (case rt of
        None \<Rightarrow> Inl (OperationalError, d')
      | Some rtab \<Rightarrow>
     (case pt of
        None \<Rightarrow> Inl (OperationalError, d')
      | Some ptab \<Rightarrow> Inr (d', id_map rtab, id_map ptab)))))"

subsection \<open>load_launches\<close>

text \<open>The tri-state encoding of \<^verbatim>\<open>success\<close>.\<close>

definition success_int :: "json \<Rightarrow> int option" where
  "success_int success_val =
     (if success_val = JNull then None else Some (if truthy success_val then 1 else 0))"

definition launch_params ::
  "(string option \<rightharpoonup> int) \<Rightarrow> (string option \<rightharpoonup> int) \<Rightarrow> json \<Rightarrow>
     error + (json \<times> json \<times> json \<times> int option \<times> int option \<times> int option \<times> json)" where
  "launch_params rocket_id_map launchpad_id_map launch =
     (case py_get launch ''id'' of
        Inl e \<Rightarrow> Inl e
      | Inr spacex_id \<Rightarrow>
     (case py_get launch ''rocket'' of
        Inl e \<Rightarrow> Inl e
      | Inr rocket_spacex \<Rightarrow>
     (case py_get launch ''launchpad'' of
        Inl e \<Rightarrow> Inl e
      | Inr launchpad_spacex \<Rightarrow>
     (case dict_get rocket_id_map rocket_spacex of
        Inl e \<Rightarrow> Inl e
      | Inr rocket_id \<Rightarrow>
     (case dict_get launchpad_id_map launchpad_spacex of
        Inl e \<Rightarrow> Inl e
      | Inr launchpad_id \<Rightarrow>
     (case py_get launch ''success'' of
        Inl e \<Rightarrow> Inl e
      | Inr success_val \<Rightarrow>
     (case py_get launch ''name'' of
        Inl e \<Rightarrow> Inl e
      | Inr name \<Rightarrow>
     (case py_get launch ''date_utc'' of
        Inl e \<Rightarrow> Inl e
      | Inr date_utc \<Rightarrow>
     (case py_get launch ''details'' of
        Inl e \<Rightarrow> Inl e
      | Inr details \<Rightarrow>
          Inr (spacex_id, name, date_utc, success_int success_val, rocket_id, launchpad_id,
               details))))))))))"

definition launch_cells ::
  "conversions \<Rightarrow> json \<times> json \<times> json \<times> int option \<times> int option \<times> int option \<times> json \<Rightarrow>
     error + (string option \<times> launch_cols)" where
  "launch_cells cv q =
     (case q of (spacex_id, name, date_utc, success, rocket_id, launchpad_id, details) \<Rightarrow>
     (case sql_bind spacex_id of
        Inl e \<Rightarrow> Inl e
      | Inr b1 \<Rightarrow>
     (case sql_bind name of
        Inl e \<Rightarrow> Inl e
      | Inr b2 \<Rightarrow>
     (case sql_bind date_utc of
        Inl e \<Rightarrow> Inl e
      | Inr b3 \<Rightarrow>
     (case bind_opt_int success of
        Inl e \<Rightarrow> Inl e
      | Inr b4 \<Rightarrow>
     (case bind_opt_int rocket_id of
        Inl e \<Rightarrow> Inl e
      | Inr b5 \<Rightarrow>
     (case bind_opt_int launchpad_id of
        Inl e \<Rightarrow> Inl e
      | Inr b6 \<Rightarrow>
     (case sql_bind details of
        Inl e \<Rightarrow> Inl e
      | Inr b7 \<Rightarrow>
          Inr (text_affinity cv b1,
               \<lparr>l_name = text_affinity cv b2, l_date_utc = text_affinity cv b3,
                l_success = integer_affinity b4, l_rocket_id = integer_affinity b5,
                l_launchpad_id = integer_affinity b6,
                l_details = text_affinity cv b7\<rparr>)))))))))"

definition load_launches ::
  "conversions \<Rightarrow> database \<Rightarrow> json list \<Rightarrow> (string option \<rightharpoonup> int) \<Rightarrow>
     (string option \<rightharpoonup> int) \<Rightarrow> error + database" where
  "load_launches cv d launch_list rocket_id_map launchpad_id_map =
     (case insert_each (launch_params rocket_id_map launchpad_id_map) (launch_cells cv)
             (launches d) launch_list of
        Inl e \<Rightarrow> Inl e
      | Inr lt \<Rightarrow> Inr (d\<lparr>launches := lt\<rparr>))"

section \<open>The fetcher (api.py)\<close>

text \<open>
  What \<^verbatim>\<open>requests.get(url, timeout=20)\<close> can come to: no connection, a timeout, or a
  response with its status code and its body. A body decodes to a JSON value, or is
  not JSON, or is JSON with an integer of more digits than Python converts.
\<close>

datatype body = Decoded json | NotJson | TooManyDigits

datatype http_result = ConnectionFailed | TimedOut | Response nat body

text \<open>The points at which the storage can fault for reasons outside the program.\<close>

datatype fault_point =
    Connect | CreateRockets | CreateLaunchpads | CreateLaunches | LoadDimensions | ReadBack
  | LoadLaunches

text \<open>
  The environment of one run: the remote API, the order in which Python iterates over
  a set (it depends on the hashes, which change from process to process), the
  snapshot files that cannot be written, and the storage faults.
\<close>

record env =
  http :: "string \<Rightarrow> http_result"
  set_order :: "atom list \<Rightarrow> atom list"
  snapshot_fault :: "string \<Rightarrow> bool"
  storage_fault :: "fault_point \<Rightarrow> bool"

definition BASE_URL :: string where
  "BASE_URL = ''https://api.spacexdata.com/v4''"

text \<open>
  \<^verbatim>\<open>get_json\<close>: every \<^verbatim>\<open>RequestException\<close> becomes a SystemExit. \<^verbatim>\<open>raise_for_status\<close>
  raises for a status from 400 to 599, and \<^verbatim>\<open>resp.json()\<close> raises a
  \<^verbatim>\<open>RequestException\<close> of its own on a body that is not JSON (requests 2.27 and later).
  The ValueError of the decoder on an integer with too many digits is no
  \<^verbatim>\<open>RequestException\<close> and passes through.
\<close>

definition url_of :: "string \<Rightarrow> string" where
  "url_of endpoint = BASE_URL @ ''/'' @ dropWhile (\<lambda>c. c = CHR ''/'') endpoint"

definition get_json :: "env \<Rightarrow> string \<Rightarrow> error + json" where
  "get_json en endpoint =
     (let url = url_of endpoint in
      case http en url of
        ConnectionFailed \<Rightarrow> Inl (SystemExit url)
      | TimedOut \<Rightarrow> Inl (SystemExit url)
      | Response status body \<Rightarrow>
          if 400 \<le> status \<and> status < 600 then Inl (SystemExit url)
          else (case body of
                  NotJson \<Rightarrow> Inl (SystemExit url)
                | TooManyDigits \<Rightarrow> Inl ValueError
                | Decoded v \<Rightarrow> Inr v))"

definition extract_all_launches :: "env \<Rightarrow> error + json list" where
  "extract_all_launches en =
     (case get_json en ''launches'' of
        Inl e \<Rightarrow> Inl e
      | Inr (JList launch_list) \<Rightarrow> Inr launch_list
      | Inr _ \<Rightarrow> Inl ValueError)"

text \<open>\<^verbatim>\<open>str(x)\<close> as the f-string of the endpoint uses it.\<close>

fun py_str :: "conversions \<Rightarrow> atom \<Rightarrow> string" where
  "py_str cv ANone = ''None''"
| "py_str cv (ABool b) = (if b then ''True'' else ''False'')"
| "py_str cv (AInt n) = dec_int n"
| "py_str cv (AFloat x) = repr_float cv x"
| "py_str cv (AStr s) = s"

text \<open>\<^verbatim>\<open>d[k] = v\<close> on a dict kept as the list of its items.\<close>

fun dict_set :: "(atom \<times> 'v) list \<Rightarrow> atom \<Rightarrow> 'v \<Rightarrow> (atom \<times> 'v) list" where
  "dict_set [] k v = [(k, v)]"
| "dict_set ((k', v') # rest) k v =
     (if py_eq k' k then (k', v) # rest else (k', v') # dict_set rest k v)"

text \<open>The loop of \<^verbatim>\<open>fetch_rockets\<close> and \<^verbatim>\<open>fetch_launchpads\<close>, over the ids in iteration order.\<close>

fun fetch_each ::
  "conversions \<Rightarrow> env \<Rightarrow> string \<Rightarrow> atom list \<Rightarrow> (atom \<times> json) list \<Rightarrow>
     error + (atom \<times> json) list" where
  "fetch_each cv en resource [] acc = Inr acc"
| "fetch_each cv en resource (i # ids) acc =
     (case get_json en (resource @ ''/'' @ py_str cv i) of
        Inl e \<Rightarrow> Inl e
      | Inr v \<Rightarrow> fetch_each cv en resource ids (dict_set acc i v))"

definition fetch_rockets :: "conversions \<Rightarrow> env \<Rightarrow> atom list \<Rightarrow> error + (atom \<times> json) list" where
  "fetch_rockets cv en unique_rocket_ids =
     fetch_each cv en ''rockets'' (set_order en unique_rocket_ids) []"

definition fetch_launchpads :: "conversions \<Rightarrow> env \<Rightarrow> atom list \<Rightarrow> error + (atom \<times> json) list" where
  "fetch_launchpads cv en unique_launchpad_ids =
     fetch_each cv en ''launchpads'' (set_order en unique_launchpad_ids) []"

section \<open>The pipeline driver (etl.py)\<close>

text \<open>
  \<^verbatim>\<open>create_schema\<close>: three \<^verbatim>\<open>CREATE TABLE IF NOT EXISTS\<close>. The sqlite3 module opens no
  transaction for them, so each is committed as it runs, and a fault at the second
  leaves the first table created. The result is the exception, if any, with the
  database as committed.
\<close>

definition create_schema :: "env \<Rightarrow> database \<Rightarrow> (error + unit) \<times> database" where
  "create_schema en d =
     (if storage_fault en CreateRockets then (Inl OperationalError, d)
      else let d1 = d\<lparr>rockets := create_table (rockets d)\<rparr> in
      if storage_fault en CreateLaunchpads then (Inl OperationalError, d1)
      else let d2 = d1\<lparr>launchpads := create_table (launchpads d1)\<rparr> in
      if storage_fault en CreateLaunches then (Inl OperationalError, d2)
      else (Inr (), d2\<lparr>launches := create_table (launches d2)\<rparr>))"

text \<open>
  The body of the \<^verbatim>\<open>try\<close>. Each loader commits at the end of its loops; when one
  raises, within a loop or by a storage fault, its open transaction is lost at
  \<^verbatim>\<open>conn.close()\<close> and the database stays as committed before. A fault in the
  read-backs of the dimension loader comes after its commit.
\<close>

definition load_all ::
  "conversions \<Rightarrow> env \<Rightarrow> database \<Rightarrow> json list \<Rightarrow> (atom \<times> json) list \<Rightarrow>
     (atom \<times> json) list \<Rightarrow> (error + unit) \<times> database" where
  "load_all cv en d launch_list rockets_map launchpads_map =
     (case create_schema en d of
        (Inl e, d1) \<Rightarrow> (Inl e, d1)
      | (Inr u, d1) \<Rightarrow>
          if storage_fault en LoadDimensions then (Inl OperationalError, d1)
          else
     (case load_dimension_tables cv d1 rockets_map launchpads_map of
        Inl (e, dc) \<Rightarrow> (Inl e, dc)
      | Inr (d2, rocket_id_map, launchpad_id_map) \<Rightarrow>
          if storage_fault en ReadBack then (Inl OperationalError, d2)
          else if storage_fault en LoadLaunches then (Inl OperationalError, d2)
          else
     (case load_launches cv d2 launch_list rocket_id_map launchpad_id_map of
        Inl e \<Rightarrow> (Inl e, d2)
      | Inr d3 \<Rightarrow> (Inr (), d3))))"

text \<open>
  The world a run acts on: the database file, and the log of what happened to storage
  connections.
\<close>

datatype conn_event = Opened | Closed

record world =
  store :: database
  conn_log :: "conn_event list"

text \<open>
  \<^verbatim>\<open>run_etl\<close>. The snapshot files are outside the model but for the fault they can
  raise. \<^verbatim>\<open>get_connection\<close> either raises, and then no connection exists, or opens one;
  the \<^verbatim>\<open>finally\<close> closes it after the body, however the body ended.
\<close>

definition run_etl :: "conversions \<Rightarrow> env \<Rightarrow> world \<Rightarrow> (error + unit) \<times> world" where
  "run_etl cv en w =
     (case extract_all_launches en of
        Inl e \<Rightarrow> (Inl e, w)
      | Inr launch_list \<Rightarrow>
     (case extract_unique_ids launch_list of
        Inl e \<Rightarrow> (Inl e, w)
      | Inr (rocket_ids, launchpad_ids) \<Rightarrow>
     (case fetch_rockets cv en rocket_ids of
        Inl e \<Rightarrow> (Inl e, w)
      | Inr rockets_map \<Rightarrow>
     (case fetch_launchpads cv en launchpad_ids of
        Inl e \<Rightarrow> (Inl e, w)
      | Inr launchpads_map \<Rightarrow>
          if snapshot_fault en ''launches'' \<or> snapshot_fault en ''rockets''
               \<or> snapshot_fault en ''launchpads''
          then (Inl OSError, w)
          else if storage_fault en Connect then (Inl OperationalError, w)
          else
            let w1 = w\<lparr>conn_log := conn_log w @ [Opened]\<rparr>;
                (res, d) = load_all cv en (store w1) launch_list rockets_map launchpads_map
            in (res, w1\<lparr>store := d, conn_log := conn_log w1 @ [Closed]\<rparr>)))))"

section \<open>Notions used to state the properties\<close>

text \<open>The UNIQUE constraint on \<^verbatim>\<open>spacex_id\<close>: no two rows share a natural key that is not NULL.\<close>

definition unique_keys :: "'p table \<Rightarrow> bool" where
  "unique_keys t = distinct (filter (\<lambda>k. k \<noteq> None) (map row_spacex_id (rows t)))"

text \<open>The largest key AUTOINCREMENT knows of, and the row an insertion appends.\<close>

definition last_rowid :: "'p table \<Rightarrow> int" where
  "last_rowid t = max (autoinc t) (max_rowid (rows t))"

definition fresh_row :: "'p table \<Rightarrow> string option \<Rightarrow> 'p \<Rightarrow> 'p row" where
  "fresh_row t k p = \<lparr>row_id = last_rowid t + 1, row_spacex_id = k, cols = p\<rparr>"

text \<open>Record \<open>x\<close> of a loading loop binds to the natural key \<open>k\<close> and the columns \<open>p\<close>.\<close>

definition key_of ::
  "('x \<Rightarrow> error + 'q) \<Rightarrow> ('q \<Rightarrow> error + (string option \<times> 'p)) \<Rightarrow>
     'x \<Rightarrow> string option \<Rightarrow> 'p \<Rightarrow> bool" where
  "key_of prm cel x k p = (\<exists>q. prm x = Inr q \<and> cel q = Inr (k, p))"

text \<open>
  What a TEXT and a REAL column store for a Python value, and the natural key a launch
  record is stored under.
\<close>

definition text_cell :: "conversions \<Rightarrow> json \<Rightarrow> error + string option" where
  "text_cell cv v = (case sql_bind v of Inl e \<Rightarrow> Inl e | Inr b \<Rightarrow> Inr (text_affinity cv b))"

definition real_cell :: "conversions \<Rightarrow> json \<Rightarrow> error + sqlval" where
  "real_cell cv v = (case sql_bind v of Inl e \<Rightarrow> Inl e | Inr b \<Rightarrow> Inr (real_affinity cv b))"

definition launch_key :: "conversions \<Rightarrow> json \<Rightarrow> error + string option" where
  "launch_key cv launch =
     (case py_get launch ''id'' of Inl e \<Rightarrow> Inl e | Inr v \<Rightarrow> text_cell cv v)"

text \<open>
  A fact is fresh for a table and the facts loaded before it when its natural id is
  null, or is neither stored in the table nor the natural id of an earlier fact.
\<close>

definition fresh_fact :: "conversions \<Rightarrow> launch_cols table \<Rightarrow> json list \<Rightarrow> json \<Rightarrow> bool" where
  "fresh_fact cv t pre l =
     (case launch_key cv l of
        Inl e \<Rightarrow> False
      | Inr k \<Rightarrow> k = None \<or> (k \<notin> natural_keys t \<and> (\<forall>y \<in> set pre. launch_key cv y \<noteq> Inr k)))"

text \<open>
  A fetched record has no value under a field; what a TEXT and a REAL column store for
  a field of a record; the natural key a dict key is stored under.
\<close>

definition attr_missing :: "json \<Rightarrow> string \<Rightarrow> bool" where
  "attr_missing r field = (case r of JObj kvs \<Rightarrow> map_of kvs field = None | _ \<Rightarrow> False)"

definition stored_text :: "conversions \<Rightarrow> json \<Rightarrow> string \<Rightarrow> string option \<Rightarrow> bool" where
  "stored_text cv r field c = (\<exists>v. py_get r field = Inr v \<and> text_cell cv v = Inr c)"

definition stored_real :: "conversions \<Rightarrow> json \<Rightarrow> string \<Rightarrow> sqlval \<Rightarrow> bool" where
  "stored_real cv r field c = (\<exists>v. py_get r field = Inr v \<and> real_cell cv v = Inr c)"

definition atom_key :: "conversions \<Rightarrow> atom \<Rightarrow> error + string option" where
  "atom_key cv a = text_cell cv (json_of_atom a)"

text \<open>
  The values that sqlite3 binds: \<^verbatim>\<open>None\<close>, a bool, an int of the signed 64-bit range,
  a float, a string. A field of a record is bindable when the record is a dict and the
  value under the field, or \<^verbatim>\<open>None\<close> for a missing field, is bindable. A fetched item
  is storable when its key and the fields that its loop binds as they are, are
  bindable. A table has room for \<open>n\<close> more statements when AUTOINCREMENT has \<open>n\<close> keys
  left.
\<close>

fun bindable :: "json \<Rightarrow> bool" where
  "bindable (JInt n) = (- (2 ^ 63) \<le> n \<and> n \<le> MAX_ROWID)"
| "bindable (JList xs) = False"
| "bindable (JObj kvs) = False"
| "bindable v = True"

definition field_bindable :: "json \<Rightarrow> string \<Rightarrow> bool" where
  "field_bindable r field = (case py_get r field of Inl e \<Rightarrow> False | Inr v \<Rightarrow> bindable v)"

definition rocket_storable :: "atom \<times> json \<Rightarrow> bool" where
  "rocket_storable item =
     (case item of (spacex_id, r) \<Rightarrow>
        bindable (json_of_atom spacex_id) \<and> field_bindable r ''name'' \<and> field_bindable r ''type'')"

definition launchpad_storable :: "atom \<times> json \<Rightarrow> bool" where
  "launchpad_storable item =
     (case item of (spacex_id, p) \<Rightarrow>
        bindable (json_of_atom spacex_id) \<and> field_bindable p ''name'' \<and> field_bindable p ''region''
        \<and> field_bindable p ''latitude'' \<and> field_bindable p ''longitude'')"

definition has_room :: "'p table \<Rightarrow> nat \<Rightarrow> bool" where
  "has_room t n = (last_rowid t + int n \<le> MAX_ROWID)"

text \<open>
  A field of a record is hashable when the record is a dict and the value under the
  field can be looked up in a dict. A launch record is storable when the fields that
  \<^verbatim>\<open>load_launches\<close> binds as they are, are bindable, and its two references are
  hashable. SQLite keeps a surrogate key in 64 bits; a table of the model, whose keys
  are integers, is one of SQLite's when its keys are in that range.
\<close>

definition field_hashable :: "json \<Rightarrow> string \<Rightarrow> bool" where
  "field_hashable r field =
     (case py_get r field of
        Inl e \<Rightarrow> False
      | Inr v \<Rightarrow> (case hashable v of Inl e \<Rightarrow> False | Inr a \<Rightarrow> True))"

definition launch_storable :: "json \<Rightarrow> bool" where
  "launch_storable launch =
     (field_bindable launch ''id'' \<and> field_bindable launch ''name''
      \<and> field_bindable launch ''date_utc'' \<and> field_bindable launch ''details''
      \<and> field_hashable launch ''rocket'' \<and> field_hashable launch ''launchpad'')"

definition rowids_ok :: "'p table \<Rightarrow> bool" where
  "rowids_ok t = (\<forall>r \<in> set (rows t). - (2 ^ 63) \<le> row_id r \<and> row_id r \<le> MAX_ROWID)"

text \<open>
  A readback dict resolves a table: its keys are the natural keys of the table, and a
  natural key that is not NULL maps to the surrogate key of its row. A table extends
  another: the rows of the other are its first rows, unchanged, and each further row
  has a natural key the other did not hold, or NULL.
\<close>

definition resolves :: "(string option \<rightharpoonup> int) \<Rightarrow> 'p table \<Rightarrow> bool" where
  "resolves m t =
     (dom m = natural_keys t
      \<and> (\<forall>r \<in> set (rows t). row_spacex_id r \<noteq> None \<longrightarrow> m (row_spacex_id r) = Some (row_id r)))"

definition extends :: "'p table \<Rightarrow> 'p table \<Rightarrow> 'p row list \<Rightarrow> bool" where
  "extends t t' new =
     (rows t' = rows t @ new
      \<and> (\<forall>r \<in> set new. row_spacex_id r \<noteq> None \<longrightarrow> row_spacex_id r \<notin> natural_keys t))"

text \<open>
  The surrogate key that a reference value stands for in a dimension table: the key of
  the row whose natural key is that string, and nothing when the value is no string or
  no row has it.
\<close>

definition surrogate_key :: "'p table \<Rightarrow> json \<Rightarrow> int option" where
  "surrogate_key t v =
     (case v of
        JStr s \<Rightarrow>
          (case filter (\<lambda>r. row_spacex_id r = Some s) (rows t) of
             [] \<Rightarrow> None
           | r # _ \<Rightarrow> Some (row_id r))
      | _ \<Rightarrow> None)"

text \<open>
  The answers to a request on which \<^verbatim>\<open>get_json\<close> raises SystemExit: no connection, a
  timeout, a status that \<^verbatim>\<open>raise_for_status\<close> takes for an error (400 to 599), and a
  body that is not JSON. The answers on which the fetch of a collection raises
  ValueError: any other status, with a body that decodes to something other than a list
  or that holds an integer of too many digits.
\<close>

definition transport_failure :: "http_result \<Rightarrow> bool" where
  "transport_failure r =
     (case r of
        ConnectionFailed \<Rightarrow> True
      | TimedOut \<Rightarrow> True
      | Response status body \<Rightarrow> (400 \<le> status \<and> status < 600) \<or> body = NotJson)"

definition format_failure :: "http_result \<Rightarrow> bool" where
  "format_failure r =
     (case r of
        Response status body \<Rightarrow>
          \<not> (400 \<le> status \<and> status < 600)
          \<and> (case body of Decoded (JList xs) \<Rightarrow> False | Decoded v \<Rightarrow> True
                | TooManyDigits \<Rightarrow> True | NotJson \<Rightarrow> False)
      | _ \<Rightarrow> False)"

text \<open>
  A run gets its connection: the extraction and the snapshots go through, and
  \<^verbatim>\<open>get_connection\<close> returns.
\<close>

definition connects :: "conversions \<Rightarrow> env \<Rightarrow> bool" where
  "connects cv en =
     (case extract_all_launches en of
        Inl e \<Rightarrow> False
      | Inr launch_list \<Rightarrow>
     (case extract_unique_ids launch_list of
        Inl e \<Rightarrow> False
      | Inr (rocket_ids, launchpad_ids) \<Rightarrow>
     (case fetch_rockets cv en rocket_ids of
        Inl e \<Rightarrow> False
      | Inr rockets_map \<Rightarrow>
     (case fetch_launchpads cv en launchpad_ids of
        Inl e \<Rightarrow> False
      | Inr launchpads_map \<Rightarrow>
          \<not> snapshot_fault en ''launches'' \<and> \<not> snapshot_fault en ''rockets''
          \<and> \<not> snapshot_fault en ''launchpads'' \<and> \<not> storage_fault en Connect))))"

text \<open>
  A Python value that SQLite stores as NULL. Two invariants of the id sets: no two
  elements are equal in Python's sense, and no element is stored as NULL.
\<close>

definition stored_null :: "json \<Rightarrow> bool" where
  "stored_null v = (v = JNull \<or> v = JFloat NaN)"

definition py_distinct :: "atom list \<Rightarrow> bool" where
  "py_distinct s = (\<forall>a \<in> set s. \<forall>b \<in> set s. py_eq a b \<longrightarrow> a = b)"

definition storable_atoms :: "atom list \<Rightarrow> bool" where
  "storable_atoms s = (\<forall>a \<in> set s. \<not> stored_null (json_of_atom a))"

text \<open>
  The contents of the three tables: their rows. The iteration order of a set is a
  permutation of its elements. Every fact carries a natural id that is stored as such,
  and no reference of a fact is NaN.
\<close>

definition contents ::
  "database \<Rightarrow> rocket_cols row list option \<times> launchpad_cols row list option
     \<times> launch_cols row list option" where
  "contents d =
     (map_option rows (rockets d), map_option rows (launchpads d), map_option rows (launches d))"

definition permutes :: "env \<Rightarrow> bool" where
  "permutes en = (\<forall>s. mset (set_order en s) = mset s)"

definition ids_present :: "json list \<Rightarrow> bool" where
  "ids_present facts =
     (\<forall>l \<in> set facts. py_get l ''id'' \<noteq> Inr JNull \<and> py_get l ''id'' \<noteq> Inr (JFloat NaN))"

definition refs_storable :: "json list \<Rightarrow> bool" where
  "refs_storable facts =
     (\<forall>l \<in> set facts. py_get l ''rocket'' \<noteq> Inr (JFloat NaN)
        \<and> py_get l ''launchpad'' \<noteq> Inr (JFloat NaN))"

section \<open>Example data\<close>

definition ex_facts :: "json list" where
  "ex_facts =
     [JObj [(''rocket'', JStr ''r1''), (''launchpad'', JNull)],
      JObj [(''rocket'', JStr ''r1''), (''launchpad'', JStr ''p1'')]]"

text \<open>Conversions for examples that hold no float.\<close>

definition ex_conversions :: conversions where
  "ex_conversions =
     \<lparr>text_of_real = (\<lambda>x. []), real_of_text = (\<lambda>s. None),
      double_of_int = (\<lambda>n. Finite (of_int n)), repr_float = (\<lambda>x. [])\<rparr>"

definition ex_empty_db :: database where
  "ex_empty_db =
     \<lparr>rockets = Some \<lparr>rows = [], autoinc = 0\<rparr>,
      launchpads = Some \<lparr>rows = [], autoinc = 0\<rparr>,
      launches = Some \<lparr>rows = [], autoinc = 0\<rparr>\<rparr>"

definition ex_success_facts :: "json list" where
  "ex_success_facts =
     [JObj [(''id'', JStr ''L1''), (''success'', JBool True)],
      JObj [(''id'', JStr ''L2''), (''success'', JBool False)],
      JObj [(''id'', JStr ''L3'')]]"

definition ex_anonymous_fact :: json where
  "ex_anonymous_fact = JObj [(''name'', JStr ''x'')]"

definition ex_success_db :: database where
  "ex_success_db =
     ex_empty_db\<lparr>launches := Some \<lparr>rows =
       [\<lparr>row_id = 1, row_spacex_id = Some ''L1'', cols = \<lparr>l_name = None, l_date_utc = None,
           l_success = Some 1, l_rocket_id = None, l_launchpad_id = None, l_details = None\<rparr>\<rparr>,
        \<lparr>row_id = 2, row_spacex_id = Some ''L2'', cols = \<lparr>l_name = None, l_date_utc = None,
           l_success = Some 0, l_rocket_id = None, l_launchpad_id = None, l_details = None\<rparr>\<rparr>,
        \<lparr>row_id = 3, row_spacex_id = Some ''L3'', cols = \<lparr>l_name = None, l_date_utc = None,
           l_success = None, l_rocket_id = None, l_launchpad_id = None, l_details = None\<rparr>\<rparr>],
       autoinc = 3\<rparr>\<rparr>"

text \<open>
  The third fact again, now known to have succeeded, and the database after it is
  loaded into the one above.
\<close>

definition ex_known_fact :: json where
  "ex_known_fact = JObj [(''id'', JStr ''L3''), (''success'', JBool True)]"

definition ex_reloaded_db :: database where
  "ex_reloaded_db =
     ex_empty_db\<lparr>launches := Some \<lparr>rows =
       [\<lparr>row_id = 1, row_spacex_id = Some ''L1'', cols = \<lparr>l_name = None, l_date_utc = None,
           l_success = Some 1, l_rocket_id = None, l_launchpad_id = None, l_details = None\<rparr>\<rparr>,
        \<lparr>row_id = 2, row_spacex_id = Some ''L2'', cols = \<lparr>l_name = None, l_date_utc = None,
           l_success = Some 0, l_rocket_id = None, l_launchpad_id = None, l_details = None\<rparr>\<rparr>,
        \<lparr>row_id = 3, row_spacex_id = Some ''L3'', cols = \<lparr>l_name = None, l_date_utc = None,
           l_success = None, l_rocket_id = None, l_launchpad_id = None, l_details = None\<rparr>\<rparr>],
       autoinc = 4\<rparr>\<rparr>"

definition ex_anonymous_db1 :: database where
  "ex_anonymous_db1 = ex_empty_db\<lparr>launches := Some \<lparr>rows =
       [\<lparr>row_id = 1, row_spacex_id = None, cols = \<lparr>l_name = Some ''x'', l_date_utc = None,
           l_success = None, l_rocket_id = None, l_launchpad_id = None, l_details = None\<rparr>\<rparr>],
       autoinc = 1\<rparr>\<rparr>"

definition ex_anonymous_db2 :: database where
  "ex_anonymous_db2 = ex_empty_db\<lparr>launches := Some \<lparr>rows =
       [\<lparr>row_id = 1, row_spacex_id = None, cols = \<lparr>l_name = Some ''x'', l_date_utc = None,
           l_success = None, l_rocket_id = None, l_launchpad_id = None, l_details = None\<rparr>\<rparr>,
        \<lparr>row_id = 2, row_spacex_id = None, cols = \<lparr>l_name = Some ''x'', l_date_utc = None,
           l_success = None, l_rocket_id = None, l_launchpad_id = None, l_details = None\<rparr>\<rparr>],
       autoinc = 2\<rparr>\<rparr>"

text \<open>The spec's example of re-resolution: \<^verbatim>\<open>r1\<close> stored under key 1, \<^verbatim>\<open>r2\<close> fetched.\<close>

definition ex_rockets1 :: "rocket_cols table" where
  "ex_rockets1 =
     \<lparr>rows = [\<lparr>row_id = 1, row_spacex_id = Some ''r1'',
                cols = \<lparr>r_name = Some ''Falcon 1'', r_type = Some ''rocket'', r_active = Some 0\<rparr>\<rparr>],
      autoinc = 1\<rparr>"

definition ex_rockets2 :: "rocket_cols table" where
  "ex_rockets2 =
     \<lparr>rows = [\<lparr>row_id = 1, row_spacex_id = Some ''r1'',
                cols = \<lparr>r_name = Some ''Falcon 1'', r_type = Some ''rocket'', r_active = Some 0\<rparr>\<rparr>,
              \<lparr>row_id = 2, row_spacex_id = Some ''r2'',
                cols = \<lparr>r_name = Some ''Falcon 9'', r_type = None, r_active = Some 1\<rparr>\<rparr>],
      autoinc = 2\<rparr>"

definition ex_dim_db :: database where
  "ex_dim_db = ex_empty_db\<lparr>rockets := Some ex_rockets1\<rparr>"

definition ex_rockets_map :: "(atom \<times> json) list" where
  "ex_rockets_map = [(AStr ''r2'', JObj [(''name'', JStr ''Falcon 9''), (''active'', JBool True)])]"

text \<open>A launchpad fetched along with \<^verbatim>\<open>r2\<close>, and the tables after both are loaded.\<close>

definition ex_launchpads_map :: "(atom \<times> json) list" where
  "ex_launchpads_map = [(AStr ''p1'', JObj [(''name'', JStr ''VAFB''), (''latitude'', JInt 34)])]"

definition ex_launchpads1 :: "launchpad_cols table" where
  "ex_launchpads1 =
     \<lparr>rows = [\<lparr>row_id = 1, row_spacex_id = Some ''p1'',
                cols = \<lparr>p_name = Some ''VAFB'', p_region = None,
                        p_latitude = SReal (Finite 34), p_longitude = SNull\<rparr>\<rparr>],
      autoinc = 1\<rparr>"

definition ex_dims_db :: database where
  "ex_dims_db = ex_empty_db\<lparr>rockets := Some ex_rockets2, launchpads := Some ex_launchpads1\<rparr>"

text \<open>A rocket record with no attribute at all, and the table it loads to.\<close>

definition ex_bare_map :: "(atom \<times> json) list" where
  "ex_bare_map = [(AStr ''r9'', JObj [])]"

definition ex_bare_rockets :: "rocket_cols table" where
  "ex_bare_rockets =
     \<lparr>rows = [\<lparr>row_id = 1, row_spacex_id = Some ''r9'',
                cols = \<lparr>r_name = None, r_type = None, r_active = Some 0\<rparr>\<rparr>],
      autoinc = 1\<rparr>"

text \<open>Two rockets fetched, and two facts with the same natural id.\<close>

definition ex_two_map :: "(atom \<times> json) list" where
  "ex_two_map =
     [(AStr ''r1'', JObj [(''name'', JStr ''Falcon 1'')]),
      (AStr ''r2'', JObj [(''name'', JStr ''Falcon 9'')])]"

definition ex_two_rockets :: "rocket_cols table" where
  "ex_two_rockets =
     \<lparr>rows = [\<lparr>row_id = 1, row_spacex_id = Some ''r1'',
                cols = \<lparr>r_name = Some ''Falcon 1'', r_type = None, r_active = Some 0\<rparr>\<rparr>,
              \<lparr>row_id = 2, row_spacex_id = Some ''r2'',
                cols = \<lparr>r_name = Some ''Falcon 9'', r_type = None, r_active = Some 0\<rparr>\<rparr>],
      autoinc = 2\<rparr>"

definition ex_no_launchpads :: "launchpad_cols table" where
  "ex_no_launchpads = \<lparr>rows = [], autoinc = 0\<rparr>"

definition ex_two_db :: database where
  "ex_two_db = ex_empty_db\<lparr>rockets := Some ex_two_rockets\<rparr>"

definition ex_dup_facts :: "json list" where
  "ex_dup_facts =
     [JObj [(''id'', JStr ''L1''), (''rocket'', JStr ''r1''), (''launchpad'', JStr ''p0'')],
      JObj [(''id'', JStr ''L1''), (''rocket'', JStr ''r2'')]]"

definition ex_dup_db :: database where
  "ex_dup_db =
     ex_two_db\<lparr>launches := Some \<lparr>rows =
       [\<lparr>row_id = 1, row_spacex_id = Some ''L1'', cols = \<lparr>l_name = None, l_date_utc = None,
           l_success = None, l_rocket_id = Some 1, l_launchpad_id = None, l_details = None\<rparr>\<rparr>],
       autoinc = 2\<rparr>\<rparr>"

text \<open>
  Three facts for the tables above: one refers to the stored rocket and to a launchpad
  that was not fetched, one to the fetched rocket and launchpad, one to nothing; and
  the database after they are loaded.
\<close>

definition ex_ref_facts :: "json list" where
  "ex_ref_facts =
     [JObj [(''id'', JStr ''L1''), (''rocket'', JStr ''r1''), (''launchpad'', JStr ''p0'')],
      JObj [(''id'', JStr ''L2''), (''rocket'', JStr ''r2''), (''launchpad'', JStr ''p1'')],
      JObj [(''id'', JStr ''L3'')]]"

definition ex_refs_db :: database where
  "ex_refs_db =
     ex_dims_db\<lparr>launches := Some \<lparr>rows =
       [\<lparr>row_id = 1, row_spacex_id = Some ''L1'', cols = \<lparr>l_name = None, l_date_utc = None,
           l_success = None, l_rocket_id = Some 1, l_launchpad_id = None, l_details = None\<rparr>\<rparr>,
        \<lparr>row_id = 2, row_spacex_id = Some ''L2'', cols = \<lparr>l_name = None, l_date_utc = None,
           l_success = None, l_rocket_id = Some 2, l_launchpad_id = Some 1, l_details = None\<rparr>\<rparr>,
        \<lparr>row_id = 3, row_spacex_id = Some ''L3'', cols = \<lparr>l_name = None, l_date_utc = None,
           l_success = None, l_rocket_id = None, l_launchpad_id = None, l_details = None\<rparr>\<rparr>],
       autoinc = 3\<rparr>\<rparr>"

text \<open>
  A fact whose rocket is a list, and one whose details are a list with no reference at
  all. A fact whose rocket is the number 5, the dict fetched
  for it, and the table that dict loads to. A dict with the key NaN and the table it
  loads to. A fact with no reference, and the launches table holding one fact \<^verbatim>\<open>L1\<close>
  with a given rocket key.
\<close>

definition ex_list_fact :: json where
  "ex_list_fact = JObj [(''id'', JStr ''L2''), (''rocket'', JList [])]"

definition ex_unbound_fact :: json where
  "ex_unbound_fact = JObj [(''id'', JStr ''L2''), (''details'', JList [])]"

definition ex_num_fact :: json where
  "ex_num_fact = JObj [(''id'', JStr ''L1''), (''rocket'', JInt 5)]"

definition ex_num_map :: "(atom \<times> json) list" where
  "ex_num_map = [(AInt 5, JObj [])]"

definition ex_num_rockets :: "rocket_cols table" where
  "ex_num_rockets =
     \<lparr>rows = [\<lparr>row_id = 1, row_spacex_id = Some ''5'',
                cols = \<lparr>r_name = None, r_type = None, r_active = Some 0\<rparr>\<rparr>],
      autoinc = 1\<rparr>"

definition ex_nan_map :: "(atom \<times> json) list" where
  "ex_nan_map = [(AFloat NaN, JObj [])]"

definition ex_nan_rockets :: "rocket_cols table" where
  "ex_nan_rockets =
     \<lparr>rows = [\<lparr>row_id = 1, row_spacex_id = None,
                cols = \<lparr>r_name = None, r_type = None, r_active = Some 0\<rparr>\<rparr>],
      autoinc = 1\<rparr>"

definition ex_bare_fact :: json where
  "ex_bare_fact = JObj [(''id'', JStr ''L1'')]"

definition ex_one_launch :: "int option \<Rightarrow> launch_cols table" where
  "ex_one_launch rocket_id =
     \<lparr>rows = [\<lparr>row_id = 1, row_spacex_id = Some ''L1'', cols = \<lparr>l_name = None, l_date_utc = None,
           l_success = None, l_rocket_id = rocket_id, l_launchpad_id = None, l_details = None\<rparr>\<rparr>],
      autoinc = 1\<rparr>"

text \<open>
  Environments: the API is down; the API answers the collection with an object; the
  API serves the spec's two facts but no rocket or launchpad; the API serves the two
  facts and the rocket but no launchpad; the API serves one fact without an id; the
  last one again, with a fault while the launches are loaded.
\<close>

definition ex_env_down :: env where
  "ex_env_down =
     \<lparr>http = (\<lambda>u. ConnectionFailed), set_order = (\<lambda>s. s),
      snapshot_fault = (\<lambda>n. False), storage_fault = (\<lambda>p. False)\<rparr>"

definition ex_env_object :: env where
  "ex_env_object =
     \<lparr>http = (\<lambda>u. Response 200 (Decoded (JObj []))), set_order = (\<lambda>s. s),
      snapshot_fault = (\<lambda>n. False), storage_fault = (\<lambda>p. False)\<rparr>"

definition ex_env_no_rockets :: env where
  "ex_env_no_rockets =
     \<lparr>http = (\<lambda>u. if u = url_of ''launches'' then Response 200 (Decoded (JList ex_facts))
                   else Response 404 NotJson),
      set_order = (\<lambda>s. s),
      snapshot_fault = (\<lambda>n. False), storage_fault = (\<lambda>p. False)\<rparr>"

definition ex_env_no_launchpads :: env where
  "ex_env_no_launchpads =
     \<lparr>http = (\<lambda>u. if u = url_of ''launches'' then Response 200 (Decoded (JList ex_facts))
                   else if u = url_of ''rockets/r1'' then Response 200 (Decoded (JObj []))
                   else Response 404 NotJson),
      set_order = (\<lambda>s. s),
      snapshot_fault = (\<lambda>n. False), storage_fault = (\<lambda>p. False)\<rparr>"

definition ex_env_anonymous :: env where
  "ex_env_anonymous =
     \<lparr>http = (\<lambda>u. if u = url_of ''launches'' then Response 200 (Decoded (JList [ex_anonymous_fact]))
                   else Response 404 NotJson),
      set_order = (\<lambda>s. s),
      snapshot_fault = (\<lambda>n. False), storage_fault = (\<lambda>p. False)\<rparr>"

text \<open>
  The API answers the collection with status 300 and a list; the API answers with
  status 200 and a page that is not JSON.
\<close>

definition ex_env_choices :: env where
  "ex_env_choices =
     \<lparr>http = (\<lambda>u. if u = url_of ''launches'' then Response 300 (Decoded (JList [ex_anonymous_fact]))
                   else Response 404 NotJson),
      set_order = (\<lambda>s. s),
      snapshot_fault = (\<lambda>n. False), storage_fault = (\<lambda>p. False)\<rparr>"

definition ex_env_page :: env where
  "ex_env_page =
     \<lparr>http = (\<lambda>u. Response 200 NotJson), set_order = (\<lambda>s. s),
      snapshot_fault = (\<lambda>n. False), storage_fault = (\<lambda>p. False)\<rparr>"

definition ex_env_fault :: env where
  "ex_env_fault = ex_env_anonymous\<lparr>storage_fault := (\<lambda>p. p = LoadLaunches)\<rparr>"

text \<open>A new database file, and the worlds after one and two runs on the fact without id.\<close>

definition ex_world0 :: world where
  "ex_world0 = \<lparr>store = \<lparr>rockets = None, launchpads = None, launches = None\<rparr>, conn_log = []\<rparr>"

definition ex_world1 :: world where
  "ex_world1 = \<lparr>store = ex_anonymous_db1, conn_log = [Opened, Closed]\<rparr>"

definition ex_world2 :: world where
  "ex_world2 = \<lparr>store = ex_anonymous_db2, conn_log = [Opened, Closed, Opened, Closed]\<rparr>"

text \<open>The API serves one fact with an id and its rocket; the world after a run on it.\<close>

definition ex_env_one :: env where
  "ex_env_one =
     \<lparr>http = (\<lambda>u. if u = url_of ''launches''
                   then Response 200 (Decoded (JList [JObj [(''id'', JStr ''L1''), (''rocket'', JStr ''r1'')]]))
                   else if u = url_of ''rockets/r1''
                   then Response 200 (Decoded (JObj [(''name'', JStr ''Falcon 1'')]))
                   else Response 404 NotJson),
      set_order = (\<lambda>s. s),
      snapshot_fault = (\<lambda>n. False), storage_fault = (\<lambda>p. False)\<rparr>"

definition ex_one_db :: database where
  "ex_one_db =
     \<lparr>rockets = Some \<lparr>rows = [\<lparr>row_id = 1, row_spacex_id = Some ''r1'',
          cols = \<lparr>r_name = Some ''Falcon 1'', r_type = None, r_active = Some 0\<rparr>\<rparr>], autoinc = 1\<rparr>,
      launchpads = Some \<lparr>rows = [], autoinc = 0\<rparr>,
      launches = Some \<lparr>rows = [\<lparr>row_id = 1, row_spacex_id = Some ''L1'',
          cols = \<lparr>l_name = None, l_date_utc = None, l_success = None, l_rocket_id = Some 1,
                  l_launchpad_id = None, l_details = None\<rparr>\<rparr>], autoinc = 1\<rparr>\<rparr>"

definition ex_one_world :: world where
  "ex_one_world = \<lparr>store = ex_one_db, conn_log = [Opened, Closed]\<rparr>"

text \<open>
  The API serves one fact whose id is NaN; the API serves one fact whose rocket is NaN,
  and an empty record for every rocket asked for. The rockets after two runs against
  the latter, and the worlds after one and two such runs.
\<close>

definition ex_env_nan_id :: env where
  "ex_env_nan_id =
     \<lparr>http = (\<lambda>u. if u = url_of ''launches''
                   then Response 200 (Decoded (JList [JObj [(''id'', JFloat NaN), (''name'', JStr ''x'')]]))
                   else Response 404 NotJson),
      set_order = (\<lambda>s. s),
      snapshot_fault = (\<lambda>n. False), storage_fault = (\<lambda>p. False)\<rparr>"

definition ex_env_nan_ref :: env where
  "ex_env_nan_ref =
     \<lparr>http = (\<lambda>u. if u = url_of ''launches''
                   then Response 200 (Decoded (JList [JObj [(''id'', JStr ''L1''), (''rocket'', JFloat NaN)]]))
                   else Response 200 (Decoded (JObj []))),
      set_order = (\<lambda>s. s),
      snapshot_fault = (\<lambda>n. False), storage_fault = (\<lambda>p. False)\<rparr>"

definition ex_nan_rockets2 :: "rocket_cols table" where
  "ex_nan_rockets2 =
     \<lparr>rows = [\<lparr>row_id = 1, row_spacex_id = None,
                cols = \<lparr>r_name = None, r_type = None, r_active = Some 0\<rparr>\<rparr>,
              \<lparr>row_id = 2, row_spacex_id = None,
                cols = \<lparr>r_name = None, r_type = None, r_active = Some 0\<rparr>\<rparr>],
      autoinc = 2\<rparr>"

definition ex_nan_world1 :: world where
  "ex_nan_world1 =
     \<lparr>store = \<lparr>rockets = Some ex_nan_rockets,
                launchpads = Some \<lparr>rows = [], autoinc = 0\<rparr>,
                launches = Some (ex_one_launch None)\<rparr>,
      conn_log = [Opened, Closed]\<rparr>"

definition ex_nan_world2 :: world where
  "ex_nan_world2 =
     \<lparr>store = \<lparr>rockets = Some ex_nan_rockets2,
                launchpads = Some \<lparr>rows = [], autoinc = 0\<rparr>,
                launches = Some ((ex_one_launch None)\<lparr>autoinc := 2\<rparr>)\<rparr>,
      conn_log = [Opened, Closed, Opened, Closed]\<rparr>"

section \<open>Insertion: what one statement and one loop do\<close>

lemma max_rowid_ge: "r \<in> set rs \<Longrightarrow> row_id r \<le> max_rowid rs"
  unfolding max_rowid_def by (induction rs) auto

lemma max_rowid_nonneg: "0 \<le> max_rowid rs"
  unfolding max_rowid_def by (induction rs) auto

lemma max_rowid_append: "max_rowid (rs @ [r]) = max (max_rowid rs) (max (row_id r) 0)"
  unfolding max_rowid_def by (induction rs) auto

lemma insert_or_ignore_Inr:
  "insert_or_ignore t k p = Inr t' \<longleftrightarrow>
     last_rowid t < MAX_ROWID \<and>
     t' = (if k \<noteq> None \<and> k \<in> natural_keys t then t\<lparr>autoinc := last_rowid t + 1\<rparr>
           else \<lparr>rows = rows t @ [fresh_row t k p], autoinc = last_rowid t + 1\<rparr>)"
  by (auto simp: insert_or_ignore_def last_rowid_def fresh_row_def Let_def)

lemma insert_or_ignore_cases:
  assumes "insert_or_ignore t k p = Inr t'"
  obtains (ignored) "k \<noteq> None" "k \<in> natural_keys t" "rows t' = rows t"
        | (inserted) "k = None \<or> k \<notin> natural_keys t" "rows t' = rows t @ [fresh_row t k p]"
  using assms unfolding insert_or_ignore_Inr by (auto split: if_splits)

lemma insert_or_ignore_last:
  "insert_or_ignore t k p = Inr t' \<Longrightarrow> last_rowid t' = last_rowid t + 1"
  unfolding insert_or_ignore_Inr
  using max_rowid_nonneg [of "rows t"]
  by (auto simp: last_rowid_def fresh_row_def max_rowid_append split: if_splits)

lemma insert_or_ignore_keys:
  "insert_or_ignore t k p = Inr t' \<Longrightarrow>
     natural_keys t' = (if k = None \<or> k \<notin> natural_keys t then insert k (natural_keys t) else natural_keys t)"
  unfolding insert_or_ignore_Inr
  by (auto simp: natural_keys_def fresh_row_def split: if_splits)

lemma insert_or_ignore_unique:
  "insert_or_ignore t k p = Inr t' \<Longrightarrow> unique_keys t \<Longrightarrow> unique_keys t'"
  unfolding insert_or_ignore_Inr
  by (auto simp: unique_keys_def natural_keys_def fresh_row_def split: if_splits)

lemma execute_insert_Inr:
  "execute_insert t b = Inr t'' \<longleftrightarrow>
     (\<exists>tb k p tb'. t = Some tb \<and> b = Inr (k, p) \<and> insert_or_ignore tb k p = Inr tb' \<and> t'' = Some tb')"
  by (auto simp: execute_insert_def split: option.splits sum.splits)

lemma insert_each_Cons_Inr:
  "insert_each prm cel t (x # xs) = Inr t'' \<longleftrightarrow>
     (\<exists>q tb k p tb'. prm x = Inr q \<and> t = Some tb \<and> cel q = Inr (k, p)
        \<and> insert_or_ignore tb k p = Inr tb' \<and> insert_each prm cel (Some tb') xs = Inr t'')"
  by (cases "prm x"; cases t) (auto simp: execute_insert_def split: sum.splits)

lemma insert_each_Some:
  "insert_each prm cel (Some t) xs = Inr t'' \<Longrightarrow> \<exists>t'. t'' = Some t'"
proof (induction xs arbitrary: t)
  case Nil then show ?case by auto
next
  case (Cons x xs)
  then show ?case unfolding insert_each_Cons_Inr by blast
qed

lemma insert_each_append:
  "insert_each prm cel t (xs @ ys) =
     (case insert_each prm cel t xs of Inl e \<Rightarrow> Inl e | Inr t1 \<Rightarrow> insert_each prm cel t1 ys)"
  by (induction xs arbitrary: t) (auto split: sum.splits)

lemma insert_each_rows:
  "insert_each prm cel (Some t) xs = Inr (Some t') \<Longrightarrow>
     \<exists>new. rows t' = rows t @ new
       \<and> (\<forall>r \<in> set new. \<exists>x \<in> set xs. key_of prm cel x (row_spacex_id r) (cols r))
       \<and> (\<forall>r \<in> set new. row_spacex_id r \<noteq> None \<longrightarrow> row_spacex_id r \<notin> natural_keys t)
       \<and> (\<forall>r \<in> set new. last_rowid t < row_id r)"
proof (induction xs arbitrary: t)
  case Nil
  then show ?case by simp
next
  case (Cons x xs)
  from Cons.prems obtain q k p t1 where
    q: "prm x = Inr q" "cel q = Inr (k, p)" and
    ins: "insert_or_ignore t k p = Inr t1" and
    rest: "insert_each prm cel (Some t1) xs = Inr (Some t')"
    unfolding insert_each_Cons_Inr by auto
  from Cons.IH [OF rest] obtain new where
    new: "rows t' = rows t1 @ new"
      "\<forall>r \<in> set new. \<exists>x \<in> set xs. key_of prm cel x (row_spacex_id r) (cols r)"
      "\<forall>r \<in> set new. row_spacex_id r \<noteq> None \<longrightarrow> row_spacex_id r \<notin> natural_keys t1"
      "\<forall>r \<in> set new. last_rowid t1 < row_id r"
    by blast
  have l1: "last_rowid t1 = last_rowid t + 1" by (rule insert_or_ignore_last [OF ins])
  have k1: "natural_keys t \<subseteq> natural_keys t1"
    unfolding insert_or_ignore_keys [OF ins] by auto
  have kx: "key_of prm cel x k p" unfolding key_of_def using q by blast
  from ins show ?case
  proof (cases rule: insert_or_ignore_cases)
    case ignored
    have "rows t' = rows t @ new" using new(1) ignored(3) by simp
    moreover have "\<forall>r \<in> set new. \<exists>x \<in> set (x # xs). key_of prm cel x (row_spacex_id r) (cols r)"
      using new(2) by auto
    moreover have "\<forall>r \<in> set new. row_spacex_id r \<noteq> None \<longrightarrow> row_spacex_id r \<notin> natural_keys t"
      using new(3) k1 by blast
    moreover have "\<forall>r \<in> set new. last_rowid t < row_id r"
      using new(4) l1 by auto
    ultimately show ?thesis by blast
  next
    case inserted
    let ?r = "fresh_row t k p"
    have a: "rows t' = rows t @ (?r # new)" using new(1) inserted(2) by simp
    have b: "\<forall>r \<in> set (?r # new). \<exists>x \<in> set (x # xs). key_of prm cel x (row_spacex_id r) (cols r)"
      using new(2) kx by (auto simp: fresh_row_def)
    have c: "\<forall>r \<in> set (?r # new). row_spacex_id r \<noteq> None \<longrightarrow> row_spacex_id r \<notin> natural_keys t"
      using new(3) k1 inserted(1) by (auto simp: fresh_row_def)
    have d: "\<forall>r \<in> set (?r # new). last_rowid t < row_id r"
      using new(4) l1 by (auto simp: fresh_row_def)
    from a b c d show ?thesis by blast
  qed
qed

lemma insert_each_keys:
  "insert_each prm cel (Some t) xs = Inr (Some t') \<Longrightarrow>
     natural_keys t \<subseteq> natural_keys t'
     \<and> (\<forall>x \<in> set xs. \<exists>k p. key_of prm cel x k p \<and> (k \<noteq> None \<longrightarrow> k \<in> natural_keys t'))"
proof (induction xs arbitrary: t)
  case Nil
  then show ?case by simp
next
  case (Cons x xs)
  from Cons.prems obtain q k p t1 where
    q: "prm x = Inr q" "cel q = Inr (k, p)" and
    ins: "insert_or_ignore t k p = Inr t1" and
    rest: "insert_each prm cel (Some t1) xs = Inr (Some t')"
    unfolding insert_each_Cons_Inr by auto
  from Cons.IH [OF rest] have
    ih: "natural_keys t1 \<subseteq> natural_keys t'"
      "\<forall>x \<in> set xs. \<exists>k p. key_of prm cel x k p \<and> (k \<noteq> None \<longrightarrow> k \<in> natural_keys t')"
    by blast+
  have k1: "natural_keys t \<subseteq> natural_keys t1" "k \<noteq> None \<longrightarrow> k \<in> natural_keys t1"
    unfolding insert_or_ignore_keys [OF ins] by auto
  have kx: "key_of prm cel x k p" unfolding key_of_def using q by blast
  have "\<exists>k p. key_of prm cel x k p \<and> (k \<noteq> None \<longrightarrow> k \<in> natural_keys t')"
    using kx k1(2) ih(1) by blast
  with ih k1(1) show ?case by auto
qed

lemma insert_each_unique:
  "insert_each prm cel (Some t) xs = Inr (Some t') \<Longrightarrow> unique_keys t \<Longrightarrow> unique_keys t'"
proof (induction xs arbitrary: t)
  case Nil
  then show ?case by simp
next
  case (Cons x xs)
  from Cons.prems(1) obtain k p t1 where
    ins: "insert_or_ignore t k p = Inr t1" and
    rest: "insert_each prm cel (Some t1) xs = Inr (Some t')"
    unfolding insert_each_Cons_Inr by auto
  from insert_or_ignore_unique [OF ins Cons.prems(2)] Cons.IH [OF rest] show ?case by blast
qed

lemma insert_each_present:
  "insert_each prm cel (Some t) xs = Inr (Some t') \<Longrightarrow>
   \<forall>x \<in> set xs. \<forall>k p. key_of prm cel x k p \<longrightarrow> k \<noteq> None \<and> k \<in> natural_keys t \<Longrightarrow>
   rows t' = rows t"
proof (induction xs arbitrary: t)
  case Nil
  then show ?case by simp
next
  case (Cons x xs)
  from Cons.prems(1) obtain q k p t1 where
    q: "prm x = Inr q" "cel q = Inr (k, p)" and
    ins: "insert_or_ignore t k p = Inr t1" and
    rest: "insert_each prm cel (Some t1) xs = Inr (Some t')"
    unfolding insert_each_Cons_Inr by auto
  have kx: "key_of prm cel x k p" unfolding key_of_def using q by blast
  with Cons.prems(2) have k: "k \<noteq> None" "k \<in> natural_keys t" by auto
  from ins k have r1: "rows t1 = rows t" by (cases rule: insert_or_ignore_cases) auto
  then have n1: "natural_keys t1 = natural_keys t" by (simp add: natural_keys_def)
  have "\<forall>x \<in> set xs. \<forall>k p. key_of prm cel x k p \<longrightarrow> k \<noteq> None \<and> k \<in> natural_keys t1"
    using Cons.prems(2) n1 by auto
  from Cons.IH [OF rest this] r1 show ?case by simp
qed

section \<open>What a launch record binds to\<close>

lemma text_cell_None: "text_cell cv v = Inr c \<Longrightarrow> c = None \<longleftrightarrow> stored_null v"
  by (cases v) (auto simp: text_cell_def bind_int_def stored_null_def split: if_splits)

lemma atom_key_None:
  "atom_key cv a = Inr k \<Longrightarrow> \<not> stored_null (json_of_atom a) \<Longrightarrow> k \<noteq> None"
  using text_cell_None [of cv "json_of_atom a" k] by (simp add: atom_key_def)

lemma text_cell_JNull [simp]: "text_cell cv JNull = Inr None"
  by (simp add: text_cell_def)

lemma text_cell_JStr [simp]: "text_cell cv (JStr s) = Inr (Some s)"
  by (simp add: text_cell_def)

lemma real_cell_JNull [simp]: "real_cell cv JNull = Inr SNull"
  by (simp add: real_cell_def)

lemma integer_affinity_bind_int: "bind_int n = Inr b \<Longrightarrow> integer_affinity b = Some n"
  by (auto simp: bind_int_def split: if_splits)

lemma integer_affinity_bind_opt: "bind_opt_int x = Inr b \<Longrightarrow> integer_affinity b = x"
  by (cases x) (auto simp: integer_affinity_bind_int)

lemma launch_key_of:
  assumes "key_of (launch_params rm pm) (launch_cells cv) l k p"
  shows "\<exists>idv namev datev sv rv pv detv rid pid.
     py_get l ''id'' = Inr idv \<and> py_get l ''name'' = Inr namev
     \<and> py_get l ''date_utc'' = Inr datev \<and> py_get l ''success'' = Inr sv
     \<and> py_get l ''rocket'' = Inr rv \<and> py_get l ''launchpad'' = Inr pv
     \<and> py_get l ''details'' = Inr detv
     \<and> dict_get rm rv = Inr rid \<and> dict_get pm pv = Inr pid
     \<and> text_cell cv idv = Inr k
     \<and> text_cell cv namev = Inr (l_name p) \<and> text_cell cv datev = Inr (l_date_utc p)
     \<and> text_cell cv detv = Inr (l_details p)
     \<and> l_success p = success_int sv \<and> l_rocket_id p = rid \<and> l_launchpad_id p = pid"
proof -
  from assms obtain q where q: "launch_params rm pm l = Inr q" "launch_cells cv q = Inr (k, p)"
    unfolding key_of_def by blast
  from q(1) obtain idv namev datev sv rv pv detv rid pid where
    g: "py_get l ''id'' = Inr idv" "py_get l ''name'' = Inr namev"
       "py_get l ''date_utc'' = Inr datev" "py_get l ''success'' = Inr sv"
       "py_get l ''rocket'' = Inr rv" "py_get l ''launchpad'' = Inr pv"
       "py_get l ''details'' = Inr detv"
       "dict_get rm rv = Inr rid" "dict_get pm pv = Inr pid" and
    qq: "q = (idv, namev, datev, success_int sv, rid, pid, detv)"
    unfolding launch_params_def by (auto split: sum.splits)
  from q(2) obtain b1 b2 b3 b4 b5 b6 b7 where
    b: "sql_bind idv = Inr b1" "sql_bind namev = Inr b2" "sql_bind datev = Inr b3"
       "bind_opt_int (success_int sv) = Inr b4" "bind_opt_int rid = Inr b5"
       "bind_opt_int pid = Inr b6" "sql_bind detv = Inr b7" and
    k: "k = text_affinity cv b1" and
    p: "p = \<lparr>l_name = text_affinity cv b2, l_date_utc = text_affinity cv b3,
                l_success = integer_affinity b4, l_rocket_id = integer_affinity b5,
                l_launchpad_id = integer_affinity b6, l_details = text_affinity cv b7\<rparr>"
    unfolding launch_cells_def qq by (auto split: sum.splits)
  have t: "text_cell cv idv = Inr k" "text_cell cv namev = Inr (l_name p)"
    "text_cell cv datev = Inr (l_date_utc p)" "text_cell cv detv = Inr (l_details p)"
    by (simp_all add: text_cell_def b k p)
  have i: "l_success p = success_int sv" "l_rocket_id p = rid" "l_launchpad_id p = pid"
    by (simp_all add: p integer_affinity_bind_opt [OF b(4)] integer_affinity_bind_opt [OF b(5)]
          integer_affinity_bind_opt [OF b(6)])
  from g t i show ?thesis by blast
qed

lemma launch_key_of_key: "key_of (launch_params rm pm) (launch_cells cv) l k p \<Longrightarrow> launch_key cv l = Inr k"
  using launch_key_of [of rm pm cv l k p] by (auto simp: launch_key_def)


lemma key_of_unique: "key_of prm cel x k p \<Longrightarrow> key_of prm cel x k' p' \<Longrightarrow> k' = k \<and> p' = p"
  by (auto simp: key_of_def)

lemma insert_each_fresh:
  assumes run: "insert_each prm cel (Some t) (pre @ x # post) = Inr (Some t')"
    and kx: "key_of prm cel x k p"
    and fresh: "k = None \<or> (k \<notin> natural_keys t \<and> (\<forall>y \<in> set pre. \<forall>k' p'. key_of prm cel y k' p' \<longrightarrow> k' \<noteq> k))"
  shows "\<exists>new r. rows t' = rows t @ new \<and> r \<in> set new \<and> row_spacex_id r = k \<and> cols r = p"
proof -
  from run obtain t1' where
    a: "insert_each prm cel (Some t) pre = Inr t1'" and
    b: "insert_each prm cel t1' (x # post) = Inr (Some t')"
    unfolding insert_each_append by (auto split: sum.splits)
  from insert_each_Some [OF a] obtain t1 where t1: "t1' = Some t1" by blast
  from insert_each_rows [OF a [unfolded t1]] obtain new1 where
    n1: "rows t1 = rows t @ new1"
      "\<forall>r \<in> set new1. \<exists>y \<in> set pre. key_of prm cel y (row_spacex_id r) (cols r)"
    by blast
  from b [unfolded t1] obtain q k2 p2 t2 where
    q: "prm x = Inr q" "cel q = Inr (k2, p2)" and
    ins: "insert_or_ignore t1 k2 p2 = Inr t2" and
    rest: "insert_each prm cel (Some t2) post = Inr (Some t')"
    unfolding insert_each_Cons_Inr by auto
  have "key_of prm cel x k2 p2" unfolding key_of_def using q by blast
  from key_of_unique [OF kx this] have e: "k2 = k" "p2 = p" by simp_all
  have nk: "k = None \<or> k \<notin> natural_keys t1"
  proof (cases "k = None")
    case True then show ?thesis by simp
  next
    case False
    with fresh have f: "k \<notin> natural_keys t" "\<forall>y \<in> set pre. \<forall>k' p'. key_of prm cel y k' p' \<longrightarrow> k' \<noteq> k"
      by blast+
    have "k \<notin> row_spacex_id ` set new1" using n1(2) f(2) by blast
    with f(1) show ?thesis unfolding natural_keys_def n1(1) by auto
  qed
  from ins [unfolded e] nk have r2: "rows t2 = rows t1 @ [fresh_row t1 k p]"
    by (cases rule: insert_or_ignore_cases) auto
  from insert_each_rows [OF rest] obtain new2 where n2: "rows t' = rows t2 @ new2" by blast
  have "rows t' = rows t @ (new1 @ fresh_row t1 k p # new2)"
    by (simp add: n2 r2 n1(1))
  moreover have "fresh_row t1 k p \<in> set (new1 @ fresh_row t1 k p # new2)" by simp
  moreover have "row_spacex_id (fresh_row t1 k p) = k" "cols (fresh_row t1 k p) = p"
    by (simp_all add: fresh_row_def)
  ultimately show ?thesis by blast
qed

lemma load_launches_Inr:
  "load_launches cv d facts rm pm = Inr d' \<longleftrightarrow>
     (\<exists>lt. insert_each (launch_params rm pm) (launch_cells cv) (launches d) facts = Inr lt
        \<and> d' = d\<lparr>launches := lt\<rparr>)"
  by (auto simp: load_launches_def split: sum.splits)

lemma load_launches_fresh:
  assumes run: "load_launches cv d (pre @ l # post) rm pm = Inr d'"
    and t: "launches d = Some t"
    and k: "launch_key cv l = Inr k"
    and fresh: "k = None \<or> (k \<notin> natural_keys t \<and> (\<forall>y \<in> set pre. launch_key cv y \<noteq> Inr k))"
  shows "\<exists>t' new r. launches d' = Some t' \<and> rows t' = rows t @ new \<and> r \<in> set new
           \<and> row_spacex_id r = k
           \<and> key_of (launch_params rm pm) (launch_cells cv) l k (cols r)"
proof -
  let ?prm = "launch_params rm pm" and ?cel = "launch_cells cv"
  from run obtain lt where
    lt: "insert_each ?prm ?cel (Some t) (pre @ l # post) = Inr lt" and d': "d' = d\<lparr>launches := lt\<rparr>"
    unfolding load_launches_Inr t by blast
  from insert_each_Some [OF lt] obtain t' where t': "lt = Some t'" by blast
  from insert_each_keys [OF lt [unfolded t']] obtain k2 p where kp: "key_of ?prm ?cel l k2 p"
    by auto
  from launch_key_of_key [OF kp] k have e: "k2 = k" by simp
  have f: "k = None \<or> (k \<notin> natural_keys t \<and> (\<forall>y \<in> set pre. \<forall>k' p'. key_of ?prm ?cel y k' p' \<longrightarrow> k' \<noteq> k))"
    using fresh launch_key_of_key by fastforce
  from insert_each_fresh [OF lt [unfolded t'] kp [unfolded e] f] obtain new r where
    "rows t' = rows t @ new" "r \<in> set new" "row_spacex_id r = k" "cols r = p" by blast
  with kp e d' t' show ?thesis by auto
qed

section \<open>Identifier extraction\<close>

lemma atom_num_AFloat: "atom_num (AFloat x) = (case x of Finite y \<Rightarrow> Some y | _ \<Rightarrow> None)"
  by (cases x) simp_all

lemma py_eq_AStr [simp]: "py_eq b (AStr s) \<longleftrightarrow> b = AStr s"
  by (cases b) (simp_all add: py_eq_def atom_num_AFloat split: pyfloat.splits)

lemma set_add_str: "set_add s (JStr x) = Inr (if AStr x \<in> set s then s else s @ [AStr x])"
  by (simp add: set_add_def)

lemma occurring_Cons:
  "occurring (l # ls) f =
     (case py_get l f of Inr (JStr s) \<Rightarrow> (if s = [] then {} else {AStr s}) | _ \<Rightarrow> {}) \<union> occurring ls f"
  by (auto simp: occurring_def split: sum.splits json.splits)

lemma occurring_Nil [simp]: "occurring [] f = {}"
  by (simp add: occurring_def)

lemma extract_loop_refs:
  "refs_ok facts \<Longrightarrow>
   \<exists>rs ps. extract_loop facts rs0 ps0 = Inr (rs, ps)
     \<and> set rs = set rs0 \<union> occurring facts ''rocket''
     \<and> set ps = set ps0 \<union> occurring facts ''launchpad''
     \<and> (distinct rs0 \<longrightarrow> distinct rs) \<and> (distinct ps0 \<longrightarrow> distinct ps)"
proof (induction facts arbitrary: rs0 ps0)
  case Nil
  then show ?case by simp
next
  case (Cons l ls)
  from Cons.prems have ok: "ref_ok l ''rocket''" "ref_ok l ''launchpad''" and rest: "refs_ok ls"
    by (simp_all add: refs_ok_def)
  from ok(1) obtain rid where rid: "py_get l ''rocket'' = Inr rid" "rid = JNull \<or> (\<exists>s. rid = JStr s)"
    by (auto simp: ref_ok_def split: sum.splits json.splits)
  from ok(2) obtain pid where pid: "py_get l ''launchpad'' = Inr pid" "pid = JNull \<or> (\<exists>s. pid = JStr s)"
    by (auto simp: ref_ok_def split: sum.splits json.splits)
  define rs1 where "rs1 = (case rid of JStr s \<Rightarrow> if s = [] \<or> AStr s \<in> set rs0 then rs0 else rs0 @ [AStr s] | _ \<Rightarrow> rs0)"
  define ps1 where "ps1 = (case pid of JStr s \<Rightarrow> if s = [] \<or> AStr s \<in> set ps0 then ps0 else ps0 @ [AStr s] | _ \<Rightarrow> ps0)"
  have r1: "(if truthy rid then set_add rs0 rid else Inr rs0) = Inr rs1"
    using rid(2) by (auto simp: rs1_def set_add_str)
  have p1: "(if truthy pid then set_add ps0 pid else Inr ps0) = Inr ps1"
    using pid(2) by (auto simp: ps1_def set_add_str)
  have step: "extract_loop (l # ls) rs0 ps0 = extract_loop ls rs1 ps1"
    by (simp add: rid(1) pid(1) r1 p1)
  have s1: "set rs1 = set rs0 \<union> (case py_get l ''rocket'' of Inr (JStr s) \<Rightarrow> (if s = [] then {} else {AStr s}) | _ \<Rightarrow> {})"
    using rid by (auto simp: rs1_def split: if_splits)
  have s2: "set ps1 = set ps0 \<union> (case py_get l ''launchpad'' of Inr (JStr s) \<Rightarrow> (if s = [] then {} else {AStr s}) | _ \<Rightarrow> {})"
    using pid by (auto simp: ps1_def split: if_splits)
  have d1: "distinct rs0 \<longrightarrow> distinct rs1" using rid(2) by (auto simp: rs1_def)
  have d2: "distinct ps0 \<longrightarrow> distinct ps1" using pid(2) by (auto simp: ps1_def)
  from Cons.IH [OF rest, of rs1 ps1] obtain rs ps where
    res: "extract_loop ls rs1 ps1 = Inr (rs, ps)"
      "set rs = set rs1 \<union> occurring ls ''rocket''"
      "set ps = set ps1 \<union> occurring ls ''launchpad''"
      "distinct rs1 \<longrightarrow> distinct rs" "distinct ps1 \<longrightarrow> distinct ps"
    by blast
  have e1: "set rs = set rs0 \<union> occurring (l # ls) ''rocket''"
    by (simp only: res(2) s1 occurring_Cons [of l ls] Un_assoc)
  have e2: "set ps = set ps0 \<union> occurring (l # ls) ''launchpad''"
    by (simp only: res(3) s2 occurring_Cons [of l ls] Un_assoc)
  have e3: "distinct rs0 \<longrightarrow> distinct rs" using d1 res(4) by blast
  have e4: "distinct ps0 \<longrightarrow> distinct ps" using d2 res(5) by blast
  have "extract_loop (l # ls) rs0 ps0 = Inr (rs, ps)" by (simp only: step res(1))
  with e1 e2 e3 e4 show ?case by blast
qed

lemma occurring_cong: "set ls' = set ls \<Longrightarrow> occurring ls' f = occurring ls f"
  by (simp add: occurring_def)

lemma refs_ok_cong: "set ls' = set ls \<Longrightarrow> refs_ok ls' = refs_ok ls"
  by (simp add: refs_ok_def)

lemma ex_facts_refs_ok: "refs_ok ex_facts"
  by (simp add: ex_facts_def refs_ok_def ref_ok_def)

lemma ex_facts_ids: "extract_unique_ids ex_facts = Inr ([AStr ''r1''], [AStr ''p1''])"
  by (simp add: ex_facts_def extract_unique_ids_def set_add_def py_eq_def)

text \<open>
  C5. When every reference field of every fact is an identifier or null,
  \<^verbatim>\<open>extract_unique_ids\<close> returns, for rockets and for launchpads, exactly the non-empty
  identifiers that occur under that field in some fact, each once; a permutation of
  the facts gives the same two sets.
\<close>

theorem extract_unique_ids_exact:
  assumes "refs_ok facts"
  shows "\<exists>rs ps. extract_unique_ids facts = Inr (rs, ps)
           \<and> set rs = occurring facts ''rocket''
           \<and> set ps = occurring facts ''launchpad''
           \<and> distinct rs \<and> distinct ps
           \<and> (\<forall>facts'. mset facts' = mset facts \<longrightarrow>
                (\<exists>rs' ps'. extract_unique_ids facts' = Inr (rs', ps')
                   \<and> set rs' = set rs \<and> set ps' = set ps))"
proof -
  from extract_loop_refs [OF assms, of "[]" "[]"] obtain rs ps where
    res: "extract_unique_ids facts = Inr (rs, ps)"
      "set rs = occurring facts ''rocket''" "set ps = occurring facts ''launchpad''"
      "distinct rs" "distinct ps"
    unfolding extract_unique_ids_def by auto
  have perm: "\<forall>facts'. mset facts' = mset facts \<longrightarrow>
     (\<exists>rs' ps'. extract_unique_ids facts' = Inr (rs', ps') \<and> set rs' = set rs \<and> set ps' = set ps)"
  proof (intro allI impI)
    fix facts' :: "json list"
    assume "mset facts' = mset facts"
    then have eq: "set facts' = set facts" by (rule mset_eq_setD)
    with assms have "refs_ok facts'" by (simp only: refs_ok_cong [OF eq])
    from extract_loop_refs [OF this, of "[]" "[]"] obtain rs' ps' where
      res': "extract_unique_ids facts' = Inr (rs', ps')"
        "set rs' = occurring facts' ''rocket''" "set ps' = occurring facts' ''launchpad''"
      unfolding extract_unique_ids_def by auto
    have "set rs' = set rs" "set ps' = set ps"
      by (simp_all only: res' res occurring_cong [OF eq])
    with res'(1) show "\<exists>rs' ps'. extract_unique_ids facts' = Inr (rs', ps') \<and> set rs' = set rs \<and> set ps' = set ps"
      by blast
  qed
  show ?thesis
    by (intro exI conjI) (rule res perm)+
qed

theorem extract_unique_ids_example:
  "refs_ok ex_facts
   \<and> extract_unique_ids ex_facts = Inr ([AStr ''r1''], [AStr ''p1''])
   \<and> occurring ex_facts ''rocket'' = {AStr ''r1''}
   \<and> occurring ex_facts ''launchpad'' = {AStr ''p1''}"
  using extract_unique_ids_exact [OF ex_facts_refs_ok] ex_facts_ids ex_facts_refs_ok
  by auto

section \<open>Evaluation of examples\<close>

lemmas eval_defs = load_launches_def launch_params_def launch_cells_def
  dict_get_def success_int_def execute_insert_def insert_or_ignore_def max_rowid_def
  natural_keys_def MAX_ROWID_def bind_int_def Let_def text_cell_def launch_key_def fresh_fact_def

section \<open>The fact loader\<close>

lemma fresh_factD:
  "fresh_fact cv t pre l \<Longrightarrow>
     \<exists>k. launch_key cv l = Inr k
        \<and> (k = None \<or> (k \<notin> natural_keys t \<and> (\<forall>y \<in> set pre. launch_key cv y \<noteq> Inr k)))"
  by (auto simp: fresh_fact_def split: sum.splits)

lemma success_int_cases:
  "(success_int v = None \<longleftrightarrow> v = JNull)
   \<and> (success_int v = Some 1 \<longleftrightarrow> truthy v)
   \<and> (success_int v = Some 0 \<longleftrightarrow> v \<noteq> JNull \<and> \<not> truthy v)"
  by (cases v) (auto simp: success_int_def)

text \<open>
  C4, as amended. A fact that the loader inserts, that is, a fact whose natural id is
  null, or is neither stored already nor carried by an earlier fact of the load, is
  stored with a success column that keeps three states apart: NULL exactly when the
  success field is absent or null, 1 exactly when it is truthy, 0 exactly when it is
  present and falsy.
\<close>

theorem success_tristate:
  assumes run: "load_launches cv d (pre @ l # post) rm pm = Inr d'"
    and t: "launches d = Some t"
    and fresh: "fresh_fact cv t pre l"
    and v: "py_get l ''success'' = Inr v"
  shows "(\<exists>t' new r. launches d' = Some t' \<and> rows t' = rows t @ new \<and> r \<in> set new
            \<and> launch_key cv l = Inr (row_spacex_id r)
            \<and> l_success (cols r) = success_int v)
         \<and> (success_int v = None \<longleftrightarrow> v = JNull)
         \<and> (success_int v = Some 1 \<longleftrightarrow> truthy v)
         \<and> (success_int v = Some 0 \<longleftrightarrow> v \<noteq> JNull \<and> \<not> truthy v)"
proof -
  from fresh_factD [OF fresh] obtain k where
    k: "launch_key cv l = Inr k"
       "k = None \<or> (k \<notin> natural_keys t \<and> (\<forall>y \<in> set pre. launch_key cv y \<noteq> Inr k))"
    by blast
  from load_launches_fresh [OF run t k] obtain t' new r where
    r: "launches d' = Some t'" "rows t' = rows t @ new" "r \<in> set new" "row_spacex_id r = k"
       "key_of (launch_params rm pm) (launch_cells cv) l k (cols r)"
    by blast
  from launch_key_of [OF r(5)] v have "l_success (cols r) = success_int v" by auto
  with r k(1) have "\<exists>t' new r. launches d' = Some t' \<and> rows t' = rows t @ new \<and> r \<in> set new
            \<and> launch_key cv l = Inr (row_spacex_id r) \<and> l_success (cols r) = success_int v"
    by auto
  with success_int_cases [of v] show ?thesis by blast
qed

lemma ex_success_load:
  "load_launches ex_conversions ex_empty_db ex_success_facts Map.empty Map.empty = Inr ex_success_db"
  by (simp add: eval_defs ex_empty_db_def ex_success_facts_def ex_success_db_def)

theorem success_tristate_example:
  "load_launches ex_conversions ex_empty_db ex_success_facts Map.empty Map.empty = Inr ex_success_db
   \<and> map (\<lambda>r. l_success (cols r)) (rows (the (launches ex_success_db))) = [Some 1, Some 0, None]
   \<and> (\<exists>t' new r. launches ex_success_db = Some t' \<and> rows t' = [] @ new \<and> r \<in> set new
         \<and> launch_key ex_conversions (ex_success_facts ! 2) = Inr (row_spacex_id r)
         \<and> l_success (cols r) = success_int JNull)"
proof -
  have f: "[ex_success_facts ! 0, ex_success_facts ! 1] @ ex_success_facts ! 2 # [] = ex_success_facts"
    by (simp add: ex_success_facts_def)
  have run: "load_launches ex_conversions ex_empty_db
      ([ex_success_facts ! 0, ex_success_facts ! 1] @ ex_success_facts ! 2 # []) Map.empty Map.empty
      = Inr ex_success_db"
    unfolding f by (rule ex_success_load)
  have t: "launches ex_empty_db = Some \<lparr>rows = [], autoinc = 0\<rparr>"
    by (simp add: ex_empty_db_def)
  have fresh: "fresh_fact ex_conversions \<lparr>rows = [], autoinc = 0\<rparr>
      [ex_success_facts ! 0, ex_success_facts ! 1] (ex_success_facts ! 2)"
    by (simp add: eval_defs ex_success_facts_def)
  have v: "py_get (ex_success_facts ! 2) ''success'' = Inr JNull"
    by (simp add: ex_success_facts_def)
  have a: "\<exists>t' new r. launches ex_success_db = Some t' \<and> rows t' = [] @ new \<and> r \<in> set new
         \<and> launch_key ex_conversions (ex_success_facts ! 2) = Inr (row_spacex_id r)
         \<and> l_success (cols r) = success_int JNull"
    using success_tristate [OF run t fresh v, THEN conjunct1] by simp
  have b: "map (\<lambda>r. l_success (cols r)) (rows (the (launches ex_success_db))) = [Some 1, Some 0, None]"
    by (simp add: ex_success_db_def)
  from ex_success_load a b show ?thesis by blast
qed

text \<open>
  C4, the counterexample. A fact stored with its success unknown is loaded again, now
  with success true: its natural id is stored already, the fact is skipped, and the
  stored value stays NULL.
\<close>

theorem known_success_of_stored_fact_dropped:
  "load_launches ex_conversions ex_success_db [ex_known_fact] Map.empty Map.empty = Inr ex_reloaded_db
   \<and> py_get ex_known_fact ''success'' = Inr (JBool True)
   \<and> map (\<lambda>r. (row_spacex_id r, l_success (cols r))) (rows (the (launches ex_reloaded_db)))
       = [(Some ''L1'', Some 1), (Some ''L2'', Some 0), (Some ''L3'', None)]"
  by (simp add: eval_defs ex_success_db_def ex_empty_db_def ex_known_fact_def ex_reloaded_db_def)

lemma insert_each_single:
  "insert_each prm cel (Some t) [x] = Inr lt \<longleftrightarrow>
     (\<exists>k p t1. key_of prm cel x k p \<and> insert_or_ignore t k p = Inr t1 \<and> lt = Some t1)"
  unfolding insert_each_Cons_Inr key_of_def by auto

text \<open>
  C9. Loading the same fact twice: when its \<^verbatim>\<open>id\<close> is absent or null, each load appends
  a row with a NULL natural key, so two rows with different surrogate keys and the same
  columns result; when its \<^verbatim>\<open>id\<close> is neither null nor NaN, the second load leaves the
  rows as the first left them. An \<^verbatim>\<open>id\<close> that is NaN is stored as NULL, and the fact is
  loaded twice like one without \<^verbatim>\<open>id\<close>.
\<close>

theorem null_id_not_deduplicated:
  assumes t: "launches d = Some t"
    and run1: "load_launches cv d [l] rm pm = Inr d1"
    and run2: "load_launches cv d1 [l] rm pm = Inr d2"
  shows "(py_get l ''id'' = Inr JNull \<longrightarrow>
            (\<exists>t2 a b. launches d2 = Some t2 \<and> rows t2 = rows t @ [a, b]
               \<and> row_spacex_id a = None \<and> row_spacex_id b = None
               \<and> row_id a < row_id b \<and> cols a = cols b))
       \<and> (py_get l ''id'' \<noteq> Inr JNull \<and> py_get l ''id'' \<noteq> Inr (JFloat NaN) \<longrightarrow>
            (\<exists>t1 t2. launches d1 = Some t1 \<and> launches d2 = Some t2 \<and> rows t2 = rows t1))
       \<and> (py_get l ''id'' = Inr (JFloat NaN) \<longrightarrow>
            (\<exists>t2 a b. launches d2 = Some t2 \<and> rows t2 = rows t @ [a, b]
               \<and> row_spacex_id a = None \<and> row_spacex_id b = None
               \<and> row_id a < row_id b \<and> cols a = cols b))"
proof -
  let ?prm = "launch_params rm pm" and ?cel = "launch_cells cv"
  from run1 obtain k p t1 where
    kp: "key_of ?prm ?cel l k p" and i1: "insert_or_ignore t k p = Inr t1" and
    d1: "d1 = d\<lparr>launches := Some t1\<rparr>"
    unfolding load_launches_Inr t insert_each_single by blast
  have l1: "launches d1 = Some t1" by (simp add: d1)
  from run2 obtain k' p' t2 where
    kp': "key_of ?prm ?cel l k' p'" and i2': "insert_or_ignore t1 k' p' = Inr t2" and
    d2: "d2 = d1\<lparr>launches := Some t2\<rparr>"
    unfolding load_launches_Inr l1 insert_each_single by blast
  from key_of_unique [OF kp kp'] i2' have i2: "insert_or_ignore t1 k p = Inr t2" by simp
  have l2: "launches d2 = Some t2" by (simp add: d2)
  from launch_key_of [OF kp] obtain idv where
    idv: "py_get l ''id'' = Inr idv" "text_cell cv idv = Inr k" by blast
  have knull: "k = None \<longleftrightarrow> stored_null idv" by (rule text_cell_None [OF idv(2)])
  have A: "\<exists>t2 a b. launches d2 = Some t2 \<and> rows t2 = rows t @ [a, b]
               \<and> row_spacex_id a = None \<and> row_spacex_id b = None
               \<and> row_id a < row_id b \<and> cols a = cols b"
    if "py_get l ''id'' = Inr JNull \<or> py_get l ''id'' = Inr (JFloat NaN)"
  proof -
    from that idv knull have k: "k = None" by (auto simp: stored_null_def)
    from i1 k have r1: "rows t1 = rows t @ [fresh_row t None p]"
      by (cases rule: insert_or_ignore_cases) auto
    from i2 k have r2: "rows t2 = rows t1 @ [fresh_row t1 None p]"
      by (cases rule: insert_or_ignore_cases) auto
    have "rows t2 = rows t @ [fresh_row t None p, fresh_row t1 None p]"
      by (simp add: r1 r2)
    moreover have "row_id (fresh_row t None p) < row_id (fresh_row t1 None p)"
      by (simp add: fresh_row_def insert_or_ignore_last [OF i1])
    moreover have "row_spacex_id (fresh_row t None p) = None" "row_spacex_id (fresh_row t1 None p) = None"
      "cols (fresh_row t None p) = cols (fresh_row t1 None p)"
      by (simp_all add: fresh_row_def)
    ultimately show ?thesis using l2 by blast
  qed
  have B: "\<exists>t1 t2. launches d1 = Some t1 \<and> launches d2 = Some t2 \<and> rows t2 = rows t1"
    if "py_get l ''id'' \<noteq> Inr JNull \<and> py_get l ''id'' \<noteq> Inr (JFloat NaN)"
  proof -
    from that idv knull have k: "k \<noteq> None" by (simp add: stored_null_def)
    have "k \<in> natural_keys t1" using k unfolding insert_or_ignore_keys [OF i1] by simp
    with i2 k have "rows t2 = rows t1" by (cases rule: insert_or_ignore_cases) auto
    with l1 l2 show ?thesis by blast
  qed
  from A B show ?thesis by blast
qed

lemma ex_bare_load1:
  "load_launches ex_conversions ex_empty_db [ex_bare_fact] Map.empty Map.empty
     = Inr (ex_empty_db\<lparr>launches := Some (ex_one_launch None)\<rparr>)"
  by (simp add: eval_defs ex_empty_db_def ex_bare_fact_def ex_one_launch_def)

lemma ex_bare_load2:
  "load_launches ex_conversions (ex_empty_db\<lparr>launches := Some (ex_one_launch None)\<rparr>) [ex_bare_fact]
       Map.empty Map.empty
     = Inr (ex_empty_db\<lparr>launches := Some ((ex_one_launch None)\<lparr>autoinc := 2\<rparr>)\<rparr>)"
  by (simp add: eval_defs ex_empty_db_def ex_bare_fact_def ex_one_launch_def)

lemma ex_anonymous_load1:
  "load_launches ex_conversions ex_empty_db [ex_anonymous_fact] Map.empty Map.empty = Inr ex_anonymous_db1"
  by (simp add: eval_defs ex_empty_db_def ex_anonymous_fact_def ex_anonymous_db1_def)

lemma ex_anonymous_load2:
  "load_launches ex_conversions ex_anonymous_db1 [ex_anonymous_fact] Map.empty Map.empty = Inr ex_anonymous_db2"
  by (simp add: eval_defs ex_empty_db_def ex_anonymous_fact_def ex_anonymous_db1_def ex_anonymous_db2_def)

theorem null_id_example:
  "py_get ex_anonymous_fact ''id'' = Inr JNull
   \<and> load_launches ex_conversions ex_empty_db [ex_anonymous_fact] Map.empty Map.empty = Inr ex_anonymous_db1
   \<and> load_launches ex_conversions ex_anonymous_db1 [ex_anonymous_fact] Map.empty Map.empty = Inr ex_anonymous_db2
   \<and> (\<exists>t2 a b. launches ex_anonymous_db2 = Some t2 \<and> rows t2 = [] @ [a, b]
               \<and> row_spacex_id a = None \<and> row_spacex_id b = None
               \<and> row_id a < row_id b \<and> cols a = cols b)
   \<and> py_get ex_bare_fact ''id'' = Inr (JStr ''L1'')
   \<and> load_launches ex_conversions ex_empty_db [ex_bare_fact] Map.empty Map.empty
       = Inr (ex_empty_db\<lparr>launches := Some (ex_one_launch None)\<rparr>)
   \<and> load_launches ex_conversions (ex_empty_db\<lparr>launches := Some (ex_one_launch None)\<rparr>) [ex_bare_fact]
         Map.empty Map.empty
       = Inr (ex_empty_db\<lparr>launches := Some ((ex_one_launch None)\<lparr>autoinc := 2\<rparr>)\<rparr>)
   \<and> (\<exists>t1 t2. launches (ex_empty_db\<lparr>launches := Some (ex_one_launch None)\<rparr>) = Some t1
         \<and> launches (ex_empty_db\<lparr>launches := Some ((ex_one_launch None)\<lparr>autoinc := 2\<rparr>)\<rparr>) = Some t2
         \<and> rows t2 = rows t1)"
proof -
  have j: "py_get ex_bare_fact ''id'' = Inr (JStr ''L1'')"
    by (simp add: ex_bare_fact_def)
  have t: "launches ex_empty_db = Some \<lparr>rows = [], autoinc = 0\<rparr>"
    by (simp add: ex_empty_db_def)
  from null_id_not_deduplicated [OF t ex_bare_load1 ex_bare_load2, THEN conjunct2, THEN conjunct1] j
  have s: "\<exists>t1 t2. launches (ex_empty_db\<lparr>launches := Some (ex_one_launch None)\<rparr>) = Some t1
         \<and> launches (ex_empty_db\<lparr>launches := Some ((ex_one_launch None)\<lparr>autoinc := 2\<rparr>)\<rparr>) = Some t2
         \<and> rows t2 = rows t1"
    by simp
  have i: "py_get ex_anonymous_fact ''id'' = Inr JNull"
    by (simp add: ex_anonymous_fact_def)
  from null_id_not_deduplicated [OF t ex_anonymous_load1 ex_anonymous_load2, THEN conjunct1] i
  have "\<exists>t2 a b. launches ex_anonymous_db2 = Some t2 \<and> rows t2 = [] @ [a, b]
               \<and> row_spacex_id a = None \<and> row_spacex_id b = None
               \<and> row_id a < row_id b \<and> cols a = cols b"
    by simp
  with i ex_anonymous_load1 ex_anonymous_load2 j ex_bare_load1 ex_bare_load2 s show ?thesis by blast
qed

lemma load_dimension_tables_Inr:
  "load_dimension_tables cv d rockets_map launchpads_map = Inr (d', rmap, pmap) \<longleftrightarrow>
     (\<exists>rt pt. insert_each rocket_params (rocket_cells cv) (rockets d) rockets_map = Inr (Some rt)
        \<and> insert_each launchpad_params (launchpad_cells cv) (launchpads d) launchpads_map = Inr (Some pt)
        \<and> d' = d\<lparr>rockets := Some rt, launchpads := Some pt\<rparr>
        \<and> rmap = id_map rt \<and> pmap = id_map pt)"
  by (auto simp: load_dimension_tables_def Let_def split: sum.splits option.splits)

lemma insert_each_table:
  "insert_each prm cel t xs = Inr r \<Longrightarrow> t \<noteq> None \<Longrightarrow> r \<noteq> None"
  using insert_each_Some [of prm cel _ xs r] by (cases t) auto

lemma load_dimension_tables_Inl:
  assumes "load_dimension_tables cv d rockets_map launchpads_map = Inl (e, dc)"
  shows "launches dc = launches d
     \<and> (rockets d \<noteq> None \<and> launchpads d \<noteq> None \<longrightarrow> dc = d)"
proof (cases "insert_each rocket_params (rocket_cells cv) (rockets d) rockets_map")
  case (Inl a)
  with assms show ?thesis by (simp add: load_dimension_tables_def)
next
  case r: (Inr rt)
  show ?thesis
  proof (cases "insert_each launchpad_params (launchpad_cells cv) (launchpads d) launchpads_map")
    case (Inl a)
    with assms r show ?thesis by (simp add: load_dimension_tables_def)
  next
    case p: (Inr pt)
    from assms r p have dc: "dc = d\<lparr>rockets := rt, launchpads := pt\<rparr>" "rt = None \<or> pt = None"
      by (auto simp: load_dimension_tables_def Let_def split: option.splits)
    from dc(2) insert_each_table [OF r] insert_each_table [OF p]
    have "rockets d = None \<or> launchpads d = None" by blast
    with dc(1) show ?thesis by auto
  qed
qed

section \<open>The dimension loader\<close>

lemma attr_missing_get: "attr_missing r field \<Longrightarrow> py_get r field = Inr JNull"
  by (cases r) (auto simp: attr_missing_def)

lemma stored_text_missing: "stored_text cv r field c \<Longrightarrow> attr_missing r field \<Longrightarrow> c = None"
  by (auto simp: stored_text_def dest: attr_missing_get)

lemma stored_real_missing: "stored_real cv r field c \<Longrightarrow> attr_missing r field \<Longrightarrow> c = SNull"
  by (auto simp: stored_real_def dest: attr_missing_get)

lemma rocket_key_of:
  assumes "key_of rocket_params (rocket_cells cv) (a, r) k p"
  shows "atom_key cv a = Inr k
     \<and> stored_text cv r ''name'' (r_name p) \<and> stored_text cv r ''type'' (r_type p)
     \<and> (\<exists>v. py_get r ''active'' = Inr v \<and> r_active p = Some (if truthy v then 1 else 0))"
proof -
  from assms obtain q where q: "rocket_params (a, r) = Inr q" "rocket_cells cv q = Inr (k, p)"
    unfolding key_of_def by blast
  from q(1) obtain namev typev activev where
    g: "py_get r ''name'' = Inr namev" "py_get r ''type'' = Inr typev"
       "py_get r ''active'' = Inr activev" and
    qq: "q = (json_of_atom a, namev, typev, if truthy activev then 1 else 0)"
    unfolding rocket_params_def by (auto split: sum.splits)
  from q(2) obtain b1 b2 b3 b4 where
    b: "sql_bind (json_of_atom a) = Inr b1" "sql_bind namev = Inr b2" "sql_bind typev = Inr b3"
       "bind_int (if truthy activev then 1 else 0) = Inr b4" and
    k: "k = text_affinity cv b1" and
    p: "p = \<lparr>r_name = text_affinity cv b2, r_type = text_affinity cv b3,
              r_active = integer_affinity b4\<rparr>"
    unfolding rocket_cells_def qq by (auto split: sum.splits)
  have "atom_key cv a = Inr k" by (simp add: atom_key_def text_cell_def b k)
  moreover have "stored_text cv r ''name'' (r_name p)" "stored_text cv r ''type'' (r_type p)"
    unfolding stored_text_def using g by (auto simp: text_cell_def b p)
  moreover have "r_active p = Some (if truthy activev then 1 else 0)"
    by (simp add: p integer_affinity_bind_int [OF b(4)])
  ultimately show ?thesis using g(3) by blast
qed

lemma launchpad_key_of:
  assumes "key_of launchpad_params (launchpad_cells cv) (a, r) k p"
  shows "atom_key cv a = Inr k
     \<and> stored_text cv r ''name'' (p_name p) \<and> stored_text cv r ''region'' (p_region p)
     \<and> stored_real cv r ''latitude'' (p_latitude p)
     \<and> stored_real cv r ''longitude'' (p_longitude p)"
proof -
  from assms obtain q where q: "launchpad_params (a, r) = Inr q" "launchpad_cells cv q = Inr (k, p)"
    unfolding key_of_def by blast
  from q(1) obtain namev regionv latv lonv where
    g: "py_get r ''name'' = Inr namev" "py_get r ''region'' = Inr regionv"
       "py_get r ''latitude'' = Inr latv" "py_get r ''longitude'' = Inr lonv" and
    qq: "q = (json_of_atom a, namev, regionv, latv, lonv)"
    unfolding launchpad_params_def by (auto split: sum.splits)
  from q(2) obtain b1 b2 b3 b4 b5 where
    b: "sql_bind (json_of_atom a) = Inr b1" "sql_bind namev = Inr b2" "sql_bind regionv = Inr b3"
       "sql_bind latv = Inr b4" "sql_bind lonv = Inr b5" and
    k: "k = text_affinity cv b1" and
    p: "p = \<lparr>p_name = text_affinity cv b2, p_region = text_affinity cv b3,
              p_latitude = real_affinity cv b4, p_longitude = real_affinity cv b5\<rparr>"
    unfolding launchpad_cells_def qq by (auto split: sum.splits)
  have "atom_key cv a = Inr k" by (simp add: atom_key_def text_cell_def b k)
  moreover have "stored_text cv r ''name'' (p_name p)" "stored_text cv r ''region'' (p_region p)"
    unfolding stored_text_def using g by (auto simp: text_cell_def b p)
  moreover have "stored_real cv r ''latitude'' (p_latitude p)" "stored_real cv r ''longitude'' (p_longitude p)"
    unfolding stored_real_def using g by (auto simp: real_cell_def b p)
  ultimately show ?thesis by blast
qed

lemma atom_key_AStr [simp]: "atom_key cv (AStr s) = Inr (Some s)"
  by (simp add: atom_key_def)

lemma map_of_rev_unique:
  "distinct (filter (\<lambda>k. k \<noteq> None) (map f rs)) \<Longrightarrow> r \<in> set rs \<Longrightarrow> f r \<noteq> None \<Longrightarrow>
     map_of (rev (map (\<lambda>r. (f r, g r)) rs)) (f r) = Some (g r)"
proof (induction rs)
  case Nil
  then show ?case by simp
next
  case (Cons x xs)
  show ?case
  proof (cases "r \<in> set xs")
    case True
    with Cons have "map_of (rev (map (\<lambda>r. (f r, g r)) xs)) (f r) = Some (g r)"
      by (auto split: if_splits)
    then show ?thesis by (simp add: map_add_def)
  next
    case False
    with Cons.prems have rx: "r = x" by simp
    from Cons.prems rx have "f x \<notin> set (map f xs)" by auto
    then have "map_of (rev (map (\<lambda>r. (f r, g r)) xs)) (f x) = None"
      by (simp add: map_of_eq_None_iff image_image)
    then show ?thesis by (simp add: rx map_add_def)
  qed
qed

lemma id_map_row:
  "unique_keys t \<Longrightarrow> r \<in> set (rows t) \<Longrightarrow> row_spacex_id r \<noteq> None \<Longrightarrow>
     id_map t (row_spacex_id r) = Some (row_id r)"
  unfolding unique_keys_def id_map_def by (rule map_of_rev_unique)

lemma dom_id_map: "dom (id_map t) = natural_keys t"
  by (simp add: id_map_def natural_keys_def dom_map_of_conv_image_fst image_image)

lemmas dim_eval_defs = load_dimension_tables_def rocket_params_def rocket_cells_def
  launchpad_params_def launchpad_cells_def

lemma resolves_id_map: "unique_keys t \<Longrightarrow> resolves (id_map t) t"
  unfolding resolves_def using id_map_row [of t] dom_id_map [of t] by blast

lemma insert_each_extends:
  "insert_each prm cel (Some t) xs = Inr (Some t') \<Longrightarrow>
     \<exists>new. extends t t' new
        \<and> (\<forall>r \<in> set new. \<exists>x \<in> set xs. key_of prm cel x (row_spacex_id r) (cols r))"
  unfolding extends_def using insert_each_rows [of prm cel t xs t'] by blast

lemma bindable_sql_bind: "bindable v \<Longrightarrow> \<exists>b. sql_bind v = Inr b"
  by (cases v) (simp_all add: bind_int_def)

lemma field_bindableD:
  "field_bindable r field \<Longrightarrow> \<exists>v b. py_get r field = Inr v \<and> sql_bind v = Inr b"
  unfolding field_bindable_def using bindable_sql_bind by (auto split: sum.splits)

lemma field_bindable_get: "field_bindable r field \<Longrightarrow> \<exists>v. py_get r other = Inr v"
  by (cases r) (simp_all add: field_bindable_def)

lemma bind_flag: "\<exists>b. bind_int (if c then 1 else 0) = Inr b"
  by (simp add: bind_int_def MAX_ROWID_def)

lemma rocket_storable_key_of:
  assumes "rocket_storable x"
  shows "\<exists>k p. key_of rocket_params (rocket_cells cv) x k p"
proof -
  obtain a r where x: "x = (a, r)" by (cases x)
  from assms have ok: "bindable (json_of_atom a)" "field_bindable r ''name''" "field_bindable r ''type''"
    by (simp_all add: rocket_storable_def x)
  from bindable_sql_bind [OF ok(1)] obtain b1 where b1: "sql_bind (json_of_atom a) = Inr b1" by blast
  from field_bindableD [OF ok(2)] obtain namev b2 where
    n: "py_get r ''name'' = Inr namev" "sql_bind namev = Inr b2" by blast
  from field_bindableD [OF ok(3)] obtain typev b3 where
    t: "py_get r ''type'' = Inr typev" "sql_bind typev = Inr b3" by blast
  from field_bindable_get [OF ok(2)] obtain activev where a: "py_get r ''active'' = Inr activev"
    by blast
  from bind_flag obtain b4 where b4: "bind_int (if truthy activev then 1 else 0) = Inr b4" by blast
  have "rocket_params x = Inr (json_of_atom a, namev, typev, if truthy activev then 1 else 0)"
    by (simp add: rocket_params_def x n t a)
  moreover have "\<exists>k p. rocket_cells cv (json_of_atom a, namev, typev, if truthy activev then 1 else 0)
      = Inr (k, p)"
    unfolding rocket_cells_def by (simp add: b1 n t b4)
  ultimately show ?thesis unfolding key_of_def by blast
qed

lemma launchpad_storable_key_of:
  assumes "launchpad_storable x"
  shows "\<exists>k p. key_of launchpad_params (launchpad_cells cv) x k p"
proof -
  obtain a r where x: "x = (a, r)" by (cases x)
  from assms have ok: "bindable (json_of_atom a)" "field_bindable r ''name''"
    "field_bindable r ''region''" "field_bindable r ''latitude''" "field_bindable r ''longitude''"
    by (simp_all add: launchpad_storable_def x)
  from bindable_sql_bind [OF ok(1)] obtain b1 where b1: "sql_bind (json_of_atom a) = Inr b1" by blast
  from field_bindableD [OF ok(2)] obtain namev b2 where
    n: "py_get r ''name'' = Inr namev" "sql_bind namev = Inr b2" by blast
  from field_bindableD [OF ok(3)] obtain regionv b3 where
    g: "py_get r ''region'' = Inr regionv" "sql_bind regionv = Inr b3" by blast
  from field_bindableD [OF ok(4)] obtain latv b4 where
    la: "py_get r ''latitude'' = Inr latv" "sql_bind latv = Inr b4" by blast
  from field_bindableD [OF ok(5)] obtain lonv b5 where
    lo: "py_get r ''longitude'' = Inr lonv" "sql_bind lonv = Inr b5" by blast
  have "launchpad_params x = Inr (json_of_atom a, namev, regionv, latv, lonv)"
    by (simp add: launchpad_params_def x n g la lo)
  moreover have "\<exists>k p. launchpad_cells cv (json_of_atom a, namev, regionv, latv, lonv) = Inr (k, p)"
    unfolding launchpad_cells_def by (simp add: b1 n g la lo)
  ultimately show ?thesis unfolding key_of_def by blast
qed

lemma insert_each_total:
  "\<forall>x \<in> set xs. \<exists>k p. key_of prm cel x k p \<Longrightarrow> has_room t (length xs) \<Longrightarrow>
     \<exists>t'. insert_each prm cel (Some t) xs = Inr (Some t')"
proof (induction xs arbitrary: t)
  case Nil
  then show ?case by simp
next
  case (Cons x xs)
  from Cons.prems(1) obtain q k p where q: "prm x = Inr q" "cel q = Inr (k, p)"
    unfolding key_of_def by auto
  from Cons.prems(2) have "last_rowid t < MAX_ROWID" by (simp add: has_room_def)
  then obtain t1 where ins: "insert_or_ignore t k p = Inr t1" unfolding insert_or_ignore_Inr by simp
  from insert_or_ignore_last [OF ins] Cons.prems(2) have "has_room t1 (length xs)"
    by (simp add: has_room_def)
  with Cons.IH [of t1] Cons.prems(1) obtain t' where "insert_each prm cel (Some t1) xs = Inr (Some t')"
    by auto
  with q ins show ?case unfolding insert_each_Cons_Inr by blast
qed

lemma load_dimension_tables_total:
  assumes rt: "rockets d = Some rt" and pt: "launchpads d = Some pt"
    and okr: "\<forall>x \<in> set rockets_map. rocket_storable x"
    and okp: "\<forall>x \<in> set launchpads_map. launchpad_storable x"
    and rr: "has_room rt (length rockets_map)" and rp: "has_room pt (length launchpads_map)"
  shows "\<exists>d' rmap pmap. load_dimension_tables cv d rockets_map launchpads_map = Inr (d', rmap, pmap)"
proof -
  from okr rocket_storable_key_of
  have "\<forall>x \<in> set rockets_map. \<exists>k p. key_of rocket_params (rocket_cells cv) x k p" by blast
  from insert_each_total [OF this rr] obtain rt' where
    ri: "insert_each rocket_params (rocket_cells cv) (Some rt) rockets_map = Inr (Some rt')" by blast
  from okp launchpad_storable_key_of
  have "\<forall>x \<in> set launchpads_map. \<exists>k p. key_of launchpad_params (launchpad_cells cv) x k p" by blast
  from insert_each_total [OF this rp] obtain pt' where
    pi: "insert_each launchpad_params (launchpad_cells cv) (Some pt) launchpads_map = Inr (Some pt')"
    by blast
  show ?thesis unfolding load_dimension_tables_def by (simp add: rt pt ri pi)
qed

text \<open>
  C3. Take any state of the dimension tables that meets the UNIQUE constraint, and any
  fetched dicts. When every fetched item is storable and the tables have room,
  \<^verbatim>\<open>load_dimension_tables\<close> returns. Whenever it returns, it has kept every row that was
  there, in place and unchanged, has added only rows whose natural key was not there,
  and returns dicts whose keys are the natural keys of all rows now in the tables, each
  mapped to the surrogate key of its row: the rows of earlier runs and the fetched
  ones alike.
\<close>

theorem dimension_loader_resolves:
  assumes rt: "rockets d = Some rt" and pt: "launchpads d = Some pt"
    and ur: "unique_keys rt" and up: "unique_keys pt"
  shows "((\<forall>x \<in> set rockets_map. rocket_storable x) \<and> (\<forall>x \<in> set launchpads_map. launchpad_storable x)
          \<and> has_room rt (length rockets_map) \<and> has_room pt (length launchpads_map) \<longrightarrow>
          (\<exists>d' rmap pmap. load_dimension_tables cv d rockets_map launchpads_map = Inr (d', rmap, pmap)))
     \<and> (\<forall>d' rmap pmap.
          load_dimension_tables cv d rockets_map launchpads_map = Inr (d', rmap, pmap) \<longrightarrow>
          (\<exists>rt' pt' rnew pnew.
             rockets d' = Some rt' \<and> launchpads d' = Some pt'
             \<and> extends rt rt' rnew \<and> extends pt pt' pnew
             \<and> resolves rmap rt' \<and> resolves pmap pt'
             \<and> (\<forall>s. AStr s \<in> fst ` set rockets_map \<longrightarrow> Some s \<in> dom rmap)
             \<and> (\<forall>s. AStr s \<in> fst ` set launchpads_map \<longrightarrow> Some s \<in> dom pmap)))"
proof (intro conjI allI impI)
  assume "(\<forall>x \<in> set rockets_map. rocket_storable x) \<and> (\<forall>x \<in> set launchpads_map. launchpad_storable x)
          \<and> has_room rt (length rockets_map) \<and> has_room pt (length launchpads_map)"
  with load_dimension_tables_total [OF rt pt, of rockets_map launchpads_map cv]
  show "\<exists>d' rmap pmap. load_dimension_tables cv d rockets_map launchpads_map = Inr (d', rmap, pmap)"
    by blast
next
  fix d' rmap pmap
  assume run: "load_dimension_tables cv d rockets_map launchpads_map = Inr (d', rmap, pmap)"
  from run obtain rt' pt' where
    ri: "insert_each rocket_params (rocket_cells cv) (Some rt) rockets_map = Inr (Some rt')" and
    pi: "insert_each launchpad_params (launchpad_cells cv) (Some pt) launchpads_map = Inr (Some pt')" and
    d': "d' = d\<lparr>rockets := Some rt', launchpads := Some pt'\<rparr>" and
    m: "rmap = id_map rt'" "pmap = id_map pt'"
    unfolding load_dimension_tables_Inr rt pt by blast
  from insert_each_extends [OF ri] obtain rnew where rn: "extends rt rt' rnew" by blast
  from insert_each_extends [OF pi] obtain pnew where pn: "extends pt pt' pnew" by blast
  have res: "resolves rmap rt'" "resolves pmap pt'"
    unfolding m
    by (rule resolves_id_map, rule insert_each_unique [OF ri ur])
       (rule resolves_id_map, rule insert_each_unique [OF pi up])
  have kr: "Some s \<in> dom rmap" if "AStr s \<in> fst ` set rockets_map" for s
  proof -
    from that obtain v where "(AStr s, v) \<in> set rockets_map" by auto
    with insert_each_keys [OF ri] obtain k p where
      kp: "key_of rocket_params (rocket_cells cv) (AStr s, v) k p" "k \<noteq> None \<longrightarrow> k \<in> natural_keys rt'"
      by blast
    from rocket_key_of [OF kp(1)] have "k = Some s" by simp
    with kp(2) show ?thesis unfolding m dom_id_map by simp
  qed
  have kl: "Some s \<in> dom pmap" if "AStr s \<in> fst ` set launchpads_map" for s
  proof -
    from that obtain v where "(AStr s, v) \<in> set launchpads_map" by auto
    with insert_each_keys [OF pi] obtain k p where
      kp: "key_of launchpad_params (launchpad_cells cv) (AStr s, v) k p" "k \<noteq> None \<longrightarrow> k \<in> natural_keys pt'"
      by blast
    from launchpad_key_of [OF kp(1)] have "k = Some s" by simp
    with kp(2) show ?thesis unfolding m dom_id_map by simp
  qed
  have "rockets d' = Some rt'" "launchpads d' = Some pt'" by (simp_all add: d')
  with rn pn res kr kl show "\<exists>rt' pt' rnew pnew.
             rockets d' = Some rt' \<and> launchpads d' = Some pt'
             \<and> extends rt rt' rnew \<and> extends pt pt' pnew
             \<and> resolves rmap rt' \<and> resolves pmap pt'
             \<and> (\<forall>s. AStr s \<in> fst ` set rockets_map \<longrightarrow> Some s \<in> dom rmap)
             \<and> (\<forall>s. AStr s \<in> fst ` set launchpads_map \<longrightarrow> Some s \<in> dom pmap)" by blast
qed

lemma ex_dim_load:
  "load_dimension_tables ex_conversions ex_dim_db ex_rockets_map [] =
     Inr (ex_dim_db\<lparr>rockets := Some ex_rockets2\<rparr>, id_map ex_rockets2, id_map (\<lparr>rows = [], autoinc = 0\<rparr> :: launchpad_cols table))"
  by (simp add: dim_eval_defs eval_defs ex_dim_db_def ex_empty_db_def ex_rockets_map_def
        ex_rockets1_def ex_rockets2_def)

lemma ex_dims_load:
  "load_dimension_tables ex_conversions ex_dim_db ex_rockets_map ex_launchpads_map =
     Inr (ex_dims_db, id_map ex_rockets2, id_map ex_launchpads1)"
  by (simp add: dim_eval_defs eval_defs ex_dim_db_def ex_dims_db_def ex_empty_db_def
        ex_rockets_map_def ex_launchpads_map_def ex_rockets1_def ex_rockets2_def ex_launchpads1_def
        ex_conversions_def)

theorem dimension_loader_example:
  "load_dimension_tables ex_conversions ex_dim_db ex_rockets_map ex_launchpads_map =
     Inr (ex_dims_db, id_map ex_rockets2, id_map ex_launchpads1)
   \<and> unique_keys ex_rockets1
   \<and> list_all rocket_storable ex_rockets_map \<and> list_all launchpad_storable ex_launchpads_map
   \<and> has_room ex_rockets1 (length ex_rockets_map)
   \<and> (\<exists>d' rmap pmap.
        load_dimension_tables ex_conversions ex_dim_db ex_rockets_map ex_launchpads_map
          = Inr (d', rmap, pmap))
   \<and> id_map ex_rockets2 (Some ''r1'') = Some 1
   \<and> id_map ex_rockets2 (Some ''r2'') = Some 2
   \<and> id_map ex_launchpads1 (Some ''p1'') = Some 1
   \<and> map row_spacex_id (rows ex_rockets2) = [Some ''r1'', Some ''r2'']
   \<and> take 1 (rows ex_rockets2) = rows ex_rockets1
   \<and> Some ''r2'' \<in> dom (id_map ex_rockets2)
   \<and> Some ''p1'' \<in> dom (id_map ex_launchpads1)"
proof -
  have rt: "rockets ex_dim_db = Some ex_rockets1"
    and pt: "launchpads ex_dim_db = Some (\<lparr>rows = [], autoinc = 0\<rparr> :: launchpad_cols table)"
    by (simp_all add: ex_dim_db_def ex_empty_db_def)
  have ur: "unique_keys ex_rockets1" by (simp add: unique_keys_def ex_rockets1_def)
  have up: "unique_keys (\<lparr>rows = [], autoinc = 0\<rparr> :: launchpad_cols table)" by (simp add: unique_keys_def)
  have okr: "list_all rocket_storable ex_rockets_map"
    by (simp add: ex_rockets_map_def rocket_storable_def field_bindable_def)
  have okp: "list_all launchpad_storable ex_launchpads_map"
    by (simp add: ex_launchpads_map_def launchpad_storable_def field_bindable_def MAX_ROWID_def)
  have rr: "has_room ex_rockets1 (length ex_rockets_map)"
    by (simp add: has_room_def last_rowid_def max_rowid_def MAX_ROWID_def ex_rockets1_def
          ex_rockets_map_def)
  have rp: "has_room (\<lparr>rows = [], autoinc = 0\<rparr> :: launchpad_cols table) (length ex_launchpads_map)"
    by (simp add: has_room_def last_rowid_def max_rowid_def MAX_ROWID_def ex_launchpads_map_def)
  note T = dimension_loader_resolves [OF rt pt ur up, of ex_rockets_map ex_launchpads_map ex_conversions]
  from T [THEN conjunct1] okr okp rr rp
  have a: "\<exists>d' rmap pmap.
        load_dimension_tables ex_conversions ex_dim_db ex_rockets_map ex_launchpads_map
          = Inr (d', rmap, pmap)"
    by (simp add: list_all_iff)
  from T [THEN conjunct2] ex_dims_load
  have b: "Some ''r2'' \<in> dom (id_map ex_rockets2)" "Some ''p1'' \<in> dom (id_map ex_launchpads1)"
    by (auto simp: ex_rockets_map_def ex_launchpads_map_def)
  have c: "id_map ex_rockets2 (Some ''r1'') = Some 1" "id_map ex_rockets2 (Some ''r2'') = Some 2"
    "id_map ex_launchpads1 (Some ''p1'') = Some 1"
    "map row_spacex_id (rows ex_rockets2) = [Some ''r1'', Some ''r2'']"
    "take 1 (rows ex_rockets2) = rows ex_rockets1"
    by (simp_all add: id_map_def ex_rockets2_def ex_rockets1_def ex_launchpads1_def)
  from ex_dims_load ur okr okp rr a b c show ?thesis by simp
qed

lemma rocket_row_stored:
  assumes "key_of rocket_params (rocket_cells cv) (a, r) k p"
  shows "atom_key cv a = Inr k
     \<and> (attr_missing r ''name'' \<longrightarrow> r_name p = None)
     \<and> (attr_missing r ''type'' \<longrightarrow> r_type p = None)
     \<and> (\<exists>v. py_get r ''active'' = Inr v \<and> r_active p = Some (if truthy v then 1 else 0))"
  using rocket_key_of [OF assms] stored_text_missing by blast

lemma launchpad_row_stored:
  assumes "key_of launchpad_params (launchpad_cells cv) (a, r) k p"
  shows "atom_key cv a = Inr k
     \<and> (attr_missing r ''name'' \<longrightarrow> p_name p = None)
     \<and> (attr_missing r ''region'' \<longrightarrow> p_region p = None)
     \<and> (attr_missing r ''latitude'' \<longrightarrow> p_latitude p = SNull)
     \<and> (attr_missing r ''longitude'' \<longrightarrow> p_longitude p = SNull)"
  using launchpad_key_of [OF assms] stored_text_missing stored_real_missing by blast

text \<open>
  C6, as amended. Every row that \<^verbatim>\<open>load_dimension_tables\<close> inserts comes from a fetched
  record; a rocket's name and type, and a launchpad's name, region, latitude and
  longitude, are stored as NULL when the record lacks them; a rocket's active flag is
  stored as 1 when its value is truthy and as 0 otherwise, so also when it is missing.
\<close>

theorem dimension_columns_stored:
  assumes run: "load_dimension_tables cv d rockets_map launchpads_map = Inr (d', rmap, pmap)"
    and rt: "rockets d = Some rt" and pt: "launchpads d = Some pt"
  shows "\<exists>rt' pt' rnew pnew.
      rockets d' = Some rt' \<and> launchpads d' = Some pt'
      \<and> rows rt' = rows rt @ rnew \<and> rows pt' = rows pt @ pnew
      \<and> (\<forall>row \<in> set rnew. \<exists>a r. (a, r) \<in> set rockets_map
            \<and> atom_key cv a = Inr (row_spacex_id row)
            \<and> (attr_missing r ''name'' \<longrightarrow> r_name (cols row) = None)
            \<and> (attr_missing r ''type'' \<longrightarrow> r_type (cols row) = None)
            \<and> (\<exists>v. py_get r ''active'' = Inr v
                  \<and> r_active (cols row) = Some (if truthy v then 1 else 0)))
      \<and> (\<forall>row \<in> set pnew. \<exists>a r. (a, r) \<in> set launchpads_map
            \<and> atom_key cv a = Inr (row_spacex_id row)
            \<and> (attr_missing r ''name'' \<longrightarrow> p_name (cols row) = None)
            \<and> (attr_missing r ''region'' \<longrightarrow> p_region (cols row) = None)
            \<and> (attr_missing r ''latitude'' \<longrightarrow> p_latitude (cols row) = SNull)
            \<and> (attr_missing r ''longitude'' \<longrightarrow> p_longitude (cols row) = SNull))"
proof -
  from run obtain rt' pt' where
    ri: "insert_each rocket_params (rocket_cells cv) (Some rt) rockets_map = Inr (Some rt')" and
    pi: "insert_each launchpad_params (launchpad_cells cv) (Some pt) launchpads_map = Inr (Some pt')" and
    d': "d' = d\<lparr>rockets := Some rt', launchpads := Some pt'\<rparr>"
    unfolding load_dimension_tables_Inr rt pt by blast
  from insert_each_rows [OF ri] obtain rnew where
    rn: "rows rt' = rows rt @ rnew"
        "\<forall>row \<in> set rnew. \<exists>x \<in> set rockets_map. key_of rocket_params (rocket_cells cv) x (row_spacex_id row) (cols row)"
    by blast
  from insert_each_rows [OF pi] obtain pnew where
    pn: "rows pt' = rows pt @ pnew"
        "\<forall>row \<in> set pnew. \<exists>x \<in> set launchpads_map. key_of launchpad_params (launchpad_cells cv) x (row_spacex_id row) (cols row)"
    by blast
  have R: "\<exists>a r. (a, r) \<in> set rockets_map
            \<and> atom_key cv a = Inr (row_spacex_id row)
            \<and> (attr_missing r ''name'' \<longrightarrow> r_name (cols row) = None)
            \<and> (attr_missing r ''type'' \<longrightarrow> r_type (cols row) = None)
            \<and> (\<exists>v. py_get r ''active'' = Inr v
                  \<and> r_active (cols row) = Some (if truthy v then 1 else 0))"
    if "row \<in> set rnew" for row
  proof -
    from rn(2) that obtain a r where
      x: "(a, r) \<in> set rockets_map"
         "key_of rocket_params (rocket_cells cv) (a, r) (row_spacex_id row) (cols row)"
      by fastforce
    from x(1) rocket_row_stored [OF x(2)] show ?thesis by blast
  qed
  have P: "\<exists>a r. (a, r) \<in> set launchpads_map
            \<and> atom_key cv a = Inr (row_spacex_id row)
            \<and> (attr_missing r ''name'' \<longrightarrow> p_name (cols row) = None)
            \<and> (attr_missing r ''region'' \<longrightarrow> p_region (cols row) = None)
            \<and> (attr_missing r ''latitude'' \<longrightarrow> p_latitude (cols row) = SNull)
            \<and> (attr_missing r ''longitude'' \<longrightarrow> p_longitude (cols row) = SNull)"
    if "row \<in> set pnew" for row
  proof -
    from pn(2) that obtain a r where
      x: "(a, r) \<in> set launchpads_map"
         "key_of launchpad_params (launchpad_cells cv) (a, r) (row_spacex_id row) (cols row)"
      by fastforce
    from x(1) launchpad_row_stored [OF x(2)] show ?thesis by blast
  qed
  have "rockets d' = Some rt'" "launchpads d' = Some pt'" by (simp_all add: d')
  with rn(1) pn(1) R P show ?thesis by blast
qed

theorem dimension_columns_example:
  "load_dimension_tables ex_conversions ex_dim_db ex_rockets_map [] =
     Inr (ex_dim_db\<lparr>rockets := Some ex_rockets2\<rparr>, id_map ex_rockets2,
          id_map (\<lparr>rows = [], autoinc = 0\<rparr> :: launchpad_cols table))
   \<and> (\<exists>rnew. rows ex_rockets2 = rows ex_rockets1 @ rnew
        \<and> (\<exists>row a r. row \<in> set rnew \<and> (a, r) \<in> set ex_rockets_map
             \<and> attr_missing r ''type'' \<and> r_type (cols row) = None
             \<and> py_get r ''active'' = Inr (JBool True) \<and> r_active (cols row) = Some 1))"
proof -
  have rt: "rockets ex_dim_db = Some ex_rockets1"
    and pt: "launchpads ex_dim_db = Some (\<lparr>rows = [], autoinc = 0\<rparr> :: launchpad_cols table)"
    by (simp_all add: ex_dim_db_def ex_empty_db_def)
  from dimension_columns_stored [OF ex_dim_load rt pt] obtain rnew where
    n: "rows ex_rockets2 = rows ex_rockets1 @ rnew"
       "\<forall>row \<in> set rnew. \<exists>a r. (a, r) \<in> set ex_rockets_map
            \<and> atom_key ex_conversions a = Inr (row_spacex_id row)
            \<and> (attr_missing r ''name'' \<longrightarrow> r_name (cols row) = None)
            \<and> (attr_missing r ''type'' \<longrightarrow> r_type (cols row) = None)
            \<and> (\<exists>v. py_get r ''active'' = Inr v
                  \<and> r_active (cols row) = Some (if truthy v then 1 else 0))"
    by auto
  from n(1) have "rnew \<noteq> []" by (auto simp: ex_rockets1_def ex_rockets2_def)
  then obtain row where row: "row \<in> set rnew" by (cases rnew) auto
  with n(2) obtain a r where
    ar: "(a, r) \<in> set ex_rockets_map" "attr_missing r ''type'' \<longrightarrow> r_type (cols row) = None"
      "\<exists>v. py_get r ''active'' = Inr v \<and> r_active (cols row) = Some (if truthy v then 1 else 0)"
    by blast
  from ar(1) have r: "r = JObj [(''name'', JStr ''Falcon 9''), (''active'', JBool True)]"
    by (simp add: ex_rockets_map_def)
  have m: "attr_missing r ''type''" "py_get r ''active'' = Inr (JBool True)"
    by (simp_all add: r attr_missing_def)
  with ar(2,3) have "r_type (cols row) = None" "r_active (cols row) = Some 1" by auto
  with n(1) row ar(1) m ex_dim_load show ?thesis by blast
qed

lemma ex_bare_load:
  "load_dimension_tables ex_conversions ex_empty_db ex_bare_map [] =
     Inr (ex_empty_db\<lparr>rockets := Some ex_bare_rockets\<rparr>, id_map ex_bare_rockets,
          id_map (\<lparr>rows = [], autoinc = 0\<rparr> :: launchpad_cols table))"
  by (simp add: dim_eval_defs eval_defs ex_empty_db_def ex_bare_map_def ex_bare_rockets_def)

text \<open>
  C6, as stated, fails on the active flag: a rocket record with no \<^verbatim>\<open>active\<close> attribute
  is stored with active = 0, not NULL.
\<close>

theorem missing_active_stored_as_zero:
  "load_dimension_tables ex_conversions ex_empty_db ex_bare_map [] =
     Inr (ex_empty_db\<lparr>rockets := Some ex_bare_rockets\<rparr>, id_map ex_bare_rockets,
          id_map (\<lparr>rows = [], autoinc = 0\<rparr> :: launchpad_cols table))
   \<and> ex_bare_map = [(AStr ''r9'', JObj [])]
   \<and> attr_missing (JObj []) ''active''
   \<and> map (\<lambda>row. r_active (cols row)) (rows ex_bare_rockets) = [Some 0]
   \<and> map (\<lambda>row. r_active (cols row)) (rows ex_bare_rockets) \<noteq> [None]"
  using ex_bare_load
  by (simp add: ex_bare_map_def ex_bare_rockets_def attr_missing_def)

section \<open>Frame\<close>

text \<open>
  C10. A successful \<^verbatim>\<open>load_launches\<close> leaves the rockets and launchpads tables as they
  were (one that raises has committed nothing), and \<^verbatim>\<open>load_dimension_tables\<close> leaves the
  launches table as it was, whether it returns or raises.
\<close>

theorem loaders_frame:
  "(load_launches cv d facts rm pm = Inr d' \<longrightarrow>
      rockets d' = rockets d \<and> launchpads d' = launchpads d)
   \<and> (load_dimension_tables cv da rockets_map launchpads_map = Inr (da', rmap, pmap) \<longrightarrow>
      launches da' = launches da)
   \<and> (load_dimension_tables cv da rockets_map launchpads_map = Inl (e, dc) \<longrightarrow>
      launches dc = launches da)"
  unfolding load_launches_Inr load_dimension_tables_Inr
  using load_dimension_tables_Inl [of cv da rockets_map launchpads_map e dc] by auto

theorem loaders_frame_example:
  "load_launches ex_conversions ex_empty_db ex_success_facts Map.empty Map.empty = Inr ex_success_db
   \<and> rockets ex_success_db = rockets ex_empty_db
   \<and> launchpads ex_success_db = launchpads ex_empty_db
   \<and> load_dimension_tables ex_conversions ex_dim_db ex_rockets_map [] =
     Inr (ex_dim_db\<lparr>rockets := Some ex_rockets2\<rparr>, id_map ex_rockets2,
          id_map (\<lparr>rows = [], autoinc = 0\<rparr> :: launchpad_cols table))
   \<and> launches (ex_dim_db\<lparr>rockets := Some ex_rockets2\<rparr>) = launches ex_dim_db"
  using loaders_frame [where cv = ex_conversions and d = ex_empty_db and facts = ex_success_facts
          and rm = Map.empty and pm = Map.empty and d' = ex_success_db and da = ex_dim_db
          and rockets_map = ex_rockets_map and launchpads_map = "[]"
          and da' = "ex_dim_db\<lparr>rockets := Some ex_rockets2\<rparr>"
          and rmap = "id_map ex_rockets2"
          and pmap = "id_map (\<lparr>rows = [], autoinc = 0\<rparr> :: launchpad_cols table)"]
    ex_success_load ex_dim_load
  by simp

section \<open>Foreign keys\<close>

lemma surrogate_key_None:
  "surrogate_key t v = None \<longleftrightarrow> (\<forall>s. v = JStr s \<longrightarrow> Some s \<notin> natural_keys t)"
proof (cases v)
  case (JStr s)
  have "filter (\<lambda>r. row_spacex_id r = Some s) (rows t) = [] \<longleftrightarrow> Some s \<notin> natural_keys t"
    unfolding natural_keys_def filter_empty_conv image_iff by metis
  then show ?thesis by (auto simp: surrogate_key_def JStr split: list.splits)
qed (simp_all add: surrogate_key_def)

lemma dict_get_resolves:
  assumes res: "resolves m t" and nn: "None \<notin> natural_keys t" and g: "dict_get m v = Inr x"
  shows "x = surrogate_key t v"
proof (cases v)
  case (JStr s)
  with g have x: "x = m (Some s)" by (simp add: dict_get_def)
  show ?thesis
  proof (cases "filter (\<lambda>r. row_spacex_id r = Some s) (rows t)")
    case Nil
    then have "Some s \<notin> natural_keys t"
      unfolding natural_keys_def filter_empty_conv image_iff by metis
    with res have "m (Some s) = None" unfolding resolves_def by blast
    with x Nil show ?thesis by (simp add: surrogate_key_def JStr)
  next
    case (Cons r rs)
    then have "r \<in> set (filter (\<lambda>r. row_spacex_id r = Some s) (rows t))" by simp
    then have "r \<in> set (rows t)" "row_spacex_id r = Some s" by auto
    with res have "m (Some s) = Some (row_id r)" unfolding resolves_def by force
    with x Cons show ?thesis by (simp add: surrogate_key_def JStr)
  qed
next
  case JNull
  from res nn have "m None = None" unfolding resolves_def by blast
  with g JNull show ?thesis by (simp add: dict_get_def surrogate_key_def)
qed (use g in \<open>auto simp: dict_get_def surrogate_key_def\<close>)

lemma last_rowid_nonneg: "0 \<le> last_rowid t"
  unfolding last_rowid_def using max_rowid_nonneg [of "rows t"] by simp

lemma insert_each_rowids:
  "insert_each prm cel (Some t) xs = Inr (Some t') \<Longrightarrow> rowids_ok t \<Longrightarrow> rowids_ok t'"
proof (induction xs arbitrary: t)
  case Nil
  then show ?case by simp
next
  case (Cons x xs)
  from Cons.prems(1) obtain k p t1 where
    ins: "insert_or_ignore t k p = Inr t1" and
    rest: "insert_each prm cel (Some t1) xs = Inr (Some t')"
    unfolding insert_each_Cons_Inr by auto
  from ins have lim: "last_rowid t < MAX_ROWID" unfolding insert_or_ignore_Inr by simp
  have "rowids_ok t1"
    using ins
  proof (cases rule: insert_or_ignore_cases)
    case ignored
    with Cons.prems(2) show ?thesis by (simp add: rowids_ok_def)
  next
    case inserted
    with Cons.prems(2) lim last_rowid_nonneg [of t] show ?thesis
      by (auto simp: rowids_ok_def fresh_row_def)
  qed
  from Cons.IH [OF rest this] show ?case .
qed

lemma id_map_Some: "id_map t k = Some n \<Longrightarrow> \<exists>r \<in> set (rows t). row_id r = n"
  unfolding id_map_def by (auto dest!: map_of_SomeD)

lemma id_map_bind:
  assumes "rowids_ok t"
  shows "\<exists>b. bind_opt_int (id_map t k) = Inr b"
proof (cases "id_map t k")
  case None
  then show ?thesis by simp
next
  case (Some n)
  from id_map_Some [OF Some] assms show ?thesis by (auto simp: Some rowids_ok_def bind_int_def)
qed

lemma field_hashableD:
  "field_hashable r field \<Longrightarrow> \<exists>v a. py_get r field = Inr v \<and> hashable v = Inr a"
  unfolding field_hashable_def by (auto split: sum.splits)

lemma dict_get_id_map:
  assumes "hashable v = Inr a" "rowids_ok t"
  shows "\<exists>x b. dict_get (id_map t) v = Inr x \<and> bind_opt_int x = Inr b"
proof -
  from assms(1) obtain x where x: "dict_get (id_map t) v = Inr x"
    "x = None \<or> (\<exists>k. x = id_map t k)"
    by (cases a) (auto simp: dict_get_def)
  from x(2) id_map_bind [OF assms(2)] have "\<exists>b. bind_opt_int x = Inr b" by auto
  with x(1) show ?thesis by blast
qed

lemma bind_success: "\<exists>b. bind_opt_int (success_int v) = Inr b"
  by (simp add: success_int_def bind_int_def MAX_ROWID_def)

lemma launch_storable_key_of:
  assumes ok: "launch_storable l" and ir: "rowids_ok rt" and ip: "rowids_ok pt"
  shows "\<exists>k p. key_of (launch_params (id_map rt) (id_map pt)) (launch_cells cv) l k p"
proof -
  from ok have f: "field_bindable l ''id''" "field_bindable l ''name''"
    "field_bindable l ''date_utc''" "field_bindable l ''details''"
    "field_hashable l ''rocket''" "field_hashable l ''launchpad''"
    by (simp_all add: launch_storable_def)
  from field_bindableD [OF f(1)] obtain idv b1 where
    i: "py_get l ''id'' = Inr idv" "sql_bind idv = Inr b1" by blast
  from field_bindableD [OF f(2)] obtain namev b2 where
    n: "py_get l ''name'' = Inr namev" "sql_bind namev = Inr b2" by blast
  from field_bindableD [OF f(3)] obtain datev b3 where
    da: "py_get l ''date_utc'' = Inr datev" "sql_bind datev = Inr b3" by blast
  from field_bindableD [OF f(4)] obtain detv b7 where
    de: "py_get l ''details'' = Inr detv" "sql_bind detv = Inr b7" by blast
  from field_bindable_get [OF f(1)] obtain sv where s: "py_get l ''success'' = Inr sv" by blast
  from bind_success obtain b4 where b4: "bind_opt_int (success_int sv) = Inr b4" by blast
  from field_hashableD [OF f(5)] obtain rv ra where
    r: "py_get l ''rocket'' = Inr rv" "hashable rv = Inr ra" by blast
  from field_hashableD [OF f(6)] obtain pv pa where
    p: "py_get l ''launchpad'' = Inr pv" "hashable pv = Inr pa" by blast
  from dict_get_id_map [OF r(2) ir] obtain rid b5 where
    rid: "dict_get (id_map rt) rv = Inr rid" "bind_opt_int rid = Inr b5" by blast
  from dict_get_id_map [OF p(2) ip] obtain pid b6 where
    pid: "dict_get (id_map pt) pv = Inr pid" "bind_opt_int pid = Inr b6" by blast
  have "launch_params (id_map rt) (id_map pt) l
      = Inr (idv, namev, datev, success_int sv, rid, pid, detv)"
    unfolding launch_params_def by (simp add: i n da de s r p rid pid)
  moreover have "\<exists>k p. launch_cells cv (idv, namev, datev, success_int sv, rid, pid, detv) = Inr (k, p)"
    unfolding launch_cells_def by (simp add: i n da de b4 rid pid)
  ultimately show ?thesis unfolding key_of_def by blast
qed

lemma keys_no_null:
  assumes ins: "insert_each prm cel (Some t) xs = Inr (Some t')"
    and nn: "None \<notin> natural_keys t"
    and keys: "\<And>x k p. x \<in> set xs \<Longrightarrow> key_of prm cel x k p \<Longrightarrow> k \<noteq> None"
  shows "None \<notin> natural_keys t'"
proof -
  from insert_each_rows [OF ins] obtain new where
    n: "rows t' = rows t @ new"
       "\<forall>r \<in> set new. \<exists>x \<in> set xs. key_of prm cel x (row_spacex_id r) (cols r)"
    by blast
  have new: "row_spacex_id r \<noteq> None" if "r \<in> set new" for r
    using n(2) that keys by blast
  show ?thesis
  proof
    assume "None \<in> natural_keys t'"
    then obtain r where r: "r \<in> set (rows t')" "row_spacex_id r = None"
      unfolding natural_keys_def image_iff by metis
    from r(1) have "r \<in> set (rows t) \<or> r \<in> set new" unfolding n(1) by simp
    then show False
    proof
      assume "r \<in> set (rows t)"
      with r(2) have "None \<in> natural_keys t" unfolding natural_keys_def image_iff by metis
      with nn show False by simp
    next
      assume "r \<in> set new"
      with new r(2) show False by blast
    qed
  qed
qed

text \<open>
  C1, as amended. Let the dimension loader have run on tables that meet the UNIQUE
  constraint and hold no NULL natural key, with dicts none of whose keys is stored as
  NULL, and let the fact loader run with the dicts it returned, on storable facts and
  with room in the launches table. Then the fact loader returns. The rows that were
  stored stay as they were, every new row is the row of a fact of the load and carries
  a natural id that was not stored, and no two rows share a natural id. Every fresh
  fact (natural id null, or neither stored nor carried by an earlier fact of the load)
  gets a row, and each foreign-key column of that row is the surrogate key of the
  dimension row whose natural key is the string that the fact refers to: never NULL
  when that string is a key of the fetched dict, and NULL exactly when the reference is
  absent, null, no string, or the natural key of no dimension row.
\<close>

theorem foreign_keys_resolved:
  assumes dims: "load_dimension_tables cv d rockets_map launchpads_map = Inr (d1, rmap, pmap)"
    and rt: "rockets d = Some rt" and pt: "launchpads d = Some pt" and lt: "launches d = Some lt"
    and ur: "unique_keys rt" and up: "unique_keys pt"
    and nr: "None \<notin> natural_keys rt" and np: "None \<notin> natural_keys pt"
    and sr: "storable_atoms (map fst rockets_map)" and sp: "storable_atoms (map fst launchpads_map)"
    and ir: "rowids_ok rt" and ip: "rowids_ok pt"
    and ok: "\<forall>l \<in> set facts. launch_storable l"
    and room: "has_room lt (length facts)"
  shows "\<exists>d2 rt' pt' lt' new.
      load_launches cv d1 facts rmap pmap = Inr d2
      \<and> rockets d2 = Some rt' \<and> launchpads d2 = Some pt' \<and> launches d2 = Some lt'
      \<and> extends lt lt' new
      \<and> (unique_keys lt \<longrightarrow> unique_keys lt')
      \<and> (\<forall>l \<in> set facts. \<forall>k. launch_key cv l = Inr (Some k) \<and> Some k \<in> natural_keys lt \<longrightarrow>
            Some k \<notin> row_spacex_id ` set new)
      \<and> (\<forall>row \<in> set new. \<exists>l \<in> set facts. launch_key cv l = Inr (row_spacex_id row))
      \<and> (\<forall>pre l post rv pv.
            facts = pre @ l # post \<and> fresh_fact cv lt pre l
            \<and> py_get l ''rocket'' = Inr rv \<and> py_get l ''launchpad'' = Inr pv \<longrightarrow>
            (\<exists>row \<in> set new. launch_key cv l = Inr (row_spacex_id row)
               \<and> l_rocket_id (cols row) = surrogate_key rt' rv
               \<and> l_launchpad_id (cols row) = surrogate_key pt' pv))
      \<and> (\<forall>s. AStr s \<in> fst ` set rockets_map \<longrightarrow> surrogate_key rt' (JStr s) \<noteq> None)
      \<and> (\<forall>s. AStr s \<in> fst ` set launchpads_map \<longrightarrow> surrogate_key pt' (JStr s) \<noteq> None)
      \<and> (\<forall>v. surrogate_key rt' v = None \<longleftrightarrow> (\<forall>s. v = JStr s \<longrightarrow> Some s \<notin> natural_keys rt'))
      \<and> (\<forall>v. surrogate_key pt' v = None \<longleftrightarrow> (\<forall>s. v = JStr s \<longrightarrow> Some s \<notin> natural_keys pt'))"
proof -
  from dims obtain rt' pt' where
    ri: "insert_each rocket_params (rocket_cells cv) (Some rt) rockets_map = Inr (Some rt')" and
    pi: "insert_each launchpad_params (launchpad_cells cv) (Some pt) launchpads_map = Inr (Some pt')" and
    d1: "d1 = d\<lparr>rockets := Some rt', launchpads := Some pt'\<rparr>" and
    m: "rmap = id_map rt'" "pmap = id_map pt'"
    unfolding load_dimension_tables_Inr rt pt by blast
  have res: "resolves rmap rt'" "resolves pmap pt'"
    unfolding m
    by (rule resolves_id_map, rule insert_each_unique [OF ri ur])
       (rule resolves_id_map, rule insert_each_unique [OF pi up])
  have nr': "None \<notin> natural_keys rt'"
  proof (rule keys_no_null [OF ri nr])
    fix x k p assume x: "x \<in> set rockets_map" "key_of rocket_params (rocket_cells cv) x k p"
    obtain a r where ar: "x = (a, r)" by (cases x)
    with x(1) sr have "\<not> stored_null (json_of_atom a)" unfolding storable_atoms_def by force
    with rocket_key_of [OF x(2) [unfolded ar]] atom_key_None show "k \<noteq> None" by blast
  qed
  have np': "None \<notin> natural_keys pt'"
  proof (rule keys_no_null [OF pi np])
    fix x k p assume x: "x \<in> set launchpads_map" "key_of launchpad_params (launchpad_cells cv) x k p"
    obtain a r where ar: "x = (a, r)" by (cases x)
    with x(1) sp have "\<not> stored_null (json_of_atom a)" unfolding storable_atoms_def by force
    with launchpad_key_of [OF x(2) [unfolded ar]] atom_key_None show "k \<noteq> None" by blast
  qed
  have A: "\<forall>s. AStr s \<in> fst ` set rockets_map \<longrightarrow> surrogate_key rt' (JStr s) \<noteq> None"
  proof (intro allI impI)
    fix s assume "AStr s \<in> fst ` set rockets_map"
    then obtain v where "(AStr s, v) \<in> set rockets_map" by auto
    with insert_each_keys [OF ri] obtain k p where
      kp: "key_of rocket_params (rocket_cells cv) (AStr s, v) k p" "k \<noteq> None \<longrightarrow> k \<in> natural_keys rt'"
      by blast
    from rocket_key_of [OF kp(1)] have "k = Some s" by simp
    with kp(2) show "surrogate_key rt' (JStr s) \<noteq> None" unfolding surrogate_key_None by simp
  qed
  have B: "\<forall>s. AStr s \<in> fst ` set launchpads_map \<longrightarrow> surrogate_key pt' (JStr s) \<noteq> None"
  proof (intro allI impI)
    fix s assume "AStr s \<in> fst ` set launchpads_map"
    then obtain v where "(AStr s, v) \<in> set launchpads_map" by auto
    with insert_each_keys [OF pi] obtain k p where
      kp: "key_of launchpad_params (launchpad_cells cv) (AStr s, v) k p" "k \<noteq> None \<longrightarrow> k \<in> natural_keys pt'"
      by blast
    from launchpad_key_of [OF kp(1)] have "k = Some s" by simp
    with kp(2) show "surrogate_key pt' (JStr s) \<noteq> None" unfolding surrogate_key_None by simp
  qed
  have lt1: "launches d1 = Some lt" by (simp add: d1 lt)
  let ?prm = "launch_params rmap pmap" and ?cel = "launch_cells cv"
  have "\<forall>l \<in> set facts. \<exists>k p. key_of ?prm ?cel l k p"
    unfolding m
    using ok launch_storable_key_of [OF _ insert_each_rowids [OF ri ir] insert_each_rowids [OF pi ip]]
    by blast
  from insert_each_total [OF this room] obtain lt' where
    li: "insert_each ?prm ?cel (Some lt) facts = Inr (Some lt')" by blast
  define d2 where "d2 = d1\<lparr>launches := Some lt'\<rparr>"
  have run: "load_launches cv d1 facts rmap pmap = Inr d2"
    unfolding load_launches_Inr lt1 d2_def using li by blast
  from insert_each_rows [OF li] obtain new where
    n: "rows lt' = rows lt @ new"
       "\<forall>r \<in> set new. \<exists>x \<in> set facts. key_of ?prm ?cel x (row_spacex_id r) (cols r)"
       "\<forall>r \<in> set new. row_spacex_id r \<noteq> None \<longrightarrow> row_spacex_id r \<notin> natural_keys lt"
    by blast
  have E: "extends lt lt' new" unfolding extends_def using n(1,3) by blast
  have U: "unique_keys lt \<longrightarrow> unique_keys lt'" using insert_each_unique [OF li] by blast
  have S: "\<forall>l \<in> set facts. \<forall>k. launch_key cv l = Inr (Some k) \<and> Some k \<in> natural_keys lt \<longrightarrow>
            Some k \<notin> row_spacex_id ` set new"
    using n(3) by force
  have F: "\<forall>row \<in> set new. \<exists>l \<in> set facts. launch_key cv l = Inr (row_spacex_id row)"
    using n(2) launch_key_of_key by blast
  have G: "\<forall>pre l post rv pv.
            facts = pre @ l # post \<and> fresh_fact cv lt pre l
            \<and> py_get l ''rocket'' = Inr rv \<and> py_get l ''launchpad'' = Inr pv \<longrightarrow>
            (\<exists>row \<in> set new. launch_key cv l = Inr (row_spacex_id row)
               \<and> l_rocket_id (cols row) = surrogate_key rt' rv
               \<and> l_launchpad_id (cols row) = surrogate_key pt' pv)"
  proof (intro allI impI)
    fix pre l post rv pv
    assume a: "facts = pre @ l # post \<and> fresh_fact cv lt pre l
            \<and> py_get l ''rocket'' = Inr rv \<and> py_get l ''launchpad'' = Inr pv"
    then have f: "facts = pre @ l # post" and fresh: "fresh_fact cv lt pre l"
      and rv: "py_get l ''rocket'' = Inr rv" and pv: "py_get l ''launchpad'' = Inr pv"
      by simp_all
    from fresh_factD [OF fresh] obtain k where
      k: "launch_key cv l = Inr k"
         "k = None \<or> (k \<notin> natural_keys lt \<and> (\<forall>y \<in> set pre. launch_key cv y \<noteq> Inr k))"
      by blast
    from load_launches_fresh [OF run [unfolded f] lt1 k] obtain lt2 new2 row where
      r: "launches d2 = Some lt2" "rows lt2 = rows lt @ new2" "row \<in> set new2" "row_spacex_id row = k"
         "key_of ?prm ?cel l k (cols row)"
      by blast
    from r(1) have "lt2 = lt'" by (simp add: d2_def)
    with r(2) n(1) have "new2 = new" by simp
    with r(3) have rn: "row \<in> set new" by simp
    from launch_key_of [OF r(5)] rv pv have
      g: "dict_get rmap rv = Inr (l_rocket_id (cols row))"
         "dict_get pmap pv = Inr (l_launchpad_id (cols row))"
      by auto
    have fk: "l_rocket_id (cols row) = surrogate_key rt' rv" "l_launchpad_id (cols row) = surrogate_key pt' pv"
      by (rule dict_get_resolves [OF res(1) nr' g(1)], rule dict_get_resolves [OF res(2) np' g(2)])
    from rn k(1) r(4) fk
    show "\<exists>row \<in> set new. launch_key cv l = Inr (row_spacex_id row)
               \<and> l_rocket_id (cols row) = surrogate_key rt' rv
               \<and> l_launchpad_id (cols row) = surrogate_key pt' pv"
      by auto
  qed
  have d2: "rockets d2 = Some rt'" "launchpads d2 = Some pt'" "launches d2 = Some lt'"
    by (simp_all add: d2_def d1)
  have H: "\<forall>v. surrogate_key rt' v = None \<longleftrightarrow> (\<forall>s. v = JStr s \<longrightarrow> Some s \<notin> natural_keys rt')"
    "\<forall>v. surrogate_key pt' v = None \<longleftrightarrow> (\<forall>s. v = JStr s \<longrightarrow> Some s \<notin> natural_keys pt')"
    using surrogate_key_None by blast+
  show ?thesis
    apply (rule exI [of _ d2], rule exI [of _ rt'], rule exI [of _ pt'], rule exI [of _ lt'])
    apply (rule exI [of _ new])
    apply (intro conjI)
    apply (rule run d2(1) d2(2) d2(3) E U S F G A B H(1) H(2))+
    done
qed

lemma ex_two_load:
  "load_dimension_tables ex_conversions ex_empty_db ex_two_map [] =
     Inr (ex_two_db, id_map ex_two_rockets, id_map ex_no_launchpads)"
  by (simp add: dim_eval_defs eval_defs ex_empty_db_def ex_two_map_def ex_two_rockets_def
        ex_two_db_def ex_no_launchpads_def)

lemma ex_dup_load:
  "load_launches ex_conversions ex_two_db ex_dup_facts (id_map ex_two_rockets) (id_map ex_no_launchpads)
     = Inr ex_dup_db"
  by (simp add: eval_defs id_map_def ex_empty_db_def ex_two_rockets_def
        ex_two_db_def ex_no_launchpads_def ex_dup_facts_def ex_dup_db_def)

lemma ex_refs_load:
  "load_launches ex_conversions ex_dims_db ex_ref_facts (id_map ex_rockets2) (id_map ex_launchpads1)
     = Inr ex_refs_db"
  by (simp add: eval_defs id_map_def ex_dims_db_def ex_empty_db_def ex_rockets2_def
        ex_launchpads1_def ex_ref_facts_def ex_refs_db_def)

theorem foreign_keys_example:
  "load_dimension_tables ex_conversions ex_dim_db ex_rockets_map ex_launchpads_map =
     Inr (ex_dims_db, id_map ex_rockets2, id_map ex_launchpads1)
   \<and> list_all launch_storable ex_ref_facts
   \<and> load_launches ex_conversions ex_dims_db ex_ref_facts (id_map ex_rockets2) (id_map ex_launchpads1)
       = Inr ex_refs_db
   \<and> fresh_fact ex_conversions \<lparr>rows = [], autoinc = 0\<rparr> [ex_ref_facts ! 0] (ex_ref_facts ! 1)
   \<and> surrogate_key ex_rockets2 (JStr ''r2'') = Some 2
   \<and> surrogate_key ex_launchpads1 (JStr ''p1'') = Some 1
   \<and> (\<exists>lt' row. launches ex_refs_db = Some lt' \<and> row \<in> set (rows lt')
         \<and> launch_key ex_conversions (ex_ref_facts ! 1) = Inr (row_spacex_id row)
         \<and> l_rocket_id (cols row) = Some 2 \<and> l_launchpad_id (cols row) = Some 1)"
proof -
  have t: "rockets ex_dim_db = Some ex_rockets1"
      "launchpads ex_dim_db = Some \<lparr>rows = [], autoinc = 0\<rparr>"
      "launches ex_dim_db = Some \<lparr>rows = [], autoinc = 0\<rparr>"
    by (simp_all add: ex_dim_db_def ex_empty_db_def)
  have u: "unique_keys ex_rockets1"
      "unique_keys (\<lparr>rows = [], autoinc = 0\<rparr> :: launchpad_cols table)"
      "None \<notin> natural_keys ex_rockets1"
      "None \<notin> natural_keys (\<lparr>rows = [], autoinc = 0\<rparr> :: launchpad_cols table)"
    by (simp_all add: unique_keys_def natural_keys_def ex_rockets1_def)
  have s: "storable_atoms (map fst ex_rockets_map)" "storable_atoms (map fst ex_launchpads_map)"
    by (simp_all add: storable_atoms_def stored_null_def ex_rockets_map_def ex_launchpads_map_def)
  have i: "rowids_ok ex_rockets1" "rowids_ok (\<lparr>rows = [], autoinc = 0\<rparr> :: launchpad_cols table)"
    by (simp_all add: rowids_ok_def MAX_ROWID_def ex_rockets1_def)
  have ok: "list_all launch_storable ex_ref_facts"
    by (simp add: ex_ref_facts_def launch_storable_def field_bindable_def field_hashable_def)
  then have ok': "\<forall>l \<in> set ex_ref_facts. launch_storable l" by (simp add: list_all_iff)
  have room: "has_room (\<lparr>rows = [], autoinc = 0\<rparr> :: launch_cols table) (length ex_ref_facts)"
    by (simp add: has_room_def last_rowid_def max_rowid_def MAX_ROWID_def ex_ref_facts_def)
  have f: "ex_ref_facts = [ex_ref_facts ! 0] @ ex_ref_facts ! 1 # [ex_ref_facts ! 2]"
    by (simp add: ex_ref_facts_def)
  have fresh: "fresh_fact ex_conversions \<lparr>rows = [], autoinc = 0\<rparr> [ex_ref_facts ! 0] (ex_ref_facts ! 1)"
    by (simp add: fresh_fact_def launch_key_def natural_keys_def ex_ref_facts_def)
  have g: "py_get (ex_ref_facts ! 1) ''rocket'' = Inr (JStr ''r2'')"
      "py_get (ex_ref_facts ! 1) ''launchpad'' = Inr (JStr ''p1'')"
    by (simp_all add: ex_ref_facts_def)
  have k: "surrogate_key ex_rockets2 (JStr ''r2'') = Some 2"
      "surrogate_key ex_launchpads1 (JStr ''p1'') = Some 1"
    by (simp_all add: surrogate_key_def ex_rockets2_def ex_launchpads1_def)
  from foreign_keys_resolved [OF ex_dims_load t u s i ok' room]
  obtain d2 rt' pt' lt' new where
    X: "load_launches ex_conversions ex_dims_db ex_ref_facts (id_map ex_rockets2) (id_map ex_launchpads1) = Inr d2
      \<and> rockets d2 = Some rt' \<and> launchpads d2 = Some pt' \<and> launches d2 = Some lt'
      \<and> extends \<lparr>rows = [], autoinc = 0\<rparr> lt' new
      \<and> (unique_keys (\<lparr>rows = [], autoinc = 0\<rparr> :: launch_cols table) \<longrightarrow> unique_keys lt')
      \<and> (\<forall>l \<in> set ex_ref_facts. \<forall>k. launch_key ex_conversions l = Inr (Some k)
              \<and> Some k \<in> natural_keys (\<lparr>rows = [], autoinc = 0\<rparr> :: launch_cols table) \<longrightarrow>
            Some k \<notin> row_spacex_id ` set new)
      \<and> (\<forall>row \<in> set new. \<exists>l \<in> set ex_ref_facts. launch_key ex_conversions l = Inr (row_spacex_id row))
      \<and> (\<forall>pre l post rv pv.
            ex_ref_facts = pre @ l # post \<and> fresh_fact ex_conversions \<lparr>rows = [], autoinc = 0\<rparr> pre l
            \<and> py_get l ''rocket'' = Inr rv \<and> py_get l ''launchpad'' = Inr pv \<longrightarrow>
            (\<exists>row \<in> set new. launch_key ex_conversions l = Inr (row_spacex_id row)
               \<and> l_rocket_id (cols row) = surrogate_key rt' rv
               \<and> l_launchpad_id (cols row) = surrogate_key pt' pv))
      \<and> (\<forall>s. AStr s \<in> fst ` set ex_rockets_map \<longrightarrow> surrogate_key rt' (JStr s) \<noteq> None)
      \<and> (\<forall>s. AStr s \<in> fst ` set ex_launchpads_map \<longrightarrow> surrogate_key pt' (JStr s) \<noteq> None)
      \<and> (\<forall>v. surrogate_key rt' v = None \<longleftrightarrow> (\<forall>s. v = JStr s \<longrightarrow> Some s \<notin> natural_keys rt'))
      \<and> (\<forall>v. surrogate_key pt' v = None \<longleftrightarrow> (\<forall>s. v = JStr s \<longrightarrow> Some s \<notin> natural_keys pt'))"
    by (elim exE) (rule that)
  from X have r1: "load_launches ex_conversions ex_dims_db ex_ref_facts (id_map ex_rockets2) (id_map ex_launchpads1) = Inr d2"
    by (elim conjE)
  from X have r2: "rockets d2 = Some rt'" by (elim conjE)
  from X have r3: "launchpads d2 = Some pt'" by (elim conjE)
  from X have r4: "launches d2 = Some lt'" by (elim conjE)
  from X have r5: "extends \<lparr>rows = [], autoinc = 0\<rparr> lt' new" by (elim conjE)
  from X have G: "\<forall>pre l post rv pv.
            ex_ref_facts = pre @ l # post \<and> fresh_fact ex_conversions \<lparr>rows = [], autoinc = 0\<rparr> pre l
            \<and> py_get l ''rocket'' = Inr rv \<and> py_get l ''launchpad'' = Inr pv \<longrightarrow>
            (\<exists>row \<in> set new. launch_key ex_conversions l = Inr (row_spacex_id row)
               \<and> l_rocket_id (cols row) = surrogate_key rt' rv
               \<and> l_launchpad_id (cols row) = surrogate_key pt' pv)"
    by (elim conjE)
  from r1 ex_refs_load have d2: "d2 = ex_refs_db" by simp
  from r2 r3 have tabs: "rt' = ex_rockets2" "pt' = ex_launchpads1"
    by (simp_all add: d2 ex_refs_db_def ex_dims_db_def)
  from r5 have new: "rows lt' = new" by (simp add: extends_def)
  have "\<exists>row \<in> set new. launch_key ex_conversions (ex_ref_facts ! 1) = Inr (row_spacex_id row)
               \<and> l_rocket_id (cols row) = surrogate_key rt' (JStr ''r2'')
               \<and> l_launchpad_id (cols row) = surrogate_key pt' (JStr ''p1'')"
    by (rule G [rule_format]) (intro conjI, rule f, rule fresh, rule g(1), rule g(2))
  then obtain row where
    "row \<in> set new" "launch_key ex_conversions (ex_ref_facts ! 1) = Inr (row_spacex_id row)"
    "l_rocket_id (cols row) = surrogate_key rt' (JStr ''r2'')"
    "l_launchpad_id (cols row) = surrogate_key pt' (JStr ''p1'')"
    by blast
  with r4 have "\<exists>lt' row. launches ex_refs_db = Some lt' \<and> row \<in> set (rows lt')
         \<and> launch_key ex_conversions (ex_ref_facts ! 1) = Inr (row_spacex_id row)
         \<and> l_rocket_id (cols row) = Some 2 \<and> l_launchpad_id (cols row) = Some 1"
    unfolding d2 tabs k new [symmetric] by blast
  with ex_dims_load ok ex_refs_load fresh k show ?thesis by blast
qed

lemma dec_int_5: "dec_int 5 = ''5''"
  by (simp add: dec_int_def dec_nat.simps [of 5])

text \<open>
  C1, the counterexamples. A fact whose natural id is already stored gets no row: of
  two facts \<^verbatim>\<open>L1\<close>, the second one refers to the fetched rocket \<^verbatim>\<open>r2\<close> (surrogate key
  2), but it is skipped, and the one row of \<^verbatim>\<open>L1\<close> keeps the foreign key 1. A reference
  that is a list is found in no dict, and the load fails on it with TypeError; a fact
  with an attribute that cannot be bound fails the load too, whatever it refers to. A
  reference that is the number 5 is extracted, its rocket is stored under the text
  \<^verbatim>\<open>5\<close>, and the lookup of the number misses it: the foreign key is NULL though the
  rocket was fetched. A rocket fetched under NaN is stored with a NULL natural key,
  by this load or an earlier one, and the dict maps \<^verbatim>\<open>None\<close> to it: a fact with no
  rocket at all gets its surrogate key.
\<close>

theorem duplicate_fact_keeps_first_foreign_key:
  "load_dimension_tables ex_conversions ex_empty_db ex_two_map [] =
     Inr (ex_two_db, id_map ex_two_rockets, id_map ex_no_launchpads)
   \<and> load_launches ex_conversions ex_two_db ex_dup_facts (id_map ex_two_rockets) (id_map ex_no_launchpads)
       = Inr ex_dup_db
   \<and> py_get (ex_dup_facts ! 1) ''rocket'' = Inr (JStr ''r2'')
   \<and> AStr ''r2'' \<in> fst ` set ex_two_map
   \<and> surrogate_key ex_two_rockets (JStr ''r2'') = Some 2
   \<and> map (\<lambda>row. (row_spacex_id row, l_rocket_id (cols row))) (rows (the (launches ex_dup_db)))
       = [(Some ''L1'', Some 1)]
   \<and> py_get ex_list_fact ''rocket'' = Inr (JList [])
   \<and> load_launches ex_conversions ex_two_db [ex_list_fact] (id_map ex_two_rockets) (id_map ex_no_launchpads)
       = Inl TypeError
   \<and> py_get ex_unbound_fact ''rocket'' = Inr JNull
   \<and> load_launches ex_conversions ex_two_db [ex_unbound_fact] (id_map ex_two_rockets)
         (id_map ex_no_launchpads)
       = Inl ProgrammingError
   \<and> extract_unique_ids [ex_num_fact] = Inr ([AInt 5], [])
   \<and> load_dimension_tables ex_conversions ex_empty_db ex_num_map [] =
       Inr (ex_empty_db\<lparr>rockets := Some ex_num_rockets\<rparr>, id_map ex_num_rockets, id_map ex_no_launchpads)
   \<and> load_launches ex_conversions (ex_empty_db\<lparr>rockets := Some ex_num_rockets\<rparr>) [ex_num_fact]
         (id_map ex_num_rockets) (id_map ex_no_launchpads)
       = Inr (ex_empty_db\<lparr>rockets := Some ex_num_rockets, launches := Some (ex_one_launch None)\<rparr>)
   \<and> load_dimension_tables ex_conversions ex_empty_db ex_nan_map [] =
       Inr (ex_empty_db\<lparr>rockets := Some ex_nan_rockets\<rparr>, id_map ex_nan_rockets, id_map ex_no_launchpads)
   \<and> load_dimension_tables ex_conversions (ex_empty_db\<lparr>rockets := Some ex_nan_rockets\<rparr>) [] [] =
       Inr (ex_empty_db\<lparr>rockets := Some ex_nan_rockets\<rparr>, id_map ex_nan_rockets, id_map ex_no_launchpads)
   \<and> py_get ex_bare_fact ''rocket'' = Inr JNull
   \<and> load_launches ex_conversions (ex_empty_db\<lparr>rockets := Some ex_nan_rockets\<rparr>) [ex_bare_fact]
         (id_map ex_nan_rockets) (id_map ex_no_launchpads)
       = Inr (ex_empty_db\<lparr>rockets := Some ex_nan_rockets, launches := Some (ex_one_launch (Some 1))\<rparr>)"
proof -
  have a: "py_get (ex_dup_facts ! 1) ''rocket'' = Inr (JStr ''r2'')"
    "AStr ''r2'' \<in> fst ` set ex_two_map"
    "surrogate_key ex_two_rockets (JStr ''r2'') = Some 2"
    "map (\<lambda>row. (row_spacex_id row, l_rocket_id (cols row))) (rows (the (launches ex_dup_db)))
       = [(Some ''L1'', Some 1)]"
    by (simp_all add: ex_dup_facts_def ex_two_map_def surrogate_key_def ex_two_rockets_def ex_dup_db_def)
  have b: "py_get ex_list_fact ''rocket'' = Inr (JList [])"
    "load_launches ex_conversions ex_two_db [ex_list_fact] (id_map ex_two_rockets) (id_map ex_no_launchpads)
       = Inl TypeError"
    by (simp_all add: eval_defs dict_get_def ex_list_fact_def ex_two_db_def ex_empty_db_def)
  have b': "py_get ex_unbound_fact ''rocket'' = Inr JNull"
    "load_launches ex_conversions ex_two_db [ex_unbound_fact] (id_map ex_two_rockets)
         (id_map ex_no_launchpads)
       = Inl ProgrammingError"
    by (simp_all add: eval_defs dict_get_def id_map_def ex_unbound_fact_def ex_two_db_def
          ex_empty_db_def ex_two_rockets_def ex_no_launchpads_def)
  have c: "extract_unique_ids [ex_num_fact] = Inr ([AInt 5], [])"
    by (simp add: extract_unique_ids_def set_add_def ex_num_fact_def)
  have d: "load_dimension_tables ex_conversions ex_empty_db ex_num_map [] =
       Inr (ex_empty_db\<lparr>rockets := Some ex_num_rockets\<rparr>, id_map ex_num_rockets, id_map ex_no_launchpads)"
    by (simp add: dim_eval_defs eval_defs dec_int_5 ex_empty_db_def ex_num_map_def ex_num_rockets_def
          ex_no_launchpads_def MAX_ROWID_def)
  have e: "load_launches ex_conversions (ex_empty_db\<lparr>rockets := Some ex_num_rockets\<rparr>) [ex_num_fact]
         (id_map ex_num_rockets) (id_map ex_no_launchpads)
       = Inr (ex_empty_db\<lparr>rockets := Some ex_num_rockets, launches := Some (ex_one_launch None)\<rparr>)"
    by (simp add: eval_defs id_map_def ex_empty_db_def ex_num_fact_def ex_num_rockets_def
          ex_no_launchpads_def ex_one_launch_def)
  have f: "load_dimension_tables ex_conversions ex_empty_db ex_nan_map [] =
       Inr (ex_empty_db\<lparr>rockets := Some ex_nan_rockets\<rparr>, id_map ex_nan_rockets, id_map ex_no_launchpads)"
    by (simp add: dim_eval_defs eval_defs ex_empty_db_def ex_nan_map_def ex_nan_rockets_def
          ex_no_launchpads_def)
  have g: "load_dimension_tables ex_conversions (ex_empty_db\<lparr>rockets := Some ex_nan_rockets\<rparr>) [] [] =
       Inr (ex_empty_db\<lparr>rockets := Some ex_nan_rockets\<rparr>, id_map ex_nan_rockets, id_map ex_no_launchpads)"
    by (simp add: dim_eval_defs ex_empty_db_def ex_no_launchpads_def)
  have h: "py_get ex_bare_fact ''rocket'' = Inr JNull"
    "load_launches ex_conversions (ex_empty_db\<lparr>rockets := Some ex_nan_rockets\<rparr>) [ex_bare_fact]
         (id_map ex_nan_rockets) (id_map ex_no_launchpads)
       = Inr (ex_empty_db\<lparr>rockets := Some ex_nan_rockets, launches := Some (ex_one_launch (Some 1))\<rparr>)"
    by (simp_all add: eval_defs id_map_def ex_empty_db_def ex_bare_fact_def ex_nan_rockets_def
          ex_no_launchpads_def ex_one_launch_def)
  from ex_two_load ex_dup_load a b b' c d e f g h show ?thesis by simp
qed

section \<open>The fetcher and the driver\<close>

lemmas run_eval_defs = run_etl_def extract_all_launches_def get_json_def extract_unique_ids_def
  fetch_rockets_def fetch_launchpads_def load_all_def create_schema_def create_table_def

lemma get_json_transport:
  "get_json en endpoint = Inl (SystemExit (url_of endpoint))
     \<longleftrightarrow> transport_failure (http en (url_of endpoint))"
  by (auto simp: transport_failure_def get_json_def Let_def split: http_result.splits body.splits)

lemma extract_all_launches_transport:
  "extract_all_launches en = Inl (SystemExit (url_of ''launches''))
     \<longleftrightarrow> transport_failure (http en (url_of ''launches''))"
  unfolding get_json_transport [of en "''launches''", symmetric]
  by (auto simp: extract_all_launches_def split: sum.splits json.splits)

lemma extract_all_launches_format:
  "extract_all_launches en = Inl ValueError \<longleftrightarrow> format_failure (http en (url_of ''launches''))"
  by (auto simp: extract_all_launches_def get_json_def format_failure_def Let_def
      split: sum.splits json.splits http_result.splits body.splits if_splits)

lemma extract_all_launches_returns:
  "(\<exists>xs. extract_all_launches en = Inr xs)
     \<longleftrightarrow> \<not> transport_failure (http en (url_of ''launches''))
         \<and> \<not> format_failure (http en (url_of ''launches''))"
  by (auto simp: extract_all_launches_def get_json_def format_failure_def transport_failure_def
      Let_def split: sum.splits json.splits http_result.splits body.splits if_splits)

lemma fetch_each_fails:
  "i \<in> set ids \<Longrightarrow> get_json en (resource @ ''/'' @ py_str cv i) = Inl e \<Longrightarrow>
     \<exists>e'. fetch_each cv en resource ids acc = Inl e'"
proof (induction ids arbitrary: acc)
  case Nil
  then show ?case by simp
next
  case (Cons j ids)
  show ?case
  proof (cases "get_json en (resource @ ''/'' @ py_str cv j)")
    case (Inl a)
    then show ?thesis by simp
  next
    case (Inr v)
    with Cons.prems have "i \<in> set ids" by auto
    from Cons.IH [OF this Cons.prems(2)] Inr show ?thesis by simp
  qed
qed

lemma run_etl_extract_fails:
  "extract_all_launches en = Inl e \<Longrightarrow> run_etl cv en w = (Inl e, w)"
  by (simp add: run_etl_def)

lemma run_etl_fetch_fails:
  assumes "extract_all_launches en = Inr facts" "extract_unique_ids facts = Inr (rids, pids)"
    and "(\<exists>e. fetch_rockets cv en rids = Inl e) \<or> (\<exists>e. fetch_launchpads cv en pids = Inl e)"
  shows "\<exists>e'. run_etl cv en w = (Inl e', w)"
  using assms by (auto simp: run_etl_def split: sum.splits)

text \<open>
  C7, as amended. A request fails with SystemExit (the spec's TransportError) exactly
  when there is no connection, on a timeout, on a status from 400 to 599, and on a body
  that is not JSON. The fetch of the collection fails with ValueError (the spec's
  FormatError) exactly when the status is any other one and the body decodes to
  something other than a list or holds an integer of too many digits; it returns
  exactly when neither is the case. A failed fetch of the collection, or of any one
  rocket or launchpad, ends the run with an error and leaves the world as it was:
  nothing is stored and no connection is opened.
\<close>

theorem fetch_failure_fatal:
  "(get_json en endpoint = Inl (SystemExit (url_of endpoint))
      \<longleftrightarrow> transport_failure (http en (url_of endpoint)))
   \<and> (extract_all_launches en = Inl (SystemExit (url_of ''launches''))
      \<longleftrightarrow> transport_failure (http en (url_of ''launches'')))
   \<and> (extract_all_launches en = Inl ValueError
      \<longleftrightarrow> format_failure (http en (url_of ''launches'')))
   \<and> ((\<exists>xs. extract_all_launches en = Inr xs)
      \<longleftrightarrow> \<not> transport_failure (http en (url_of ''launches''))
          \<and> \<not> format_failure (http en (url_of ''launches'')))
   \<and> (extract_all_launches en = Inl e \<longrightarrow> run_etl cv en w = (Inl e, w))
   \<and> (extract_all_launches en = Inr facts \<and> extract_unique_ids facts = Inr (rids, pids)
        \<and> i \<in> set (set_order en rids)
        \<and> get_json en (''rockets'' @ ''/'' @ py_str cv i) = Inl e \<longrightarrow>
      (\<exists>e'. run_etl cv en w = (Inl e', w)))
   \<and> (extract_all_launches en = Inr facts \<and> extract_unique_ids facts = Inr (rids, pids)
        \<and> i \<in> set (set_order en pids)
        \<and> get_json en (''launchpads'' @ ''/'' @ py_str cv i) = Inl e \<longrightarrow>
      (\<exists>e'. run_etl cv en w = (Inl e', w)))"
proof (intro conjI impI)
  show "get_json en endpoint = Inl (SystemExit (url_of endpoint))
      \<longleftrightarrow> transport_failure (http en (url_of endpoint))"
    by (rule get_json_transport)
next
  show "extract_all_launches en = Inl (SystemExit (url_of ''launches''))
      \<longleftrightarrow> transport_failure (http en (url_of ''launches''))"
    by (rule extract_all_launches_transport)
next
  show "extract_all_launches en = Inl ValueError
      \<longleftrightarrow> format_failure (http en (url_of ''launches''))"
    by (rule extract_all_launches_format)
next
  show "(\<exists>xs. extract_all_launches en = Inr xs)
      \<longleftrightarrow> \<not> transport_failure (http en (url_of ''launches''))
          \<and> \<not> format_failure (http en (url_of ''launches''))"
    by (rule extract_all_launches_returns)
next
  assume "extract_all_launches en = Inl e"
  then show "run_etl cv en w = (Inl e, w)" by (rule run_etl_extract_fails)
next
  assume a: "extract_all_launches en = Inr facts \<and> extract_unique_ids facts = Inr (rids, pids)
        \<and> i \<in> set (set_order en rids)
        \<and> get_json en (''rockets'' @ ''/'' @ py_str cv i) = Inl e"
  with fetch_each_fails [of i "set_order en rids" en "''rockets''" cv e "[]"]
  have "\<exists>e. fetch_rockets cv en rids = Inl e" unfolding fetch_rockets_def by blast
  with a run_etl_fetch_fails [of en facts rids pids cv w]
  show "\<exists>e'. run_etl cv en w = (Inl e', w)" by blast
next
  assume a: "extract_all_launches en = Inr facts \<and> extract_unique_ids facts = Inr (rids, pids)
        \<and> i \<in> set (set_order en pids)
        \<and> get_json en (''launchpads'' @ ''/'' @ py_str cv i) = Inl e"
  with fetch_each_fails [of i "set_order en pids" en "''launchpads''" cv e "[]"]
  have "\<exists>e. fetch_launchpads cv en pids = Inl e" unfolding fetch_launchpads_def by blast
  with a run_etl_fetch_fails [of en facts rids pids cv w]
  show "\<exists>e'. run_etl cv en w = (Inl e', w)" by blast
qed

lemma ex_down_run:
  "run_etl ex_conversions ex_env_down ex_world0 = (Inl (SystemExit (url_of ''launches'')), ex_world0)"
  by (simp add: run_eval_defs ex_env_down_def)

lemma ex_object_run:
  "extract_all_launches ex_env_object = Inl ValueError
   \<and> run_etl ex_conversions ex_env_object ex_world0 = (Inl ValueError, ex_world0)"
  by (simp add: run_eval_defs ex_env_object_def)

lemma ex_no_rockets_extract:
  "extract_all_launches ex_env_no_rockets = Inr ex_facts"
  by (simp add: extract_all_launches_def get_json_def ex_env_no_rockets_def)

lemma url_of_not_launches:
  "url_of (''rockets'' @ ''/'' @ s) \<noteq> url_of ''launches''"
  by (simp add: url_of_def)

theorem fetch_failure_example:
  "transport_failure (http ex_env_down (url_of ''launches''))
   \<and> run_etl ex_conversions ex_env_down ex_world0 = (Inl (SystemExit (url_of ''launches'')), ex_world0)
   \<and> format_failure (http ex_env_object (url_of ''launches''))
   \<and> extract_all_launches ex_env_object = Inl ValueError
   \<and> run_etl ex_conversions ex_env_object ex_world0 = (Inl ValueError, ex_world0)
   \<and> extract_all_launches ex_env_no_rockets = Inr ex_facts
   \<and> get_json ex_env_no_rockets (''rockets'' @ ''/'' @ ''r1'')
       = Inl (SystemExit (url_of (''rockets'' @ ''/'' @ ''r1'')))
   \<and> (\<exists>e'. run_etl ex_conversions ex_env_no_rockets ex_world0 = (Inl e', ex_world0))
   \<and> extract_all_launches ex_env_no_launchpads = Inr ex_facts
   \<and> get_json ex_env_no_launchpads (''rockets'' @ ''/'' @ ''r1'') = Inr (JObj [])
   \<and> get_json ex_env_no_launchpads (''launchpads'' @ ''/'' @ ''p1'')
       = Inl (SystemExit (url_of (''launchpads'' @ ''/'' @ ''p1'')))
   \<and> (\<exists>e'. run_etl ex_conversions ex_env_no_launchpads ex_world0 = (Inl e', ex_world0))"
proof -
  have a: "transport_failure (http ex_env_down (url_of ''launches''))"
    by (simp add: transport_failure_def ex_env_down_def)
  from fetch_failure_fatal [where en = ex_env_down and cv = ex_conversions and w = ex_world0
      and e = "SystemExit (url_of ''launches'')"] a
  have b: "run_etl ex_conversions ex_env_down ex_world0 = (Inl (SystemExit (url_of ''launches'')), ex_world0)"
    by blast
  have c: "format_failure (http ex_env_object (url_of ''launches''))"
    by (simp add: format_failure_def ex_env_object_def)
  from fetch_failure_fatal [where en = ex_env_object and cv = ex_conversions and w = ex_world0
      and e = ValueError] c
  have d: "extract_all_launches ex_env_object = Inl ValueError"
    "run_etl ex_conversions ex_env_object ex_world0 = (Inl ValueError, ex_world0)"
    by blast+
  have f: "transport_failure (http ex_env_no_rockets (url_of (''rockets'' @ ''/'' @ ''r1'')))"
    using url_of_not_launches [of "''r1''"]
    by (simp add: transport_failure_def ex_env_no_rockets_def)
  from fetch_failure_fatal [where en = ex_env_no_rockets and endpoint = "''rockets'' @ ''/'' @ ''r1''"] f
  have g: "get_json ex_env_no_rockets (''rockets'' @ ''/'' @ ''r1'')
       = Inl (SystemExit (url_of (''rockets'' @ ''/'' @ ''r1'')))"
    by blast
  have m: "AStr ''r1'' \<in> set (set_order ex_env_no_rockets [AStr ''r1''])"
    by (simp add: ex_env_no_rockets_def)
  have g': "get_json ex_env_no_rockets (''rockets'' @ ''/'' @ py_str ex_conversions (AStr ''r1''))
       = Inl (SystemExit (url_of (''rockets'' @ ''/'' @ ''r1'')))"
    using g by simp
  from fetch_failure_fatal [where en = ex_env_no_rockets and cv = ex_conversions and w = ex_world0
      and facts = ex_facts and rids = "[AStr ''r1'']" and pids = "[AStr ''p1'']" and i = "AStr ''r1''"
      and e = "SystemExit (url_of (''rockets'' @ ''/'' @ ''r1''))"]
    ex_no_rockets_extract ex_facts_ids m g'
  have h: "\<exists>e'. run_etl ex_conversions ex_env_no_rockets ex_world0 = (Inl e', ex_world0)"
    by blast
  have x: "extract_all_launches ex_env_no_launchpads = Inr ex_facts"
    by (simp add: extract_all_launches_def get_json_def ex_env_no_launchpads_def)
  have r: "get_json ex_env_no_launchpads (''rockets'' @ ''/'' @ ''r1'') = Inr (JObj [])"
    by (simp add: get_json_def ex_env_no_launchpads_def url_of_def)
  have n: "AStr ''p1'' \<in> set (set_order ex_env_no_launchpads [AStr ''p1''])"
    by (simp add: ex_env_no_launchpads_def)
  have p: "get_json ex_env_no_launchpads (''launchpads'' @ ''/'' @ py_str ex_conversions (AStr ''p1''))
       = Inl (SystemExit (url_of (''launchpads'' @ ''/'' @ ''p1'')))"
    by (simp add: get_json_def ex_env_no_launchpads_def url_of_def)
  from fetch_failure_fatal [where en = ex_env_no_launchpads and cv = ex_conversions and w = ex_world0
      and facts = ex_facts and rids = "[AStr ''r1'']" and pids = "[AStr ''p1'']" and i = "AStr ''p1''"
      and e = "SystemExit (url_of (''launchpads'' @ ''/'' @ ''p1''))"]
    x ex_facts_ids n p
  have q: "\<exists>e'. run_etl ex_conversions ex_env_no_launchpads ex_world0 = (Inl e', ex_world0)"
    by blast
  from p have p': "get_json ex_env_no_launchpads (''launchpads'' @ ''/'' @ ''p1'')
       = Inl (SystemExit (url_of (''launchpads'' @ ''/'' @ ''p1'')))"
    by simp
  from a b c d ex_no_rockets_extract g h x r p' q show ?thesis by blast
qed

text \<open>
  C7, the counterexamples. A status need not be a success for the fetch to return: on
  status 300 with a list for body the collection is fetched and the run loads it. And a
  payload that is no sequence need not give ValueError: on status 200 with a body that
  is not JSON the fetch raises SystemExit.
\<close>

theorem unsuccessful_status_fetched:
  "http ex_env_choices (url_of ''launches'') = Response 300 (Decoded (JList [ex_anonymous_fact]))
   \<and> extract_all_launches ex_env_choices = Inr [ex_anonymous_fact]
   \<and> run_etl ex_conversions ex_env_choices ex_world0 = (Inr (), ex_world1)
   \<and> http ex_env_page (url_of ''launches'') = Response 200 NotJson
   \<and> extract_all_launches ex_env_page = Inl (SystemExit (url_of ''launches''))
   \<and> extract_all_launches ex_env_page \<noteq> Inl ValueError"
proof -
  have a: "http ex_env_choices (url_of ''launches'') = Response 300 (Decoded (JList [ex_anonymous_fact]))"
    by (simp add: ex_env_choices_def)
  have b: "extract_all_launches ex_env_choices = Inr [ex_anonymous_fact]"
    by (simp add: extract_all_launches_def get_json_def ex_env_choices_def)
  have c: "run_etl ex_conversions ex_env_choices ex_world0 = (Inr (), ex_world1)"
    by (simp add: run_eval_defs dim_eval_defs eval_defs id_map_def ex_env_choices_def ex_world0_def
        ex_world1_def ex_anonymous_fact_def ex_anonymous_db1_def ex_empty_db_def)
  have d: "http ex_env_page (url_of ''launches'') = Response 200 NotJson"
    by (simp add: ex_env_page_def)
  have e: "extract_all_launches ex_env_page = Inl (SystemExit (url_of ''launches''))"
    by (simp add: extract_all_launches_def get_json_def ex_env_page_def)
  from a b c d e show ?thesis by simp
qed

lemma connectsD:
  assumes "connects cv en"
  obtains facts rids pids rockets_map launchpads_map where
    "extract_all_launches en = Inr facts" "extract_unique_ids facts = Inr (rids, pids)"
    "fetch_rockets cv en rids = Inr rockets_map" "fetch_launchpads cv en pids = Inr launchpads_map"
    "\<not> snapshot_fault en ''launches''" "\<not> snapshot_fault en ''rockets''"
    "\<not> snapshot_fault en ''launchpads''" "\<not> storage_fault en Connect"
proof (cases "extract_all_launches en")
  case (Inl e)
  with assms show ?thesis by (simp add: connects_def)
next
  case a: (Inr facts)
  show ?thesis
  proof (cases "extract_unique_ids facts")
    case (Inl e)
    with assms a show ?thesis by (simp add: connects_def)
  next
    case b0: (Inr ids)
    obtain rids pids where ids: "ids = (rids, pids)" by (cases ids)
    note b = b0 [unfolded ids]
    show ?thesis
    proof (cases "fetch_rockets cv en rids")
      case (Inl e)
      with assms a b show ?thesis by (simp add: connects_def)
    next
      case c: (Inr rockets_map)
      show ?thesis
      proof (cases "fetch_launchpads cv en pids")
        case (Inl e)
        with assms a b c show ?thesis by (simp add: connects_def)
      next
        case e: (Inr launchpads_map)
        with assms a b c have "\<not> snapshot_fault en ''launches''" "\<not> snapshot_fault en ''rockets''"
          "\<not> snapshot_fault en ''launchpads''" "\<not> storage_fault en Connect"
          by (simp_all add: connects_def)
        with a b c e that show ?thesis by blast
      qed
    qed
  qed
qed

lemma run_etl_connected:
  assumes "extract_all_launches en = Inr facts" "extract_unique_ids facts = Inr (rids, pids)"
    "fetch_rockets cv en rids = Inr rockets_map" "fetch_launchpads cv en pids = Inr launchpads_map"
    "\<not> snapshot_fault en ''launches''" "\<not> snapshot_fault en ''rockets''"
    "\<not> snapshot_fault en ''launchpads''" "\<not> storage_fault en Connect"
  shows "run_etl cv en w =
     (fst (load_all cv en (store w) facts rockets_map launchpads_map),
      w\<lparr>store := snd (load_all cv en (store w) facts rockets_map launchpads_map),
        conn_log := conn_log w @ [Opened, Closed]\<rparr>)"
  using assms by (simp add: run_etl_def Let_def split: prod.splits)

lemma run_etl_connects:
  assumes "connects cv en"
  shows "\<exists>res d. run_etl cv en w = (res, w\<lparr>store := d, conn_log := conn_log w @ [Opened, Closed]\<rparr>)"
proof -
  from assms obtain facts rids pids rockets_map launchpads_map where
    "run_etl cv en w =
     (fst (load_all cv en (store w) facts rockets_map launchpads_map),
      w\<lparr>store := snd (load_all cv en (store w) facts rockets_map launchpads_map),
        conn_log := conn_log w @ [Opened, Closed]\<rparr>)"
    by (rule connectsD) (rule that, rule run_etl_connected)
  then show ?thesis by blast
qed

lemma run_etl_not_connects:
  assumes "\<not> connects cv en"
  shows "\<exists>e. run_etl cv en w = (Inl e, w)"
proof (cases "extract_all_launches en")
  case (Inl e)
  then show ?thesis by (simp add: run_etl_def)
next
  case a: (Inr facts)
  show ?thesis
  proof (cases "extract_unique_ids facts")
    case (Inl e)
    with a show ?thesis by (simp add: run_etl_def)
  next
    case b0: (Inr ids)
    obtain rids pids where ids: "ids = (rids, pids)" by (cases ids)
    note b = b0 [unfolded ids]
    show ?thesis
    proof (cases "fetch_rockets cv en rids")
      case (Inl e)
      with a b show ?thesis by (simp add: run_etl_def)
    next
      case c: (Inr rockets_map)
      show ?thesis
      proof (cases "fetch_launchpads cv en pids")
        case (Inl e)
        with a b c show ?thesis by (simp add: run_etl_def)
      next
        case e: (Inr launchpads_map)
        with assms a b c have "snapshot_fault en ''launches'' \<or> snapshot_fault en ''rockets''
          \<or> snapshot_fault en ''launchpads'' \<or> storage_fault en Connect"
          by (simp add: connects_def)
        with a b c e show ?thesis by (auto simp: run_etl_def)
      qed
    qed
  qed
qed

text \<open>
  C8, as amended. A run opens the storage connection at most once: exactly once when it
  gets as far as \<^verbatim>\<open>get_connection\<close> and that call returns, and then the connection is
  closed before the run ends, whatever the schema creation and the two loaders did,
  normally or by a fault; not at all otherwise, and then the run ends with an error and
  the world unchanged. So no run ends with a connection open.
\<close>

theorem connection_scoped:
  "conn_log (snd (run_etl cv en w)) = conn_log w @ (if connects cv en then [Opened, Closed] else [])
   \<and> (\<not> connects cv en \<longrightarrow> (\<exists>e. run_etl cv en w = (Inl e, w)))"
proof (cases "connects cv en")
  case True
  from run_etl_connects [OF this, of w] show ?thesis using True by auto
next
  case False
  from run_etl_not_connects [OF this, of w] show ?thesis using False by auto
qed

lemma ex_anonymous_run1:
  "run_etl ex_conversions ex_env_anonymous ex_world0 = (Inr (), ex_world1)"
  by (simp add: run_eval_defs dim_eval_defs eval_defs id_map_def ex_env_anonymous_def ex_world0_def ex_world1_def
        ex_anonymous_fact_def ex_anonymous_db1_def ex_empty_db_def)

lemma ex_anonymous_run2:
  "run_etl ex_conversions ex_env_anonymous ex_world1 = (Inr (), ex_world2)"
  by (simp add: run_eval_defs dim_eval_defs eval_defs id_map_def ex_env_anonymous_def ex_world1_def ex_world2_def
        ex_anonymous_fact_def ex_anonymous_db1_def ex_anonymous_db2_def ex_empty_db_def)

lemma ex_fault_run:
  "run_etl ex_conversions ex_env_fault ex_world1
     = (Inl OperationalError, ex_world1\<lparr>conn_log := [Opened, Closed, Opened, Closed]\<rparr>)"
  by (simp add: run_eval_defs dim_eval_defs eval_defs id_map_def ex_env_fault_def ex_env_anonymous_def ex_world1_def
        ex_anonymous_fact_def ex_anonymous_db1_def ex_empty_db_def)

theorem connection_scoped_example:
  "connects ex_conversions ex_env_fault
   \<and> run_etl ex_conversions ex_env_fault ex_world1
       = (Inl OperationalError, ex_world1\<lparr>conn_log := [Opened, Closed, Opened, Closed]\<rparr>)
   \<and> conn_log (snd (run_etl ex_conversions ex_env_fault ex_world1)) = conn_log ex_world1 @ [Opened, Closed]
   \<and> \<not> connects ex_conversions ex_env_down
   \<and> (\<exists>e. run_etl ex_conversions ex_env_down ex_world0 = (Inl e, ex_world0))"
proof -
  have c: "connects ex_conversions ex_env_fault"
    by (simp add: connects_def run_eval_defs ex_env_fault_def ex_env_anonymous_def ex_anonymous_fact_def)
  have n: "\<not> connects ex_conversions ex_env_down"
    by (simp add: connects_def run_eval_defs ex_env_down_def)
  from connection_scoped [of ex_conversions ex_env_fault ex_world1] c
  have a: "conn_log (snd (run_etl ex_conversions ex_env_fault ex_world1)) = conn_log ex_world1 @ [Opened, Closed]"
    by simp
  from connection_scoped [of ex_conversions ex_env_down ex_world0] n
  have b: "\<exists>e. run_etl ex_conversions ex_env_down ex_world0 = (Inl e, ex_world0)"
    by simp
  from c n a b ex_fault_run show ?thesis by blast
qed

text \<open>
  C8, as stated, fails on "opened exactly once per run": a run whose first fetch fails
  opens no connection.
\<close>

theorem failed_fetch_opens_no_connection:
  "run_etl ex_conversions ex_env_down ex_world0 = (Inl (SystemExit (url_of ''launches'')), ex_world0)
   \<and> conn_log ex_world0 = []
   \<and> conn_log (snd (run_etl ex_conversions ex_env_down ex_world0)) = []"
  using ex_down_run by (simp add: ex_world0_def)

section \<open>Running the pipeline again\<close>

lemma py_eq_sym: "py_eq a b = py_eq b a"
  by (auto simp: py_eq_def split: option.splits)

lemma hashable_json_of_atom: "hashable v = Inr a \<Longrightarrow> json_of_atom a = v"
  by (cases v) auto

lemma set_add_inv:
  assumes "set_add s v = Inr s'" "truthy v" "v \<noteq> JFloat NaN" "py_distinct s" "storable_atoms s"
  shows "py_distinct s' \<and> storable_atoms s'"
proof -
  from assms(1) obtain a where a: "hashable v = Inr a"
    and s': "s' = (if \<exists>b \<in> set s. py_eq b a then s else s @ [a])"
    by (auto simp: set_add_def split: sum.splits)
  show ?thesis
  proof (cases "\<exists>b \<in> set s. py_eq b a")
    case True
    with s' assms(4,5) show ?thesis by simp
  next
    case False
    then have n: "\<forall>b \<in> set s. \<not> py_eq b a \<and> \<not> py_eq a b" using py_eq_sym by blast
    from False s' have e: "s' = s @ [a]" by simp
    have "py_distinct s'" unfolding e py_distinct_def using assms(4) n
      by (auto simp: py_distinct_def)
    moreover have "\<not> stored_null v" using assms(2,3) by (auto simp: stored_null_def)
    then have "storable_atoms s'" unfolding e storable_atoms_def
      using assms(5) hashable_json_of_atom [OF a] by (auto simp: storable_atoms_def)
    ultimately show ?thesis by blast
  qed
qed

lemma extract_loop_inv:
  "extract_loop facts rs0 ps0 = Inr (rs, ps) \<Longrightarrow> refs_storable facts \<Longrightarrow>
   py_distinct rs0 \<Longrightarrow> storable_atoms rs0 \<Longrightarrow> py_distinct ps0 \<Longrightarrow> storable_atoms ps0 \<Longrightarrow>
   py_distinct rs \<and> storable_atoms rs \<and> py_distinct ps \<and> storable_atoms ps"
proof (induction facts arbitrary: rs0 ps0)
  case Nil
  then show ?case by simp
next
  case (Cons l ls)
  from Cons.prems(1) obtain rid pid rs1 ps1 where
    g: "py_get l ''rocket'' = Inr rid" "py_get l ''launchpad'' = Inr pid" and
    r1: "(if truthy rid then set_add rs0 rid else Inr rs0) = Inr rs1" and
    p1: "(if truthy pid then set_add ps0 pid else Inr ps0) = Inr ps1" and
    rest: "extract_loop ls rs1 ps1 = Inr (rs, ps)"
    by (auto split: sum.splits)
  from Cons.prems(2) g have nn: "rid \<noteq> JFloat NaN" "pid \<noteq> JFloat NaN" and rs: "refs_storable ls"
    by (auto simp: refs_storable_def)
  have a: "py_distinct rs1 \<and> storable_atoms rs1"
  proof (cases "truthy rid")
    case True
    with r1 have "set_add rs0 rid = Inr rs1" by simp
    from set_add_inv [OF this True nn(1) Cons.prems(3,4)] show ?thesis .
  next
    case False
    with r1 Cons.prems(3,4) show ?thesis by simp
  qed
  have b: "py_distinct ps1 \<and> storable_atoms ps1"
  proof (cases "truthy pid")
    case True
    with p1 have "set_add ps0 pid = Inr ps1" by simp
    from set_add_inv [OF this True nn(2) Cons.prems(5,6)] show ?thesis .
  next
    case False
    with p1 Cons.prems(5,6) show ?thesis by simp
  qed
  from Cons.IH [OF rest rs] a b show ?case by blast
qed

lemma extract_unique_ids_inv:
  "extract_unique_ids facts = Inr (rs, ps) \<Longrightarrow> refs_storable facts \<Longrightarrow>
     py_distinct rs \<and> storable_atoms rs \<and> py_distinct ps \<and> storable_atoms ps"
  unfolding extract_unique_ids_def
  by (erule extract_loop_inv) (simp_all add: py_distinct_def storable_atoms_def)

lemma dict_set_keys_sub: "fst ` set (dict_set acc k v) \<subseteq> insert k (fst ` set acc)"
proof (induction acc)
  case Nil
  show ?case by simp
next
  case (Cons x acc)
  obtain k0 v0 where x: "x = (k0, v0)" by (cases x)
  show ?case
  proof (cases "py_eq k0 k")
    case True
    then show ?thesis by (auto simp: x)
  next
    case False
    with Cons.IH show ?thesis by (auto simp: x)
  qed
qed

lemma dict_set_keys_keep: "fst ` set acc \<subseteq> fst ` set (dict_set acc k v)"
proof (induction acc)
  case Nil
  show ?case by simp
next
  case (Cons x acc)
  obtain k0 v0 where x: "x = (k0, v0)" by (cases x)
  show ?case
  proof (cases "py_eq k0 k")
    case True
    then show ?thesis by (simp add: x)
  next
    case False
    with Cons.IH show ?thesis by (auto simp: x)
  qed
qed

lemma dict_set_keys_new:
  "(\<forall>k' \<in> fst ` set acc. py_eq k' k \<longrightarrow> k' = k) \<Longrightarrow> k \<in> fst ` set (dict_set acc k v)"
proof (induction acc)
  case Nil
  show ?case by simp
next
  case (Cons x acc)
  obtain k0 v0 where x: "x = (k0, v0)" by (cases x)
  show ?case
  proof (cases "py_eq k0 k")
    case True
    with Cons.prems have "k0 = k" by (simp add: x)
    with True show ?thesis by (simp add: x)
  next
    case False
    from Cons.prems have "\<forall>k' \<in> fst ` set acc. py_eq k' k \<longrightarrow> k' = k" by simp
    from Cons.IH [OF this] False show ?thesis by (simp add: x)
  qed
qed

lemma fetch_each_keys_sub:
  "fetch_each cv en resource ids acc = Inr m \<Longrightarrow> fst ` set m \<subseteq> fst ` set acc \<union> set ids"
proof (induction ids arbitrary: acc)
  case Nil
  then show ?case by simp
next
  case (Cons i ids)
  from Cons.prems obtain v where
    rest: "fetch_each cv en resource ids (dict_set acc i v) = Inr m"
    by (auto split: sum.splits)
  from Cons.IH [OF rest] have "fst ` set m \<subseteq> fst ` set (dict_set acc i v) \<union> set ids" .
  moreover have "fst ` set (dict_set acc i v) \<subseteq> insert i (fst ` set acc)"
    by (rule dict_set_keys_sub)
  ultimately show ?case by auto
qed

lemma fetch_each_keys_sup:
  "fetch_each cv en resource ids acc = Inr m \<Longrightarrow>
   (\<forall>a \<in> fst ` set acc \<union> set ids. \<forall>b \<in> fst ` set acc \<union> set ids. py_eq a b \<longrightarrow> a = b) \<Longrightarrow>
   fst ` set acc \<union> set ids \<subseteq> fst ` set m"
proof (induction ids arbitrary: acc)
  case Nil
  then show ?case by simp
next
  case (Cons i ids)
  from Cons.prems(1) obtain v where
    rest: "fetch_each cv en resource ids (dict_set acc i v) = Inr m"
    by (auto split: sum.splits)
  have "\<forall>k' \<in> fst ` set acc. py_eq k' i \<longrightarrow> k' = i" using Cons.prems(2) by simp
  from dict_set_keys_new [OF this, of v] dict_set_keys_sub [of acc i v] dict_set_keys_keep [of acc i v]
  have k: "fst ` set (dict_set acc i v) = insert i (fst ` set acc)" by blast
  have "\<forall>a \<in> fst ` set (dict_set acc i v) \<union> set ids.
          \<forall>b \<in> fst ` set (dict_set acc i v) \<union> set ids. py_eq a b \<longrightarrow> a = b"
    unfolding k using Cons.prems(2) by simp
  from Cons.IH [OF rest this] show ?case unfolding k by simp
qed

lemma get_json_cong: "http en2 = http en1 \<Longrightarrow> get_json en2 endpoint = get_json en1 endpoint"
  unfolding get_json_def by simp

lemma extract_all_launches_cong:
  "http en2 = http en1 \<Longrightarrow> extract_all_launches en2 = extract_all_launches en1"
  unfolding extract_all_launches_def by (simp only: get_json_cong [of en2 en1])

lemma create_schema_existing:
  "rockets d = Some rt \<Longrightarrow> launchpads d = Some pt \<Longrightarrow> launches d = Some lt \<Longrightarrow>
     snd (create_schema en d) = d"
  by (simp add: create_schema_def create_table_def Let_def)

lemma create_table_Some: "\<exists>t'. create_table t = Some t'"
  by (cases t) (simp_all add: create_table_def)

lemma create_schema_Inr:
  assumes "create_schema en d = (Inr u, d1)"
  shows "\<exists>rt pt lt. rockets d1 = Some rt \<and> launchpads d1 = Some pt \<and> launches d1 = Some lt"
proof -
  from assms have
    "d1 = d\<lparr>rockets := create_table (rockets d), launchpads := create_table (launchpads d),
           launches := create_table (launches d)\<rparr>"
    by (auto simp: create_schema_def Let_def split: if_splits)
  with create_table_Some [of "rockets d"] create_table_Some [of "launchpads d"]
    create_table_Some [of "launches d"]
  show ?thesis by auto
qed

lemma load_all_Inr:
  assumes "load_all cv en d facts rm pm = (Inr u, d3)"
  shows "\<exists>d1 d2 rmap pmap. create_schema en d = (Inr (), d1)
     \<and> load_dimension_tables cv d1 rm pm = Inr (d2, rmap, pmap)
     \<and> load_launches cv d2 facts rmap pmap = Inr d3"
proof -
  obtain r d1 where cs: "create_schema en d = (r, d1)" by (cases "create_schema en d")
  with assms obtain u' where r: "r = Inr u'"
    by (cases r) (auto simp: load_all_def)
  note cs' = cs [unfolded r]
  from assms cs' have nf: "\<not> storage_fault en LoadDimensions"
    by (auto simp: load_all_def split: if_splits)
  from assms cs' nf obtain d2 rmap pmap where
    ld: "load_dimension_tables cv d1 rm pm = Inr (d2, rmap, pmap)"
    by (cases "load_dimension_tables cv d1 rm pm") (auto simp: load_all_def)
  from assms cs' nf ld have nf2: "\<not> storage_fault en ReadBack" "\<not> storage_fault en LoadLaunches"
    by (auto simp: load_all_def split: if_splits)
  from assms cs' nf ld nf2 have "load_launches cv d2 facts rmap pmap = Inr d3"
    by (cases "load_launches cv d2 facts rmap pmap") (auto simp: load_all_def)
  with cs' ld show ?thesis by auto
qed

lemma load_all_saturates:
  assumes "load_all cv en d facts rm pm = (Inr u, d3)"
  shows "\<exists>rt pt lt. rockets d3 = Some rt \<and> launchpads d3 = Some pt \<and> launches d3 = Some lt
     \<and> (\<forall>x \<in> set rm. \<exists>k p. key_of rocket_params (rocket_cells cv) x k p
            \<and> (k \<noteq> None \<longrightarrow> k \<in> natural_keys rt))
     \<and> (\<forall>x \<in> set pm. \<exists>k p. key_of launchpad_params (launchpad_cells cv) x k p
            \<and> (k \<noteq> None \<longrightarrow> k \<in> natural_keys pt))
     \<and> (\<forall>l \<in> set facts. \<exists>k. launch_key cv l = Inr k \<and> (k \<noteq> None \<longrightarrow> k \<in> natural_keys lt))"
proof -
  from load_all_Inr [OF assms] obtain d1 d2 rmap pmap where
    cs: "create_schema en d = (Inr (), d1)" and
    ld: "load_dimension_tables cv d1 rm pm = Inr (d2, rmap, pmap)" and
    ll: "load_launches cv d2 facts rmap pmap = Inr d3"
    by blast
  from create_schema_Inr [OF cs] obtain rt1 pt1 lt1 where
    t1: "rockets d1 = Some rt1" "launchpads d1 = Some pt1" "launches d1 = Some lt1" by blast
  from ld obtain rt pt where
    ri: "insert_each rocket_params (rocket_cells cv) (Some rt1) rm = Inr (Some rt)" and
    pi: "insert_each launchpad_params (launchpad_cells cv) (Some pt1) pm = Inr (Some pt)" and
    d2: "d2 = d1\<lparr>rockets := Some rt, launchpads := Some pt\<rparr>"
    unfolding load_dimension_tables_Inr t1 by blast
  have l2: "launches d2 = Some lt1" by (simp add: d2 t1)
  from ll obtain lt' where
    li: "insert_each (launch_params rmap pmap) (launch_cells cv) (Some lt1) facts = Inr lt'" and
    d3: "d3 = d2\<lparr>launches := lt'\<rparr>"
    unfolding load_launches_Inr l2 by blast
  from insert_each_Some [OF li] obtain lt where lt: "lt' = Some lt" by blast
  have A: "\<forall>x \<in> set rm. \<exists>k p. key_of rocket_params (rocket_cells cv) x k p
            \<and> (k \<noteq> None \<longrightarrow> k \<in> natural_keys rt)"
    using insert_each_keys [OF ri] by blast
  have B: "\<forall>x \<in> set pm. \<exists>k p. key_of launchpad_params (launchpad_cells cv) x k p
            \<and> (k \<noteq> None \<longrightarrow> k \<in> natural_keys pt)"
    using insert_each_keys [OF pi] by blast
  have C: "\<forall>l \<in> set facts. \<exists>k. launch_key cv l = Inr k \<and> (k \<noteq> None \<longrightarrow> k \<in> natural_keys lt)"
  proof
    fix l assume "l \<in> set facts"
    with insert_each_keys [OF li [unfolded lt]] obtain k p where
      kp: "key_of (launch_params rmap pmap) (launch_cells cv) l k p" "k \<noteq> None \<longrightarrow> k \<in> natural_keys lt"
      by blast
    from launch_key_of_key [OF kp(1)] kp(2)
    show "\<exists>k. launch_key cv l = Inr k \<and> (k \<noteq> None \<longrightarrow> k \<in> natural_keys lt)" by blast
  qed
  have "rockets d3 = Some rt" "launchpads d3 = Some pt" "launches d3 = Some lt"
    by (simp_all add: d3 d2 lt)
  with A B C show ?thesis by blast
qed

lemma load_all_saturated:
  assumes t: "rockets d = Some rt" "launchpads d = Some pt" "launches d = Some lt"
    and rk: "\<forall>x \<in> set rm. \<forall>k p. key_of rocket_params (rocket_cells cv) x k p
               \<longrightarrow> k \<noteq> None \<and> k \<in> natural_keys rt"
    and pk: "\<forall>x \<in> set pm. \<forall>k p. key_of launchpad_params (launchpad_cells cv) x k p
               \<longrightarrow> k \<noteq> None \<and> k \<in> natural_keys pt"
    and lk: "\<forall>l \<in> set facts. \<forall>k. launch_key cv l = Inr k \<longrightarrow> k \<noteq> None \<and> k \<in> natural_keys lt"
  shows "contents (snd (load_all cv en d facts rm pm)) = contents d"
proof -
  obtain r where cs: "create_schema en d = (r, d)"
    using create_schema_existing [OF t, of en] by (cases "create_schema en d") auto
  show ?thesis
  proof (cases "load_dimension_tables cv d rm pm")
    case (Inl a)
    obtain e dc where a: "a = (e, dc)" by (cases a)
    from load_dimension_tables_Inl [OF Inl [unfolded a]] t have "dc = d" by simp
    with cs Inl a show ?thesis by (cases r) (simp_all add: load_all_def)
  next
    case (Inr res)
    obtain d2 rmap pmap where res: "res = (d2, rmap, pmap)" by (cases res)
    note ld = Inr [unfolded res]
    from ld obtain rt' pt' where
      ri: "insert_each rocket_params (rocket_cells cv) (Some rt) rm = Inr (Some rt')" and
      pi: "insert_each launchpad_params (launchpad_cells cv) (Some pt) pm = Inr (Some pt')" and
      d2: "d2 = d\<lparr>rockets := Some rt', launchpads := Some pt'\<rparr>"
      unfolding load_dimension_tables_Inr t by blast
    have rr: "rows rt' = rows rt" by (rule insert_each_present [OF ri rk])
    have pr: "rows pt' = rows pt" by (rule insert_each_present [OF pi pk])
    have c2: "contents d2 = contents d" by (simp add: contents_def d2 t rr pr)
    have l2: "launches d2 = Some lt" by (simp add: d2 t)
    show ?thesis
    proof (cases "load_launches cv d2 facts rmap pmap")
      case (Inl e)
      with cs ld c2 show ?thesis by (cases r) (simp_all add: load_all_def)
    next
      case ll: (Inr d3)
      from ll obtain lt' where
        li: "insert_each (launch_params rmap pmap) (launch_cells cv) (Some lt) facts = Inr lt'" and
        d3: "d3 = d2\<lparr>launches := lt'\<rparr>"
        unfolding load_launches_Inr l2 by blast
      from insert_each_Some [OF li] obtain lt'' where lt'': "lt' = Some lt''" by blast
      have "\<forall>l \<in> set facts. \<forall>k p. key_of (launch_params rmap pmap) (launch_cells cv) l k p
               \<longrightarrow> k \<noteq> None \<and> k \<in> natural_keys lt"
        using lk launch_key_of_key by blast
      from insert_each_present [OF li [unfolded lt''] this] have lr: "rows lt'' = rows lt" .
      have c3: "contents d3 = contents d"
        using c2 by (simp add: contents_def d3 d2 t lt'' lr)
      from cs ld ll c2 c3 show ?thesis by (cases r) (simp_all add: load_all_def)
    qed
  qed
qed


lemma permutes_set: "permutes en \<Longrightarrow> set (set_order en s) = set s"
  unfolding permutes_def by (rule mset_eq_setD) simp

lemma refetched_keys_present:
  assumes f1: "fetch_each cv en1 resource (set_order en1 ids) [] = Inr m1"
    and f2: "fetch_each cv en2 resource (set_order en2 ids) [] = Inr m2"
    and p1: "permutes en1" and p2: "permutes en2"
    and pd: "py_distinct ids" and ta: "storable_atoms ids"
    and sat: "\<forall>x \<in> set m1. \<exists>k p. key_of prm cel x k p \<and> (k \<noteq> None \<longrightarrow> k \<in> natural_keys t)"
    and key: "\<And>a v k p. key_of prm cel (a, v) k p \<Longrightarrow> atom_key cv a = Inr k"
  shows "\<forall>x \<in> set m2. \<forall>k p. key_of prm cel x k p \<longrightarrow> k \<noteq> None \<and> k \<in> natural_keys t"
proof (intro ballI allI impI)
  fix x k p assume x: "x \<in> set m2" and kp: "key_of prm cel x k p"
  obtain a v where av: "x = (a, v)" by (cases x)
  from x av have "a \<in> fst ` set m2" by force
  with fetch_each_keys_sub [OF f2] have a: "a \<in> set ids"
    unfolding permutes_set [OF p2] by auto
  from key [OF kp [unfolded av]] have ak: "atom_key cv a = Inr k" .
  from a ta have "\<not> stored_null (json_of_atom a)" unfolding storable_atoms_def by blast
  from atom_key_None [OF ak this] have kn: "k \<noteq> None" .
  have "\<forall>a \<in> fst ` set [] \<union> set (set_order en1 ids).
          \<forall>b \<in> fst ` set [] \<union> set (set_order en1 ids). py_eq a b \<longrightarrow> a = b"
    using pd unfolding permutes_set [OF p1] py_distinct_def by simp
  from fetch_each_keys_sup [OF f1 this] a have "a \<in> fst ` set m1"
    unfolding permutes_set [OF p1] by auto
  then obtain v1 where v1: "(a, v1) \<in> set m1" by auto
  with sat obtain k1 p1 where
    k1: "key_of prm cel (a, v1) k1 p1" "k1 \<noteq> None \<longrightarrow> k1 \<in> natural_keys t" by blast
  from key [OF k1(1)] ak have "k1 = k" by simp
  with k1(2) kn show "k \<noteq> None \<and> k \<in> natural_keys t" by simp
qed

lemma launch_key_present:
  assumes "launch_key cv l = Inr k"
    "py_get l ''id'' \<noteq> Inr JNull \<and> py_get l ''id'' \<noteq> Inr (JFloat NaN)"
  shows "k \<noteq> None"
proof -
  from assms(1) obtain v where v: "py_get l ''id'' = Inr v" "text_cell cv v = Inr k"
    by (auto simp: launch_key_def split: sum.splits)
  with assms(2) have "\<not> stored_null v" by (simp add: stored_null_def)
  with text_cell_None [OF v(2)] show ?thesis by simp
qed

text \<open>
  C2, as amended. After a run that completed, a second run against the same source data
  (whatever the iteration order of the id sets, and whether or not storage faults) leaves
  the rows of all three tables as they were, surrogate keys included, provided every
  launch record carries a natural id that is neither null nor NaN and no reference of a
  launch record is NaN.
\<close>

theorem rerun_idempotent:
  assumes first: "run_etl cv en1 w0 = (Inr u, w1)"
    and same: "http en2 = http en1"
    and p1: "permutes en1" and p2: "permutes en2"
    and facts: "extract_all_launches en1 = Inr facts"
    and ids: "ids_present facts" and refs: "refs_storable facts"
  shows "contents (store (snd (run_etl cv en2 w1))) = contents (store w1)"
proof -
  have c1: "connects cv en1"
  proof (rule ccontr)
    assume "\<not> connects cv en1"
    from run_etl_not_connects [OF this, of w0] first show False by auto
  qed
  from c1 obtain facts' rids pids rm1 pm1 where
    e1: "extract_all_launches en1 = Inr facts'" "extract_unique_ids facts' = Inr (rids, pids)"
        "fetch_rockets cv en1 rids = Inr rm1" "fetch_launchpads cv en1 pids = Inr pm1" and
    run1: "run_etl cv en1 w0 =
     (fst (load_all cv en1 (store w0) facts' rm1 pm1),
      w0\<lparr>store := snd (load_all cv en1 (store w0) facts' rm1 pm1),
        conn_log := conn_log w0 @ [Opened, Closed]\<rparr>)"
    by (rule connectsD) (rule that, assumption+, rule run_etl_connected)
  from e1(1) facts have ff: "facts' = facts" by simp
  note e1 = e1 [unfolded ff] and run1 = run1 [unfolded ff]
  from run1 first have
    la: "load_all cv en1 (store w0) facts rm1 pm1 = (Inr u, store w1)"
    by (cases "load_all cv en1 (store w0) facts rm1 pm1") auto
  from load_all_saturates [OF la] obtain rt pt lt where
    t: "rockets (store w1) = Some rt" "launchpads (store w1) = Some pt" "launches (store w1) = Some lt" and
    A: "\<forall>x \<in> set rm1. \<exists>k p. key_of rocket_params (rocket_cells cv) x k p
            \<and> (k \<noteq> None \<longrightarrow> k \<in> natural_keys rt)" and
    B: "\<forall>x \<in> set pm1. \<exists>k p. key_of launchpad_params (launchpad_cells cv) x k p
            \<and> (k \<noteq> None \<longrightarrow> k \<in> natural_keys pt)" and
    C: "\<forall>l \<in> set facts. \<exists>k. launch_key cv l = Inr k \<and> (k \<noteq> None \<longrightarrow> k \<in> natural_keys lt)"
    by blast
  from extract_unique_ids_inv [OF e1(2) refs] have
    inv: "py_distinct rids" "storable_atoms rids" "py_distinct pids" "storable_atoms pids"
    by blast+
  show ?thesis
  proof (cases "connects cv en2")
    case False
    from run_etl_not_connects [OF this, of w1] show ?thesis by auto
  next
    case True
    then obtain facts2 rids2 pids2 rm2 pm2 where
      e2: "extract_all_launches en2 = Inr facts2" "extract_unique_ids facts2 = Inr (rids2, pids2)"
          "fetch_rockets cv en2 rids2 = Inr rm2" "fetch_launchpads cv en2 pids2 = Inr pm2" and
      run2: "run_etl cv en2 w1 =
       (fst (load_all cv en2 (store w1) facts2 rm2 pm2),
        w1\<lparr>store := snd (load_all cv en2 (store w1) facts2 rm2 pm2),
          conn_log := conn_log w1 @ [Opened, Closed]\<rparr>)"
      by (rule connectsD) (rule that, assumption+, rule run_etl_connected)
    from e2(1) e1(1) have f2: "facts2 = facts"
      unfolding extract_all_launches_cong [OF same] by simp
    from e2(2) e1(2) have i2: "rids2 = rids" "pids2 = pids" unfolding f2 by simp_all
    note e2 = e2 [unfolded f2 i2] and run2 = run2 [unfolded f2]
    have rk: "\<forall>x \<in> set rm2. \<forall>k p. key_of rocket_params (rocket_cells cv) x k p
               \<longrightarrow> k \<noteq> None \<and> k \<in> natural_keys rt"
    proof (rule refetched_keys_present [OF e1(3) [unfolded fetch_rockets_def]
          e2(3) [unfolded fetch_rockets_def] p1 p2 inv(1,2) A])
      fix a v k p assume "key_of rocket_params (rocket_cells cv) (a, v) k p"
      from rocket_key_of [OF this] show "atom_key cv a = Inr k" by blast
    qed
    have pk: "\<forall>x \<in> set pm2. \<forall>k p. key_of launchpad_params (launchpad_cells cv) x k p
               \<longrightarrow> k \<noteq> None \<and> k \<in> natural_keys pt"
    proof (rule refetched_keys_present [OF e1(4) [unfolded fetch_launchpads_def]
          e2(4) [unfolded fetch_launchpads_def] p1 p2 inv(3,4) B])
      fix a v k p assume "key_of launchpad_params (launchpad_cells cv) (a, v) k p"
      from launchpad_key_of [OF this] show "atom_key cv a = Inr k" by blast
    qed
    have lk: "\<forall>l \<in> set facts. \<forall>k. launch_key cv l = Inr k \<longrightarrow> k \<noteq> None \<and> k \<in> natural_keys lt"
    proof (intro ballI allI impI)
      fix l k assume l: "l \<in> set facts" and k: "launch_key cv l = Inr k"
      from l ids have "py_get l ''id'' \<noteq> Inr JNull \<and> py_get l ''id'' \<noteq> Inr (JFloat NaN)"
        unfolding ids_present_def by blast
      from launch_key_present [OF k this] have kn: "k \<noteq> None" .
      from C l obtain k1 where "launch_key cv l = Inr k1" "k1 \<noteq> None \<longrightarrow> k1 \<in> natural_keys lt"
        by blast
      with k kn show "k \<noteq> None \<and> k \<in> natural_keys lt" by simp
    qed
    from load_all_saturated [OF t rk pk lk, of en2] show ?thesis
      unfolding run2 by simp
  qed
qed

lemma ex_one_extract:
  "extract_all_launches ex_env_one = Inr [JObj [(''id'', JStr ''L1''), (''rocket'', JStr ''r1'')]]"
  by (simp add: extract_all_launches_def get_json_def ex_env_one_def)

lemma ex_one_run:
  "run_etl ex_conversions ex_env_one ex_world0 = (Inr (), ex_one_world)"
  by (simp add: run_eval_defs dim_eval_defs eval_defs id_map_def set_add_def url_of_def BASE_URL_def
        ex_env_one_def ex_world0_def ex_one_world_def ex_one_db_def)

theorem rerun_idempotent_example:
  "run_etl ex_conversions ex_env_one ex_world0 = (Inr (), ex_one_world)
   \<and> permutes ex_env_one
   \<and> ids_present [JObj [(''id'', JStr ''L1''), (''rocket'', JStr ''r1'')]]
   \<and> refs_storable [JObj [(''id'', JStr ''L1''), (''rocket'', JStr ''r1'')]]
   \<and> contents (store (snd (run_etl ex_conversions ex_env_one ex_one_world)))
       = contents (store ex_one_world)"
proof -
  have p: "permutes ex_env_one" by (simp add: permutes_def ex_env_one_def)
  have i: "ids_present [JObj [(''id'', JStr ''L1''), (''rocket'', JStr ''r1'')]]"
    by (simp add: ids_present_def)
  have r: "refs_storable [JObj [(''id'', JStr ''L1''), (''rocket'', JStr ''r1'')]]"
    by (simp add: refs_storable_def)
  from rerun_idempotent [OF ex_one_run refl p p ex_one_extract i r] ex_one_run p i r
  show ?thesis by blast
qed

lemma ex_nan_id_run1:
  "run_etl ex_conversions ex_env_nan_id ex_world0 = (Inr (), ex_world1)"
  by (simp add: run_eval_defs dim_eval_defs eval_defs id_map_def ex_env_nan_id_def ex_world0_def
        ex_world1_def ex_anonymous_db1_def ex_empty_db_def)

lemma ex_nan_id_run2:
  "run_etl ex_conversions ex_env_nan_id ex_world1 = (Inr (), ex_world2)"
  by (simp add: run_eval_defs dim_eval_defs eval_defs id_map_def ex_env_nan_id_def ex_world1_def
        ex_world2_def ex_anonymous_db1_def ex_anonymous_db2_def ex_empty_db_def)

lemma ex_nan_ref_run1:
  "run_etl ex_conversions ex_env_nan_ref ex_world0 = (Inr (), ex_nan_world1)"
  by (simp add: run_eval_defs dim_eval_defs eval_defs id_map_def set_add_def
        ex_env_nan_ref_def ex_world0_def ex_nan_world1_def ex_nan_rockets_def
        ex_one_launch_def ex_conversions_def url_of_def)

lemma ex_nan_ref_run2:
  "run_etl ex_conversions ex_env_nan_ref ex_nan_world1 = (Inr (), ex_nan_world2)"
  by (simp add: run_eval_defs dim_eval_defs eval_defs id_map_def set_add_def
        ex_env_nan_ref_def ex_nan_world1_def ex_nan_world2_def ex_nan_rockets_def ex_nan_rockets2_def
        ex_one_launch_def ex_conversions_def url_of_def)

text \<open>
  C2, the counterexamples. A launch record with no natural id is inserted again by the
  second run against the same data, and so is one whose id is NaN, which is stored as
  NULL. A rocket fetched for a reference that is NaN is stored with a NULL natural key,
  and the second run stores it again.
\<close>

theorem null_id_duplicated_by_second_run:
  "run_etl ex_conversions ex_env_anonymous ex_world0 = (Inr (), ex_world1)
   \<and> run_etl ex_conversions ex_env_anonymous ex_world1 = (Inr (), ex_world2)
   \<and> map row_id (rows (the (launches (store ex_world1)))) = [1]
   \<and> map row_id (rows (the (launches (store ex_world2)))) = [1, 2]
   \<and> map row_spacex_id (rows (the (launches (store ex_world2)))) = [None, None]
   \<and> run_etl ex_conversions ex_env_nan_id ex_world0 = (Inr (), ex_world1)
   \<and> run_etl ex_conversions ex_env_nan_id ex_world1 = (Inr (), ex_world2)
   \<and> run_etl ex_conversions ex_env_nan_ref ex_world0 = (Inr (), ex_nan_world1)
   \<and> run_etl ex_conversions ex_env_nan_ref ex_nan_world1 = (Inr (), ex_nan_world2)
   \<and> map row_id (rows (the (rockets (store ex_nan_world1)))) = [1]
   \<and> map row_id (rows (the (rockets (store ex_nan_world2)))) = [1, 2]
   \<and> map row_spacex_id (rows (the (rockets (store ex_nan_world2)))) = [None, None]"
  using ex_anonymous_run1 ex_anonymous_run2 ex_nan_id_run1 ex_nan_id_run2 ex_nan_ref_run1 ex_nan_ref_run2
  by (simp add: ex_world1_def ex_world2_def ex_anonymous_db1_def ex_anonymous_db2_def
        ex_nan_world1_def ex_nan_world2_def ex_nan_rockets_def ex_nan_rockets2_def)

end
